theory Spec2Isabelle
  imports Main "HOL-Library.Word"
begin

section \<open>Table-descriptor construction for CREATE TABLE (pkg/sql/create\_table.go)\<close>

text \<open>
  A shallow embedding of the parts of \<^verbatim>\<open>pkg/sql/create_table.go\<close> that build hash-shard
  columns, attach interleave ancestors, resolve foreign keys and decide the initial state of
  a new table. Functions of other packages (\<^verbatim>\<open>tabledesc\<close>, \<^verbatim>\<open>resolver\<close>, \<^verbatim>\<open>tree\<close>,
  \<^verbatim>\<open>sqlerrors\<close>, ...) are not part of the sources at hand; they appear as parameters of
  the functions that call them, so every theorem holds for whatever they compute.
\<close>

subsection \<open>Errors\<close>

text \<open>
  \<^verbatim>\<open>pgerror.Newf(code, format, args...)\<close> is kept as its code and its format string (the
  formatted arguments only feed the message). Errors returned by collaborators are opaque.
  A Go run-time panic (index out of range, nil dereference) is a value of its own.
\<close>

datatype pgcode =
    InvalidForeignKey
  | InvalidTableDefinition
  | InvalidSchemaDefinition
  | Syntax
  | DatatypeMismatch
  | DuplicateObject
  | ForeignKeyViolation
  | FeatureNotSupported
  | InsufficientPrivilege
  | DuplicateRelation

datatype error =
    PgError pgcode string
  | UnimplementedIssue nat string
  | AssertionFailed string
  | Collaborator string
  | Panic string

subsection \<open>The fragment of the expression syntax tree that the shard helpers build\<close>

datatype T = types_Int | types_Int4 | types_String | types_Other string

datatype BinaryOperator = Plus | Minus | Mult

datatype ComparisonOperator = EQ | In | NotIn

text \<open>\<^verbatim>\<open>tree.UnresolvedName\<close>: \<^verbatim>\<open>Parts\<close> is an array of four strings.\<close>

datatype UnresolvedName = UnresolvedName (NumParts: nat) (Parts: "string list")

text \<open>
  \<^verbatim>\<open>tree.Expr\<close> is an interface; \<open>NilExpr\<close> is its nil value. \<open>NumVal\<close> carries the
  constant, the original string and the \<^verbatim>\<open>negative\<close> flag.
\<close>

datatype Expr =
    NilExpr
  | FuncExpr UnresolvedName "Expr list"
  | CoalesceExpr string "Expr list"
  | CastExpr Expr T
  | ColumnItem string
  | DString string
  | DInt int
  | BinaryExpr BinaryOperator Expr Expr
  | Tuple "Expr list"
  | NumVal int string bool
  | ComparisonExpr ComparisonOperator Expr Expr

subsection \<open>makeHashShardComputeExpr\<close>

definition unresolvedFunc :: "string \<Rightarrow> UnresolvedName" where
  "unresolvedFunc funcName = UnresolvedName 1 [funcName, '''', '''', '''']"

definition hashedColumnExpr :: "string \<Rightarrow> Expr" where
  "hashedColumnExpr colName =
     FuncExpr (unresolvedFunc ''fnv32'')
       [CoalesceExpr ''COALESCE'' [CastExpr (ColumnItem colName) types_String, DString '''']]"

text \<open>
  The loop \<^verbatim>\<open>for i := len(colNames) - 1; i >= 0; i--\<close>. The counter of the model is
  \<open>i + 1\<close>, so that it stops at \<open>0\<close>; \<open>expr\<close> starts as nil.
\<close>

fun hashSumLoop :: "string list \<Rightarrow> nat \<Rightarrow> Expr \<Rightarrow> Expr" where
  "hashSumLoop colNames 0 expr = expr"
| "hashSumLoop colNames (Suc i) expr =
     hashSumLoop colNames i
       (if expr = NilExpr then hashedColumnExpr (colNames ! i)
        else BinaryExpr Plus (hashedColumnExpr (colNames ! i)) expr)"

text \<open>
  \<^verbatim>\<open>tree.Serialize\<close> belongs to the \<^verbatim>\<open>tree\<close> package and is a parameter. Go's \<^verbatim>\<open>int\<close>
  is modelled by \<open>int\<close>: the function does no arithmetic on \<^verbatim>\<open>buckets\<close>.
\<close>

definition makeHashShardComputeExpr :: "(Expr \<Rightarrow> string) \<Rightarrow> string list \<Rightarrow> int \<Rightarrow> string" where
  "makeHashShardComputeExpr Serialize colNames buckets =
     Serialize (FuncExpr (unresolvedFunc ''mod'')
       [hashSumLoop colNames (length colNames) NilExpr, DInt buckets])"

text \<open>
  The sum as the specification words it: the hashed columns added up in the order of the
  column list (nothing at all for an empty list).
\<close>

fun sumOfHashedColumns :: "string list \<Rightarrow> Expr" where
  "sumOfHashedColumns [] = NilExpr"
| "sumOfHashedColumns [c] = hashedColumnExpr c"
| "sumOfHashedColumns (c # cs) = BinaryExpr Plus (hashedColumnExpr c) (sumOfHashedColumns cs)"

lemma hashedColumnExpr_not_nil: "hashedColumnExpr c \<noteq> NilExpr"
  by (simp add: hashedColumnExpr_def)

lemma sumOfHashedColumns_nil_iff: "sumOfHashedColumns cs = NilExpr \<longleftrightarrow> cs = []"
  by (induction cs rule: sumOfHashedColumns.induct) (simp_all add: hashedColumnExpr_def)

lemma sumOfHashedColumns_Cons:
  "sumOfHashedColumns (c # cs) =
     (if sumOfHashedColumns cs = NilExpr then hashedColumnExpr c
      else BinaryExpr Plus (hashedColumnExpr c) (sumOfHashedColumns cs))"
  by (cases cs) (simp_all add: sumOfHashedColumns_nil_iff)

lemma hashSumLoop_drop:
  "k \<le> length cs \<Longrightarrow> e = sumOfHashedColumns (drop k cs) \<Longrightarrow>
     hashSumLoop cs k e = sumOfHashedColumns cs"
proof (induction k arbitrary: e)
  case 0
  then show ?case by simp
next
  case (Suc k)
  from Suc.prems have lt: "k < length cs" by simp
  then have d: "drop k cs = cs ! k # drop (Suc k) cs"
    by (simp add: Cons_nth_drop_Suc)
  have "hashSumLoop cs (Suc k) e =
          hashSumLoop cs k (sumOfHashedColumns (drop k cs))"
    using Suc.prems(2) by (simp add: d sumOfHashedColumns_Cons)
  also have "\<dots> = sumOfHashedColumns cs"
    using lt by (intro Suc.IH) simp_all
  finally show ?case .
qed

lemma hashSumLoop_all: "hashSumLoop cs (length cs) NilExpr = sumOfHashedColumns cs"
  by (rule hashSumLoop_drop) simp_all

text \<open>
  C3. \<^verbatim>\<open>makeHashShardComputeExpr\<close> is a function of the column list and the bucket count
  alone: its result is the serialization of \<open>mod(s, buckets)\<close>, where \<open>s\<close> is the sum of
  \<open>fnv32(COALESCE(c::STRING, ''))\<close> over the columns \<open>c\<close> in the order of the list. For
  \<open>(["a", "b"], 4)\<close> it is the serialization of
  \<open>mod(fnv32(COALESCE(a::STRING, '')) + fnv32(COALESCE(b::STRING, '')), 4)\<close>.
\<close>

theorem makeHashShardComputeExpr_deterministic:
  "makeHashShardComputeExpr Serialize colNames buckets =
     Serialize (FuncExpr (UnresolvedName 1 [''mod'', '''', '''', ''''])
                  [sumOfHashedColumns colNames, DInt buckets])
   \<and> makeHashShardComputeExpr Serialize [''a'', ''b''] 4 =
     Serialize (FuncExpr (UnresolvedName 1 [''mod'', '''', '''', ''''])
       [BinaryExpr Plus
          (FuncExpr (UnresolvedName 1 [''fnv32'', '''', '''', ''''])
             [CoalesceExpr ''COALESCE'' [CastExpr (ColumnItem ''a'') types_String, DString '''']])
          (FuncExpr (UnresolvedName 1 [''fnv32'', '''', '''', ''''])
             [CoalesceExpr ''COALESCE'' [CastExpr (ColumnItem ''b'') types_String, DString '''']]),
        DInt 4])"
  by (simp add: makeHashShardComputeExpr_def hashSumLoop_all unresolvedFunc_def
      hashedColumnExpr_def)

subsection \<open>Descriptors\<close>

text \<open>
  The fields of the \<^verbatim>\<open>descpb\<close> messages that the functions below read or write.
  \<^verbatim>\<open>descpb.ID\<close>, \<^verbatim>\<open>ColumnID\<close> and \<^verbatim>\<open>IndexID\<close> are \<^verbatim>\<open>uint32\<close>.
\<close>

type_synonym ID = "32 word"
type_synonym ColumnID = "32 word"
type_synonym IndexID = "32 word"

record ColumnDescriptor =
  col_Name :: string
  col_ID :: ColumnID
  col_Type :: T
  col_Nullable :: bool
  col_DefaultExpr :: "string option"
  col_Hidden :: bool
  col_ComputeExpr :: "string option"

datatype IndexDescriptor_Direction = ASC | DESC

record InterleaveDescriptor_Ancestor =
  anc_TableID :: ID
  anc_IndexID :: IndexID
  anc_SharedPrefixLen :: "32 word"

record ForeignKeyReference =
  ref_Table :: ID
  ref_Index :: IndexID

record IndexDescriptor =
  idx_Name :: string
  idx_ID :: IndexID
  idx_Unique :: bool
  idx_ColumnNames :: "string list"
  idx_ColumnDirections :: "IndexDescriptor_Direction list"
  idx_ColumnIDs :: "ColumnID list"
  idx_Interleave_Ancestors :: "InterleaveDescriptor_Ancestor list"
  idx_InterleavedBy :: "ForeignKeyReference list"

text \<open>The zero value of \<^verbatim>\<open>descpb.ConstraintValidity\<close> is \<open>Validated\<close>.\<close>

datatype ConstraintValidity = Validated | Unvalidated | Validating | Dropping

datatype ForeignKeyReference_Action = NO_ACTION | RESTRICT | SET_NULL | SET_DEFAULT | CASCADE

datatype ForeignKeyReference_Match = SIMPLE | FULL | PARTIAL

record ForeignKeyConstraint =
  fk_OriginTableID :: ID
  fk_OriginColumnIDs :: "ColumnID list"
  fk_ReferencedColumnIDs :: "ColumnID list"
  fk_ReferencedTableID :: ID
  fk_Name :: string
  fk_Validity :: ConstraintValidity
  fk_OnDelete :: ForeignKeyReference_Action
  fk_OnUpdate :: ForeignKeyReference_Action
  fk_Match :: ForeignKeyReference_Match

datatype DescriptorState = PUBLIC | ADD | DROP | OFFLINE

datatype DescriptorMutation_Direction = Mutation_NONE | Mutation_ADD | Mutation_DROP

datatype Mutation_Descriptor =
    Mutation_Column ColumnDescriptor
  | Mutation_Index IndexDescriptor
  | Mutation_Constraint ForeignKeyConstraint

record DescriptorMutation =
  mut_Descriptor :: Mutation_Descriptor
  mut_Direction :: DescriptorMutation_Direction

record TableDescriptor =
  tbl_ID :: ID
  tbl_ParentID :: ID
  tbl_Name :: string
  tbl_Temporary :: bool
  tbl_State :: DescriptorState
  tbl_Columns :: "ColumnDescriptor list"
  tbl_PrimaryIndex :: IndexDescriptor
  tbl_Indexes :: "IndexDescriptor list"
  tbl_OutboundFKs :: "ForeignKeyConstraint list"
  tbl_InboundFKs :: "ForeignKeyConstraint list"
  tbl_Mutations :: "DescriptorMutation list"

subsection \<open>Shard column and shard check constraint\<close>




record CheckConstraintTableDef =
  ck_Name :: string
  ck_Expr :: Expr
  ck_Hidden :: bool




subsection \<open>The hash-sharded primary key column in the column pass of NewTableDesc\<close>

text \<open>
  The column definitions of \<^verbatim>\<open>tree.CreateTable\<close>, as far as the sharding block reads them,
  and the table definitions that the block can append to \<^verbatim>\<open>n.Defs\<close>.
\<close>

record ColumnTableDef =
  ctd_Name :: string
  ctd_PrimaryKey_Sharded :: bool
  ctd_PrimaryKey_ShardBuckets :: Expr

datatype TableDef =
    ColumnDef ColumnTableDef
  | CheckDef CheckConstraintTableDef
  | OtherDef string

text \<open>
  What the block takes from its surroundings: the session setting, the error value
  \<^verbatim>\<open>hashShardedIndexesDisabledError\<close>, and the functions of \<^verbatim>\<open>tabledesc\<close> and \<^verbatim>\<open>tree\<close>.
  \<^verbatim>\<open>EvalShardBucketCount\<close> returns an \<^verbatim>\<open>int32\<close>.
\<close>

record shard_env =
  GetShardColumnName :: "string list \<Rightarrow> 32 word \<Rightarrow> string"
  Serialize :: "Expr \<Rightarrow> string"
  EvalShardBucketCount :: "Expr \<Rightarrow> error + 32 word"
  HashShardedIndexesEnabled :: bool
  hashShardedIndexesDisabledError :: error



text \<open>Concrete values on which the block is run.\<close>

definition emptyIndex :: IndexDescriptor where
  "emptyIndex = \<lparr> idx_Name = '''', idx_ID = 0, idx_Unique = False, idx_ColumnNames = [],
     idx_ColumnDirections = [], idx_ColumnIDs = [], idx_Interleave_Ancestors = [],
     idx_InterleavedBy = [] \<rparr>"

definition emptyTable :: TableDescriptor where
  "emptyTable = \<lparr> tbl_ID = 0, tbl_ParentID = 0, tbl_Name = '''', tbl_Temporary = False,
     tbl_State = PUBLIC, tbl_Columns = [], tbl_PrimaryIndex = emptyIndex, tbl_Indexes = [],
     tbl_OutboundFKs = [], tbl_InboundFKs = [], tbl_Mutations = [] \<rparr>"







subsection \<open>addInterleave\<close>

datatype DropBehavior = DropDefault | DropRestrict | DropCascade

text \<open>\<^verbatim>\<open>tree.InterleaveDef\<close>; a table name is kept as a string.\<close>

record InterleaveDef =
  ild_Parent :: string
  ild_Fields :: "string list"
  ild_DropBehavior :: DropBehavior

text \<open>
  The collaborators of \<^verbatim>\<open>addInterleave\<close>: the resolver (with the lookup flags of the call),
  \<^verbatim>\<open>FindColumnByID\<close> of a table descriptor and \<^verbatim>\<open>Identical\<close> of \<^verbatim>\<open>types.T\<close>.
\<close>

record interleave_env =
  ResolveExistingTableObject :: "string \<Rightarrow> error + TableDescriptor"
  FindColumnByID :: "TableDescriptor \<Rightarrow> ColumnID \<Rightarrow> error + ColumnDescriptor"
  Identical :: "T \<Rightarrow> T \<Rightarrow> bool"

text \<open>
  The loop \<^verbatim>\<open>for i, targetColID := range parentIndex.ColumnIDs\<close>. A slice read out of
  range panics; \<^verbatim>\<open>||\<close> evaluates its right operand only when the left one is false.
\<close>

fun interleaveColumnsLoop ::
  "interleave_env \<Rightarrow> TableDescriptor \<Rightarrow> IndexDescriptor \<Rightarrow> TableDescriptor
     \<Rightarrow> IndexDescriptor \<Rightarrow> InterleaveDef \<Rightarrow> nat \<Rightarrow> ColumnID list \<Rightarrow> error option" where
  "interleaveColumnsLoop env parentTable parentIndex desc index interleave i [] = None"
| "interleaveColumnsLoop env parentTable parentIndex desc index interleave i (targetColID # rest) =
     (case FindColumnByID env parentTable targetColID of
        Inl err \<Rightarrow> Some err
      | Inr targetCol \<Rightarrow>
          if length (idx_ColumnIDs index) \<le> i then Some (Panic ''index out of range'')
          else
            (case FindColumnByID env desc (idx_ColumnIDs index ! i) of
               Inl err \<Rightarrow> Some err
             | Inr col \<Rightarrow>
                 if length (ild_Fields interleave) \<le> i then Some (Panic ''index out of range'')
                 else if ild_Fields interleave ! i \<noteq> col_Name col then
                   Some (PgError InvalidSchemaDefinition
                     ''declared interleaved columns (%s) must refer to a prefix of the %s column names being interleaved (%s)'')
                 else if \<not> Identical env (col_Type col) (col_Type targetCol) then
                   Some (PgError InvalidSchemaDefinition
                     ''declared interleaved columns (%s) must match type and sort direction of the parent's primary index (%s)'')
                 else if length (idx_ColumnDirections index) \<le> i
                         \<or> length (idx_ColumnDirections parentIndex) \<le> i then
                   Some (Panic ''index out of range'')
                 else if idx_ColumnDirections index ! i \<noteq> idx_ColumnDirections parentIndex ! i then
                   Some (PgError InvalidSchemaDefinition
                     ''declared interleaved columns (%s) must match type and sort direction of the parent's primary index (%s)'')
                 else
                   interleaveColumnsLoop env parentTable parentIndex desc index interleave
                     (Suc i) rest))"

text \<open>The loop \<^verbatim>\<open>intl.SharedPrefixLen -= ancestor.SharedPrefixLen\<close>, in \<^verbatim>\<open>uint32\<close>.\<close>

fun subtractAncestorPrefixes ::
  "32 word \<Rightarrow> InterleaveDescriptor_Ancestor list \<Rightarrow> 32 word" where
  "subtractAncestorPrefixes len [] = len"
| "subtractAncestorPrefixes len (ancestor # rest) =
     subtractAncestorPrefixes (len - anc_SharedPrefixLen ancestor) rest"

text \<open>
  \<^verbatim>\<open>addInterleave\<close> writes through its two pointers \<^verbatim>\<open>desc\<close> and \<^verbatim>\<open>index\<close>; the model
  returns the error (\<open>None\<close> for nil) and both objects. All reads come before the two
  writes, so it does not matter to the function whether \<^verbatim>\<open>index\<close> points into \<^verbatim>\<open>desc\<close>.
\<close>

definition addInterleave ::
  "interleave_env \<Rightarrow> TableDescriptor \<Rightarrow> IndexDescriptor \<Rightarrow> InterleaveDef
     \<Rightarrow> error option \<times> TableDescriptor \<times> IndexDescriptor" where
  "addInterleave env desc index interleave =
     (if ild_DropBehavior interleave \<noteq> DropDefault then
        (Some (UnimplementedIssue 7854 ''unsupported shorthand %s''), desc, index)
      else
        (case ResolveExistingTableObject env (ild_Parent interleave) of
           Inl err \<Rightarrow> (Some err, desc, index)
         | Inr parentTable \<Rightarrow>
             let parentIndex = tbl_PrimaryIndex parentTable in
             if length (ild_Fields interleave) \<noteq> length (idx_ColumnIDs parentIndex) then
               (Some (PgError InvalidSchemaDefinition
                  ''declared interleaved columns (%s) must match the parent's primary index (%s)''),
                desc, index)
             else if length (ild_Fields interleave) > length (idx_ColumnIDs index) then
               (Some (PgError InvalidSchemaDefinition
                  ''declared interleaved columns (%s) must be a prefix of the %s columns being interleaved (%s)''),
                desc, index)
             else
               (case interleaveColumnsLoop env parentTable parentIndex desc index interleave 0
                       (idx_ColumnIDs parentIndex) of
                  Some err \<Rightarrow> (Some err, desc, index)
                | None \<Rightarrow>
                    let ancestorPrefix = idx_Interleave_Ancestors parentIndex;
                        intl = \<lparr> anc_TableID = tbl_ID parentTable,
                                 anc_IndexID = idx_ID parentIndex,
                                 anc_SharedPrefixLen =
                                   subtractAncestorPrefixes
                                     (of_nat (length (idx_ColumnIDs parentIndex)))
                                     ancestorPrefix \<rparr>
                    in (None,
                        desc\<lparr>tbl_State := ADD\<rparr>,
                        index\<lparr>idx_Interleave_Ancestors := ancestorPrefix @ [intl]\<rparr>))))"

text \<open>
  The call of NewTableDesc, \<^verbatim>\<open>addInterleave(ctx, txn, vt, &desc, &desc.PrimaryIndex, ...)\<close>:
  the index is the primary index of the descriptor itself.
\<close>

definition addInterleavePrimaryIndex ::
  "interleave_env \<Rightarrow> TableDescriptor \<Rightarrow> InterleaveDef \<Rightarrow> error option \<times> TableDescriptor" where
  "addInterleavePrimaryIndex env desc interleave =
     (case addInterleave env desc (tbl_PrimaryIndex desc) interleave of
        (err, desc', index') \<Rightarrow> (err, desc'\<lparr>tbl_PrimaryIndex := index'\<rparr>))"

text \<open>
  The condition under which the loop lets position \<open>i\<close> pass: both columns are found, the
  declared field is the name of the child's column, the two types are identical and the two
  directions are equal.
\<close>

definition interleavePositionMatches ::
  "interleave_env \<Rightarrow> TableDescriptor \<Rightarrow> IndexDescriptor \<Rightarrow> TableDescriptor
     \<Rightarrow> IndexDescriptor \<Rightarrow> InterleaveDef \<Rightarrow> nat \<Rightarrow> bool" where
  "interleavePositionMatches env parentTable parentIndex desc index interleave i =
     (case FindColumnByID env parentTable (idx_ColumnIDs parentIndex ! i) of
        Inl err \<Rightarrow> False
      | Inr targetCol \<Rightarrow>
          (case FindColumnByID env desc (idx_ColumnIDs index ! i) of
             Inl err \<Rightarrow> False
           | Inr col \<Rightarrow>
               ild_Fields interleave ! i = col_Name col
               \<and> Identical env (col_Type col) (col_Type targetCol)
               \<and> i < length (idx_ColumnDirections index)
               \<and> i < length (idx_ColumnDirections parentIndex)
               \<and> idx_ColumnDirections index ! i = idx_ColumnDirections parentIndex ! i))"

text \<open>Concrete descriptors on which \<^verbatim>\<open>addInterleave\<close> is run.\<close>

definition lookupColumnByID :: "TableDescriptor \<Rightarrow> ColumnID \<Rightarrow> error + ColumnDescriptor" where
  "lookupColumnByID desc c =
     (case find (\<lambda>col. col_ID col = c) (tbl_Columns desc) of
        None \<Rightarrow> Inl (Collaborator ''column-id does not exist'')
      | Some col \<Rightarrow> Inr col)"

definition intColumn :: "string \<Rightarrow> ColumnID \<Rightarrow> bool \<Rightarrow> ColumnDescriptor" where
  "intColumn name c nullable =
     \<lparr> col_Name = name, col_ID = c, col_Type = types_Int, col_Nullable = nullable,
       col_DefaultExpr = None, col_Hidden = False, col_ComputeExpr = None \<rparr>"

definition grandparentAncestor :: InterleaveDescriptor_Ancestor where
  "grandparentAncestor = \<lparr> anc_TableID = 51, anc_IndexID = 1, anc_SharedPrefixLen = 1 \<rparr>"

definition interleaveParent :: TableDescriptor where
  "interleaveParent = emptyTable
     \<lparr> tbl_ID := 52, tbl_ParentID := 50, tbl_Name := ''parent'',
       tbl_Columns := [intColumn ''g'' 1 False, intColumn ''x'' 2 False],
       tbl_PrimaryIndex := emptyIndex
         \<lparr> idx_Name := ''primary'', idx_ID := 1, idx_Unique := True,
           idx_ColumnNames := [''g'', ''x''], idx_ColumnDirections := [ASC, DESC],
           idx_ColumnIDs := [1, 2], idx_Interleave_Ancestors := [grandparentAncestor] \<rparr> \<rparr>"

definition interleaveChild :: TableDescriptor where
  "interleaveChild = emptyTable
     \<lparr> tbl_ID := 53, tbl_ParentID := 50, tbl_Name := ''child'',
       tbl_Columns := [intColumn ''g'' 1 False, intColumn ''a'' 2 False,
                       intColumn ''b'' 3 False],
       tbl_PrimaryIndex := emptyIndex
         \<lparr> idx_Name := ''primary'', idx_ID := 1, idx_Unique := True,
           idx_ColumnNames := [''g'', ''a'', ''b''],
           idx_ColumnDirections := [ASC, DESC, ASC],
           idx_ColumnIDs := [1, 2, 3] \<rparr> \<rparr>"

definition interleaveEnv :: interleave_env where
  "interleaveEnv =
     \<lparr> ResolveExistingTableObject = (\<lambda>name.
         if name = ''parent'' then Inr interleaveParent
         else Inl (Collaborator ''relation does not exist'')),
       FindColumnByID = lookupColumnByID,
       Identical = (=) \<rparr>"

definition interleaveInParent :: "DropBehavior \<Rightarrow> InterleaveDef" where
  "interleaveInParent behavior =
     \<lparr> ild_Parent = ''parent'', ild_Fields = [''g'', ''a''], ild_DropBehavior = behavior \<rparr>"

lemma interleaveColumnsLoop_None_iff:
  "interleaveColumnsLoop env parentTable parentIndex desc index interleave i rest = None \<longleftrightarrow>
     (\<forall>k < length rest.
        (case FindColumnByID env parentTable (rest ! k) of
           Inl err \<Rightarrow> False
         | Inr targetCol \<Rightarrow>
             i + k < length (idx_ColumnIDs index) \<and>
             (case FindColumnByID env desc (idx_ColumnIDs index ! (i + k)) of
                Inl err \<Rightarrow> False
              | Inr col \<Rightarrow>
                  i + k < length (ild_Fields interleave)
                  \<and> ild_Fields interleave ! (i + k) = col_Name col
                  \<and> Identical env (col_Type col) (col_Type targetCol)
                  \<and> i + k < length (idx_ColumnDirections index)
                  \<and> i + k < length (idx_ColumnDirections parentIndex)
                  \<and> idx_ColumnDirections index ! (i + k)
                      = idx_ColumnDirections parentIndex ! (i + k))))"
proof (induction rest arbitrary: i)
  case Nil
  then show ?case by simp
next
  case (Cons c rest)
  show ?case
    by (simp add: Cons.IH All_less_Suc2 split: sum.splits)
qed

lemma interleaveColumnsLoop_error_code:
  assumes "interleaveColumnsLoop env parentTable parentIndex desc index interleave i rest = Some err"
    and "\<forall>c \<in> set rest. \<exists>col. FindColumnByID env parentTable c = Inr col"
    and "\<forall>c \<in> set (idx_ColumnIDs index). \<exists>col. FindColumnByID env desc c = Inr col"
    and "i + length rest \<le> length (idx_ColumnIDs index)"
    and "i + length rest \<le> length (ild_Fields interleave)"
    and "i + length rest \<le> length (idx_ColumnDirections index)"
    and "i + length rest \<le> length (idx_ColumnDirections parentIndex)"
  shows "\<exists>msg. err = PgError InvalidSchemaDefinition msg"
  using assms
proof (induction rest arbitrary: i)
  case Nil
  then show ?case by simp
next
  case (Cons c rest)
  from Cons.prems(2) obtain targetCol where t: "FindColumnByID env parentTable c = Inr targetCol"
    by auto
  from Cons.prems(4) have i: "i < length (idx_ColumnIDs index)" by simp
  with Cons.prems(3) obtain col where
    c: "FindColumnByID env desc (idx_ColumnIDs index ! i) = Inr col"
    by (meson nth_mem)
  show ?case
  proof (cases "interleaveColumnsLoop env parentTable parentIndex desc index interleave
                  (Suc i) rest = Some err")
    case True
    then show ?thesis
      using Cons.prems by (intro Cons.IH [of "Suc i"]) simp_all
  next
    case False
    then show ?thesis
      using Cons.prems(1,4-7) t c i by (auto split: if_splits)
  qed
qed

lemma subtractAncestorPrefixes_sum:
  "subtractAncestorPrefixes len ancestors = len - sum_list (map anc_SharedPrefixLen ancestors)"
  by (induction ancestors arbitrary: len) (simp_all add: diff_diff_eq)

lemma unat_sum_list_word:
  "sum_list (map (\<lambda>a. unat (f a)) xs) < 2 ^ 32 \<Longrightarrow>
     unat (sum_list (map f xs) :: 32 word) = sum_list (map (\<lambda>a. unat (f a)) xs)"
proof (induction xs)
  case Nil
  then show ?case by simp
next
  case (Cons x xs)
  then have "sum_list (map (\<lambda>a. unat (f a)) xs) < 2 ^ 32" by simp
  with Cons.IH have ih: "unat (sum_list (map f xs)) = sum_list (map (\<lambda>a. unat (f a)) xs)"
    by simp
  have "unat (f x + sum_list (map f xs)) = (unat (f x) + unat (sum_list (map f xs))) mod 2 ^ 32"
    by (simp add: unat_word_ariths)
  also have "\<dots> = unat (f x) + sum_list (map (\<lambda>a. unat (f a)) xs)"
    using Cons.prems by (simp add: ih)
  finally show ?case by simp
qed

lemma unat_prefix_len:
  fixes s :: "32 word"
  assumes "unat s \<le> n" and "n < 2 ^ 32"
  shows "unat (of_nat n - s) = n - unat s"
proof -
  have "(of_nat n :: 32 word) - s = of_nat n - of_nat (unat s)" by simp
  also have "\<dots> = of_nat (n - unat s)" using assms(1) by simp
  finally have "unat (of_nat n - s) = unat (of_nat (n - unat s) :: 32 word)" by simp
  also have "\<dots> = n - unat s"
    using assms(2) by (simp add: unat_of_nat)
  finally show ?thesis .
qed

lemma interleaveColumnsLoop_positions:
  assumes "length (ild_Fields interleave) = length (idx_ColumnIDs parentIndex)"
    and "length (ild_Fields interleave) \<le> length (idx_ColumnIDs index)"
  shows "interleaveColumnsLoop env parentTable parentIndex desc index interleave 0
           (idx_ColumnIDs parentIndex) = None \<longleftrightarrow>
         (\<forall>i < length (ild_Fields interleave).
            interleavePositionMatches env parentTable parentIndex desc index interleave i)"
proof -
  have "\<And>k. k < length (ild_Fields interleave) \<Longrightarrow>
      (case FindColumnByID env parentTable (idx_ColumnIDs parentIndex ! k) of
           Inl err \<Rightarrow> False
         | Inr targetCol \<Rightarrow>
             0 + k < length (idx_ColumnIDs index) \<and>
             (case FindColumnByID env desc (idx_ColumnIDs index ! (0 + k)) of
                Inl err \<Rightarrow> False
              | Inr col \<Rightarrow>
                  0 + k < length (ild_Fields interleave)
                  \<and> ild_Fields interleave ! (0 + k) = col_Name col
                  \<and> Identical env (col_Type col) (col_Type targetCol)
                  \<and> 0 + k < length (idx_ColumnDirections index)
                  \<and> 0 + k < length (idx_ColumnDirections parentIndex)
                  \<and> idx_ColumnDirections index ! (0 + k)
                      = idx_ColumnDirections parentIndex ! (0 + k)))
      = interleavePositionMatches env parentTable parentIndex desc index interleave k"
    using assms(2) by (auto simp add: interleavePositionMatches_def split: sum.splits)
  then show ?thesis
    unfolding interleaveColumnsLoop_None_iff assms(1) [symmetric] by blast
qed

lemma addInterleave_None_iff:
  "fst (addInterleave env desc index interleave) = None \<longleftrightarrow>
     ild_DropBehavior interleave = DropDefault
     \<and> (\<exists>parentTable. ResolveExistingTableObject env (ild_Parent interleave) = Inr parentTable
          \<and> length (ild_Fields interleave) = length (idx_ColumnIDs (tbl_PrimaryIndex parentTable))
          \<and> length (ild_Fields interleave) \<le> length (idx_ColumnIDs index)
          \<and> interleaveColumnsLoop env parentTable (tbl_PrimaryIndex parentTable) desc index
                interleave 0 (idx_ColumnIDs (tbl_PrimaryIndex parentTable)) = None)"
  by (auto simp add: addInterleave_def Let_def split: sum.splits option.splits)

text \<open>
  C2 (as the code has it). \<^verbatim>\<open>addInterleave\<close> returns nil if and only if the drop
  behaviour is the default one, the parent table resolves, the number of interleave fields
  equals the number of columns of the parent's primary index and does not exceed the number
  of columns of the child index, and at every position the two columns are found, the field
  is the name of the child index's column, the child column's type is identical to the
  parent column's and the two sort directions are equal. The names of the parent's columns
  are not compared. When the drop behaviour is the default, the parent resolves, every
  column ID of the two indexes is found and each index has as many directions as columns,
  every failure (a mismatch in count, name, type or direction) carries the code
  InvalidSchemaDefinition.
\<close>

theorem addInterleave_succeeds_iff:
  "(fst (addInterleave env desc index interleave) = None \<longleftrightarrow>
      ild_DropBehavior interleave = DropDefault
      \<and> (case ResolveExistingTableObject env (ild_Parent interleave) of
           Inl err \<Rightarrow> False
         | Inr parentTable \<Rightarrow>
             length (ild_Fields interleave) = length (idx_ColumnIDs (tbl_PrimaryIndex parentTable))
             \<and> length (ild_Fields interleave) \<le> length (idx_ColumnIDs index)
             \<and> (\<forall>i < length (ild_Fields interleave).
                  interleavePositionMatches env parentTable (tbl_PrimaryIndex parentTable)
                    desc index interleave i)))
   \<and> (ild_DropBehavior interleave = DropDefault
        \<and> ResolveExistingTableObject env (ild_Parent interleave) = Inr parentTable
        \<and> (\<forall>c \<in> set (idx_ColumnIDs (tbl_PrimaryIndex parentTable)).
              \<exists>col. FindColumnByID env parentTable c = Inr col)
        \<and> (\<forall>c \<in> set (idx_ColumnIDs index). \<exists>col. FindColumnByID env desc c = Inr col)
        \<and> length (idx_ColumnDirections index) = length (idx_ColumnIDs index)
        \<and> length (idx_ColumnDirections (tbl_PrimaryIndex parentTable))
             = length (idx_ColumnIDs (tbl_PrimaryIndex parentTable))
        \<and> fst (addInterleave env desc index interleave) = Some err
      \<longrightarrow> (\<exists>msg. err = PgError InvalidSchemaDefinition msg))"
proof (rule conjI)
  show "fst (addInterleave env desc index interleave) = None \<longleftrightarrow>
      ild_DropBehavior interleave = DropDefault
      \<and> (case ResolveExistingTableObject env (ild_Parent interleave) of
           Inl err \<Rightarrow> False
         | Inr parentTable \<Rightarrow>
             length (ild_Fields interleave) = length (idx_ColumnIDs (tbl_PrimaryIndex parentTable))
             \<and> length (ild_Fields interleave) \<le> length (idx_ColumnIDs index)
             \<and> (\<forall>i < length (ild_Fields interleave).
                  interleavePositionMatches env parentTable (tbl_PrimaryIndex parentTable)
                    desc index interleave i))"
    by (auto simp add: addInterleave_None_iff interleaveColumnsLoop_positions
        split: sum.splits)
next
  show "ild_DropBehavior interleave = DropDefault
        \<and> ResolveExistingTableObject env (ild_Parent interleave) = Inr parentTable
        \<and> (\<forall>c \<in> set (idx_ColumnIDs (tbl_PrimaryIndex parentTable)).
              \<exists>col. FindColumnByID env parentTable c = Inr col)
        \<and> (\<forall>c \<in> set (idx_ColumnIDs index). \<exists>col. FindColumnByID env desc c = Inr col)
        \<and> length (idx_ColumnDirections index) = length (idx_ColumnIDs index)
        \<and> length (idx_ColumnDirections (tbl_PrimaryIndex parentTable))
             = length (idx_ColumnIDs (tbl_PrimaryIndex parentTable))
        \<and> fst (addInterleave env desc index interleave) = Some err
      \<longrightarrow> (\<exists>msg. err = PgError InvalidSchemaDefinition msg)"
  proof (intro impI, elim conjE)
    assume d: "ild_DropBehavior interleave = DropDefault"
      and r: "ResolveExistingTableObject env (ild_Parent interleave) = Inr parentTable"
      and fp: "\<forall>c \<in> set (idx_ColumnIDs (tbl_PrimaryIndex parentTable)).
              \<exists>col. FindColumnByID env parentTable c = Inr col"
      and fc: "\<forall>c \<in> set (idx_ColumnIDs index). \<exists>col. FindColumnByID env desc c = Inr col"
      and ld: "length (idx_ColumnDirections index) = length (idx_ColumnIDs index)"
      and lp: "length (idx_ColumnDirections (tbl_PrimaryIndex parentTable))
             = length (idx_ColumnIDs (tbl_PrimaryIndex parentTable))"
      and e: "fst (addInterleave env desc index interleave) = Some err"
    show "\<exists>msg. err = PgError InvalidSchemaDefinition msg"
    proof (cases "length (ild_Fields interleave) = length (idx_ColumnIDs (tbl_PrimaryIndex parentTable))
                  \<and> length (ild_Fields interleave) \<le> length (idx_ColumnIDs index)")
      case False
      with d r e show ?thesis
        by (auto simp add: addInterleave_def Let_def split: if_splits)
    next
      case True
      with d r e have l: "interleaveColumnsLoop env parentTable (tbl_PrimaryIndex parentTable)
          desc index interleave 0 (idx_ColumnIDs (tbl_PrimaryIndex parentTable)) = Some err"
        by (auto simp add: addInterleave_def Let_def split: if_splits option.splits)
      show ?thesis
        using l fp fc True ld lp
        by (intro interleaveColumnsLoop_error_code [OF l]) simp_all
    qed
  qed
qed


lemma interleave_example_simps:
  "tbl_PrimaryIndex interleaveParent = emptyIndex
         \<lparr> idx_Name := ''primary'', idx_ID := 1, idx_Unique := True,
           idx_ColumnNames := [''g'', ''x''], idx_ColumnDirections := [ASC, DESC],
           idx_ColumnIDs := [1, 2], idx_Interleave_Ancestors := [grandparentAncestor] \<rparr>"
  "tbl_Columns interleaveParent = [intColumn ''g'' 1 False, intColumn ''x'' 2 False]"
  "tbl_ID interleaveParent = 52"
  "tbl_PrimaryIndex interleaveChild = emptyIndex
         \<lparr> idx_Name := ''primary'', idx_ID := 1, idx_Unique := True,
           idx_ColumnNames := [''g'', ''a'', ''b''],
           idx_ColumnDirections := [ASC, DESC, ASC],
           idx_ColumnIDs := [1, 2, 3] \<rparr>"
  "tbl_Columns interleaveChild = [intColumn ''g'' 1 False, intColumn ''a'' 2 False,
                       intColumn ''b'' 3 False]"
  "ResolveExistingTableObject interleaveEnv ''parent'' = Inr interleaveParent"
  "FindColumnByID interleaveEnv = lookupColumnByID"
  "Identical interleaveEnv = (=)"
  by (simp_all add: interleaveParent_def interleaveChild_def interleaveEnv_def emptyTable_def)

lemma addInterleave_example:
  "addInterleave interleaveEnv interleaveChild (tbl_PrimaryIndex interleaveChild)
      (interleaveInParent DropDefault) =
   (None, interleaveChild\<lparr>tbl_State := ADD\<rparr>,
    tbl_PrimaryIndex interleaveChild
      \<lparr>idx_Interleave_Ancestors :=
         [grandparentAncestor,
          \<lparr> anc_TableID = 52, anc_IndexID = 1, anc_SharedPrefixLen = 1 \<rparr>]\<rparr>)"
  by (simp add: addInterleave_def interleaveInParent_def interleave_example_simps Let_def
      lookupColumnByID_def intColumn_def emptyIndex_def grandparentAncestor_def)

text \<open>
  The theorem at the child \<open>(g, a, b)\<close> interleaved in the parent \<open>(g, x)\<close> by the fields
  \<open>(g, a)\<close>: it succeeds; and with the direction of the second column changed it fails
  with InvalidSchemaDefinition.
\<close>

theorem addInterleave_succeeds_iff_witness:
  "fst (addInterleave interleaveEnv interleaveChild (tbl_PrimaryIndex interleaveChild)
          (interleaveInParent DropDefault)) = None
   \<and> (\<exists>msg. fst (addInterleave interleaveEnv interleaveChild
          (tbl_PrimaryIndex interleaveChild\<lparr>idx_ColumnDirections := [ASC, ASC, ASC]\<rparr>)
          (interleaveInParent DropDefault)) = Some (PgError InvalidSchemaDefinition msg))"
proof -
  let ?bad = "tbl_PrimaryIndex interleaveChild\<lparr>idx_ColumnDirections := [ASC, ASC, ASC]\<rparr>"
  have good: "fst (addInterleave interleaveEnv interleaveChild (tbl_PrimaryIndex interleaveChild)
          (interleaveInParent DropDefault)) = None"
    using addInterleave_succeeds_iff [of interleaveEnv interleaveChild
        "tbl_PrimaryIndex interleaveChild" "interleaveInParent DropDefault", THEN conjunct1]
    by (simp add: interleaveInParent_def interleave_example_simps All_less_Suc
        interleavePositionMatches_def lookupColumnByID_def intColumn_def emptyIndex_def)
  have "fst (addInterleave interleaveEnv interleaveChild ?bad (interleaveInParent DropDefault))
          \<noteq> None"
    using addInterleave_succeeds_iff [of interleaveEnv interleaveChild
        ?bad "interleaveInParent DropDefault", THEN conjunct1]
    by (simp add: interleaveInParent_def interleave_example_simps All_less_Suc
        interleavePositionMatches_def lookupColumnByID_def intColumn_def emptyIndex_def)
  then obtain err where e: "fst (addInterleave interleaveEnv interleaveChild ?bad
      (interleaveInParent DropDefault)) = Some err"
    by auto
  have "\<exists>msg. err = PgError InvalidSchemaDefinition msg"
    using addInterleave_succeeds_iff [of interleaveEnv interleaveChild
        ?bad "interleaveInParent DropDefault" interleaveParent err, THEN conjunct2] e
    by (simp add: interleaveInParent_def interleave_example_simps
        lookupColumnByID_def intColumn_def emptyIndex_def)
  with e good show ?thesis by auto
qed

text \<open>
  The claim as stated fails twice on the same descriptors: \<^verbatim>\<open>addInterleave\<close> succeeds
  although the fields \<open>(g, a)\<close> are not the names \<open>(g, x)\<close> of the parent's primary index;
  and with the shorthand \<^verbatim>\<open>CASCADE\<close> it fails, all counts, names, types and directions
  being as before, with an unimplemented error that is not InvalidSchemaDefinition.
\<close>

theorem addInterleave_prefix_law_counterexample:
  "fst (addInterleave interleaveEnv interleaveChild (tbl_PrimaryIndex interleaveChild)
          (interleaveInParent DropDefault)) = None
   \<and> ild_Fields (interleaveInParent DropDefault)
       \<noteq> take (length (ild_Fields (interleaveInParent DropDefault)))
             (idx_ColumnNames (tbl_PrimaryIndex interleaveParent))
   \<and> fst (addInterleave interleaveEnv interleaveChild (tbl_PrimaryIndex interleaveChild)
          (interleaveInParent DropCascade))
       = Some (UnimplementedIssue 7854 ''unsupported shorthand %s'')"
  by (simp add: addInterleave_example)
     (simp add: addInterleave_def interleaveInParent_def interleave_example_simps)

text \<open>
  C8. When \<^verbatim>\<open>addInterleave\<close> succeeds, the ancestors of the child index are the ancestors
  of the parent's primary index followed by one new entry: the parent table's ID, the ID of
  its primary index, and the number of columns of that index minus the sum of the
  SharedPrefixLen of the parent's ancestors, computed in \<^verbatim>\<open>uint32\<close> (it equals the
  difference of the natural numbers when the sum does not exceed the column count). Nothing
  else of the index changes, and the state of the child table becomes ADD.
\<close>

theorem addInterleave_ancestor_chain:
  assumes "addInterleave env desc index interleave = (None, desc', index')"
  shows "case ResolveExistingTableObject env (ild_Parent interleave) of
           Inl err \<Rightarrow> False
         | Inr parentTable \<Rightarrow>
             idx_Interleave_Ancestors index' =
               idx_Interleave_Ancestors (tbl_PrimaryIndex parentTable) @
               [\<lparr> anc_TableID = tbl_ID parentTable,
                   anc_IndexID = idx_ID (tbl_PrimaryIndex parentTable),
                   anc_SharedPrefixLen =
                     of_nat (length (idx_ColumnIDs (tbl_PrimaryIndex parentTable)))
                     - sum_list (map anc_SharedPrefixLen
                         (idx_Interleave_Ancestors (tbl_PrimaryIndex parentTable))) \<rparr>]
             \<and> index' = index\<lparr>idx_Interleave_Ancestors := idx_Interleave_Ancestors index'\<rparr>
             \<and> desc' = desc\<lparr>tbl_State := ADD\<rparr>
             \<and> tbl_State desc' = ADD
             \<and> (sum_list (map (\<lambda>a. unat (anc_SharedPrefixLen a))
                    (idx_Interleave_Ancestors (tbl_PrimaryIndex parentTable)))
                  \<le> length (idx_ColumnIDs (tbl_PrimaryIndex parentTable))
                \<and> length (idx_ColumnIDs (tbl_PrimaryIndex parentTable)) < 2 ^ 32
                \<longrightarrow> unat (anc_SharedPrefixLen (last (idx_Interleave_Ancestors index'))) =
                      length (idx_ColumnIDs (tbl_PrimaryIndex parentTable))
                      - sum_list (map (\<lambda>a. unat (anc_SharedPrefixLen a))
                          (idx_Interleave_Ancestors (tbl_PrimaryIndex parentTable))))"
proof -
  from assms have "fst (addInterleave env desc index interleave) = None" by simp
  then obtain parentTable where
    r: "ResolveExistingTableObject env (ild_Parent interleave) = Inr parentTable"
    and d: "ild_DropBehavior interleave = DropDefault"
    and l1: "length (ild_Fields interleave) = length (idx_ColumnIDs (tbl_PrimaryIndex parentTable))"
    and l2: "length (ild_Fields interleave) \<le> length (idx_ColumnIDs index)"
    and lp: "interleaveColumnsLoop env parentTable (tbl_PrimaryIndex parentTable) desc index
                interleave 0 (idx_ColumnIDs (tbl_PrimaryIndex parentTable)) = None"
    unfolding addInterleave_None_iff by blast
  let ?pi = "tbl_PrimaryIndex parentTable"
  let ?len = "of_nat (length (idx_ColumnIDs ?pi))
               - sum_list (map anc_SharedPrefixLen (idx_Interleave_Ancestors ?pi)) :: 32 word"
  from assms r d l1 l2 lp
  have res: "desc' = desc\<lparr>tbl_State := ADD\<rparr>"
     "index' = index\<lparr>idx_Interleave_Ancestors := idx_Interleave_Ancestors ?pi @
        [\<lparr> anc_TableID = tbl_ID parentTable, anc_IndexID = idx_ID ?pi,
            anc_SharedPrefixLen = ?len \<rparr>]\<rparr>"
    by (simp_all add: addInterleave_def Let_def subtractAncestorPrefixes_sum)
  have u: "sum_list (map (\<lambda>a. unat (anc_SharedPrefixLen a)) (idx_Interleave_Ancestors ?pi))
                  \<le> length (idx_ColumnIDs ?pi)
           \<and> length (idx_ColumnIDs ?pi) < 2 ^ 32
           \<longrightarrow> unat ?len = length (idx_ColumnIDs ?pi)
                 - sum_list (map (\<lambda>a. unat (anc_SharedPrefixLen a))
                     (idx_Interleave_Ancestors ?pi))"
  proof (intro impI, elim conjE)
    assume a: "sum_list (map (\<lambda>a. unat (anc_SharedPrefixLen a)) (idx_Interleave_Ancestors ?pi))
                  \<le> length (idx_ColumnIDs ?pi)"
      and b: "length (idx_ColumnIDs ?pi) < 2 ^ 32"
    from a b have
      "sum_list (map (\<lambda>a. unat (anc_SharedPrefixLen a)) (idx_Interleave_Ancestors ?pi)) < 2 ^ 32"
      by simp
    then have s: "unat (sum_list (map anc_SharedPrefixLen (idx_Interleave_Ancestors ?pi)))
        = sum_list (map (\<lambda>a. unat (anc_SharedPrefixLen a)) (idx_Interleave_Ancestors ?pi))"
      by (rule unat_sum_list_word)
    show "unat ?len = length (idx_ColumnIDs ?pi)
                 - sum_list (map (\<lambda>a. unat (anc_SharedPrefixLen a))
                     (idx_Interleave_Ancestors ?pi))"
      using unat_prefix_len [of "sum_list (map anc_SharedPrefixLen (idx_Interleave_Ancestors ?pi))"
          "length (idx_ColumnIDs ?pi)"] a b s
      by simp
  qed
  show ?thesis
    using u by (simp add: r res)
qed

text \<open>
  The theorem at the same child and parent: the parent has one ancestor with shared prefix
  length 1 and a primary key of two columns, so the new entry has shared prefix length 1.
\<close>

theorem addInterleave_ancestor_chain_witness:
  "fst (addInterleave interleaveEnv interleaveChild (tbl_PrimaryIndex interleaveChild)
          (interleaveInParent DropDefault)) = None
   \<and> idx_Interleave_Ancestors (snd (snd (addInterleave interleaveEnv interleaveChild
          (tbl_PrimaryIndex interleaveChild) (interleaveInParent DropDefault))))
       = [\<lparr> anc_TableID = 51, anc_IndexID = 1, anc_SharedPrefixLen = 1 \<rparr>,
          \<lparr> anc_TableID = 52, anc_IndexID = 1, anc_SharedPrefixLen = 1 \<rparr>]
   \<and> tbl_State (fst (snd (addInterleave interleaveEnv interleaveChild
          (tbl_PrimaryIndex interleaveChild) (interleaveInParent DropDefault)))) = ADD"
proof -
  have r: "ResolveExistingTableObject interleaveEnv (ild_Parent (interleaveInParent DropDefault))
             = Inr interleaveParent"
    by (simp add: interleaveInParent_def interleave_example_simps)
  from addInterleave_ancestor_chain [OF addInterleave_example]
  have "idx_Interleave_Ancestors (tbl_PrimaryIndex interleaveChild
      \<lparr>idx_Interleave_Ancestors :=
         [grandparentAncestor,
          \<lparr> anc_TableID = 52, anc_IndexID = 1, anc_SharedPrefixLen = 1 \<rparr>]\<rparr>)
      = idx_Interleave_Ancestors (tbl_PrimaryIndex interleaveParent) @
               [\<lparr> anc_TableID = tbl_ID interleaveParent,
                   anc_IndexID = idx_ID (tbl_PrimaryIndex interleaveParent),
                   anc_SharedPrefixLen =
                     of_nat (length (idx_ColumnIDs (tbl_PrimaryIndex interleaveParent)))
                     - sum_list (map anc_SharedPrefixLen
                         (idx_Interleave_Ancestors (tbl_PrimaryIndex interleaveParent))) \<rparr>]
      \<and> tbl_State (interleaveChild\<lparr>tbl_State := ADD\<rparr>) = ADD"
    unfolding r by simp
  then show ?thesis
    by (simp add: addInterleave_example interleave_example_simps(1,3) emptyIndex_def
        grandparentAncestor_def)
qed

subsection \<open>getTableCreateParams\<close>

text \<open>
  \<^verbatim>\<open>tree.TableName\<close> with its schema and object parts (\<^verbatim>\<open>Table()\<close> and \<^verbatim>\<open>Object()\<close> both
  return the object name), \<^verbatim>\<open>tree.Persistence\<close>, the kinds of a resolved schema, the
  descriptor keys of \<^verbatim>\<open>catalogkeys\<close> and the kinds of descriptor an ID can lead to.
\<close>

record TableName =
  tn_Schema :: string
  tn_Object :: string

datatype Persistence = PersistencePermanent | PersistenceTemporary | PersistenceUnlogged

definition IsTemporary :: "Persistence \<Rightarrow> bool" where
  "IsTemporary p = (p = PersistenceTemporary)"

datatype ResolvedSchemaKind = SchemaPublic | SchemaVirtual | SchemaTemporary | SchemaUserDefined

record ResolvedSchema =
  rs_Kind :: ResolvedSchemaKind
  rs_ID :: ID

datatype DescriptorKey =
    TableKey ID ID string
  | DeprecatedTableKey ID string
  | DatabaseKey string
  | SchemaKey ID string

datatype CatalogDescriptor =
    Descriptor_Table TableDescriptor
  | Descriptor_Type string
  | Descriptor_Database string
  | Descriptor_Schema string

text \<open>
  The collaborators of \<^verbatim>\<open>getTableCreateParams\<close>: the planner, the session data, the
  descriptor store and the error constructors of \<^verbatim>\<open>sqlerrors\<close>. Telemetry counters and
  client notices are left out.
\<close>

record create_env =
  PublicSchema :: string
  PublicSchemaAliases :: "string \<Rightarrow> bool"
  TableName_String :: "TableName \<Rightarrow> string"
  NewTypeAlreadyExistsError :: "string \<Rightarrow> error"
  TempTablesEnabled :: bool
  getOrCreateTemporarySchema :: "ID \<Rightarrow> error + ID"
  ResolveUncachedSchemaDescriptor :: "ID \<Rightarrow> string \<Rightarrow> error + ResolvedSchema"
  NewTableKey :: "ID \<Rightarrow> ID \<Rightarrow> string \<Rightarrow> DescriptorKey"
  MakeObjectNameKey :: "ID \<Rightarrow> ID \<Rightarrow> string \<Rightarrow> DescriptorKey"
  canCreateOnSchema :: "ID \<Rightarrow> ID \<Rightarrow> error option"
  LookupObjectID :: "ID \<Rightarrow> ID \<Rightarrow> string \<Rightarrow> bool \<times> ID \<times> error option"
  GetAnyDescriptorByID :: "ID \<Rightarrow> error + CatalogDescriptor"
  WrapErrorWhileConstructingObjectAlreadyExistsErr :: "error \<Rightarrow> error"
  MakeObjectAlreadyExistsError :: "CatalogDescriptor \<Rightarrow> string \<Rightarrow> error"
  IsRelationAlreadyExistsError :: "error \<Rightarrow> bool"

definition getSchemaIDForCreate :: "create_env \<Rightarrow> ID \<Rightarrow> string \<Rightarrow> error + ID" where
  "getSchemaIDForCreate env dbID scName =
     (case ResolveUncachedSchemaDescriptor env dbID scName of
        Inl err \<Rightarrow> Inl err
      | Inr res \<Rightarrow>
          (case rs_Kind res of
             SchemaPublic \<Rightarrow> Inr (rs_ID res)
           | SchemaUserDefined \<Rightarrow> Inr (rs_ID res)
           | SchemaVirtual \<Rightarrow>
               Inl (PgError InsufficientPrivilege ''schema cannot be modified: %q'')
           | SchemaTemporary \<Rightarrow>
               Inl (AssertionFailed ''invalid schema kind for getSchemaIDForCreate: %d'')))"

text \<open>
  The branch on \<^verbatim>\<open>persistence.IsTemporary()\<close>, which sets \<^verbatim>\<open>schemaID\<close> and \<^verbatim>\<open>tKey\<close>.
\<close>

definition tableKeyAndSchemaID ::
  "create_env \<Rightarrow> ID \<Rightarrow> Persistence \<Rightarrow> TableName \<Rightarrow> error + (DescriptorKey \<times> ID)" where
  "tableKeyAndSchemaID env dbID persistence tableName =
     (if IsTemporary persistence then
        (if \<not> TempTablesEnabled env then
           Inl (PgError FeatureNotSupported ''temporary tables are only supported experimentally'')
         else
           (case getOrCreateTemporarySchema env dbID of
              Inl err \<Rightarrow> Inl err
            | Inr schemaID \<Rightarrow>
                Inr (NewTableKey env dbID schemaID (tn_Object tableName), schemaID)))
      else
        (case getSchemaIDForCreate env dbID (tn_Schema tableName) of
           Inl err \<Rightarrow> Inl err
         | Inr schemaID \<Rightarrow>
             Inr (MakeObjectNameKey env dbID schemaID (tn_Object tableName), schemaID)))"

text \<open>
  \<^verbatim>\<open>getTableCreateParams\<close> returns \<^verbatim>\<open>(tKey, schemaID, err)\<close>; a nil key is \<open>None\<close>, a nil
  error is \<open>None\<close>.
\<close>

definition getTableCreateParams ::
  "create_env \<Rightarrow> ID \<Rightarrow> Persistence \<Rightarrow> TableName
     \<Rightarrow> DescriptorKey option \<times> ID \<times> error option" where
  "getTableCreateParams env dbID persistence tableName =
     (if tn_Schema tableName = PublicSchema env \<and> PublicSchemaAliases env (tn_Object tableName)
      then (None, 0, Some (NewTypeAlreadyExistsError env (TableName_String env tableName)))
      else
        (case tableKeyAndSchemaID env dbID persistence tableName of
           Inl err \<Rightarrow> (None, 0, Some err)
         | Inr (tKey, schemaID) \<Rightarrow>
             (case canCreateOnSchema env schemaID dbID of
                Some err \<Rightarrow> (None, 0, Some err)
              | None \<Rightarrow>
                  (case LookupObjectID env dbID schemaID (tn_Object tableName) of
                     (exists, objID, err) \<Rightarrow>
                       if err = None \<and> exists then
                         (case GetAnyDescriptorByID env objID of
                            Inl err' \<Rightarrow>
                              (None, 0,
                               Some (WrapErrorWhileConstructingObjectAlreadyExistsErr env err'))
                          | Inr desc \<Rightarrow>
                              (Some tKey, schemaID,
                               Some (MakeObjectAlreadyExistsError env desc (tn_Object tableName))))
                       else
                         (case err of
                            Some err' \<Rightarrow> (None, 0, Some err')
                          | None \<Rightarrow> (Some tKey, schemaID, None))))))"

subsection \<open>finalizeInterleave and startExec\<close>

datatype CreateTableOnCommitSetting =
    CreateTableOnCommitUnset
  | CreateTableOnCommitPreserveRows
  | CreateTableOnCommitOther nat

text \<open>The fields of \<^verbatim>\<open>tree.CreateTable\<close> that \<^verbatim>\<open>startExec\<close> itself reads.\<close>

record CreateTable =
  n_Table :: TableName
  n_Persistence :: Persistence
  n_IfNotExists :: bool
  n_OnCommit :: CreateTableOnCommitSetting
  n_As :: bool

text \<open>
  The collaborators of \<^verbatim>\<open>startExec\<close> and \<^verbatim>\<open>finalizeInterleave\<close>. \<^verbatim>\<open>newTableDesc\<close> and
  \<^verbatim>\<open>newTableDescIfAs\<close> stand for the whole build of the descriptor (the former also gives
  the affected descriptors); \<^verbatim>\<open>FindAllReferences\<close> gives the keys of its map in the order
  of the iteration. \<^verbatim>\<open>FindIndexByID\<close> returns a pointer to an index of the table,
  which the model keeps as the place of that index. The functions that store or validate a descriptor
  return an error or nil and leave the descriptor as it is. \<^verbatim>\<open>ctasFill\<close> is the
  synchronous data fill of CREATE TABLE AS.
\<close>

text \<open>
  A pointer to an index descriptor inside a table descriptor: the primary index, an element
  of \<^verbatim>\<open>Indexes\<close>, or the index of an element of \<^verbatim>\<open>Mutations\<close>. \<open>indexAt\<close> reads through
  the pointer (\<open>None\<close> where it points to nothing, which a Go pointer never does) and
  \<open>storeIndexAt\<close> writes through it.
\<close>

datatype IndexRef = PrimaryIndexRef | IndexesRef nat | MutationsRef nat

fun indexAt :: "TableDescriptor \<Rightarrow> IndexRef \<Rightarrow> IndexDescriptor option" where
  "indexAt t PrimaryIndexRef = Some (tbl_PrimaryIndex t)"
| "indexAt t (IndexesRef k) =
     (if k < length (tbl_Indexes t) then Some (tbl_Indexes t ! k) else None)"
| "indexAt t (MutationsRef k) =
     (if k < length (tbl_Mutations t) then
        (case mut_Descriptor (tbl_Mutations t ! k) of
           Mutation_Index index \<Rightarrow> Some index
         | _ \<Rightarrow> None)
      else None)"

fun storeIndexAt :: "TableDescriptor \<Rightarrow> IndexRef \<Rightarrow> IndexDescriptor \<Rightarrow> TableDescriptor" where
  "storeIndexAt t PrimaryIndexRef index = t\<lparr>tbl_PrimaryIndex := index\<rparr>"
| "storeIndexAt t (IndexesRef k) index = t\<lparr>tbl_Indexes := (tbl_Indexes t)[k := index]\<rparr>"
| "storeIndexAt t (MutationsRef k) index =
     t\<lparr>tbl_Mutations := (tbl_Mutations t)
          [k := (tbl_Mutations t ! k)\<lparr>mut_Descriptor := Mutation_Index index\<rparr>]\<rparr>"

record exec_env =
  GenerateUniqueDescID :: "error + ID"
  newTableDescIfAs :: "CreateTable \<Rightarrow> ID \<Rightarrow> ID \<Rightarrow> ID \<Rightarrow> error + TableDescriptor"
  TxnImplicit :: bool
  newTableDesc ::
    "CreateTable \<Rightarrow> ID \<Rightarrow> ID \<Rightarrow> ID \<Rightarrow> error + (TableDescriptor \<times> TableDescriptor list)"
  FindAllReferences :: "TableDescriptor \<Rightarrow> error + ID list"
  GetUncommittedTableByID :: "ID \<Rightarrow> TableDescriptor option"
  IsNew :: "TableDescriptor \<Rightarrow> bool"
  createDescriptorWithID :: "DescriptorKey \<Rightarrow> ID \<Rightarrow> TableDescriptor \<Rightarrow> error option"
  writeSchemaChange :: "TableDescriptor \<Rightarrow> error option"
  AllNonDropIndexes :: "TableDescriptor \<Rightarrow> IndexDescriptor list"
  GetMutableTableVersionByID :: "ID \<Rightarrow> error + TableDescriptor"
  FindIndexByID :: "TableDescriptor \<Rightarrow> IndexID \<Rightarrow> error + IndexRef"
  addBackRefsFromAllTypesInTable :: "TableDescriptor \<Rightarrow> error option"
  Validate :: "TableDescriptor \<Rightarrow> error option"
  InsertEventRecord :: "TableDescriptor \<Rightarrow> error option"
  ctasFill :: "TableDescriptor \<Rightarrow> error option"

text \<open>
  \<^verbatim>\<open>finalizeInterleave\<close> returns its error and the descriptor \<^verbatim>\<open>desc\<close> as it has left it.
  When the last ancestor is \<^verbatim>\<open>desc\<close> itself, the back-reference is written into \<^verbatim>\<open>desc\<close>.
\<close>

definition finalizeInterleave ::
  "exec_env \<Rightarrow> TableDescriptor \<Rightarrow> IndexDescriptor \<Rightarrow> error option \<times> TableDescriptor" where
  "finalizeInterleave env desc index =
     (if length (idx_Interleave_Ancestors index) = 0 then (None, desc)
      else
        let ancestor = last (idx_Interleave_Ancestors index);
            self = (anc_TableID ancestor = tbl_ID desc) in
        (case (if self then Inr desc else GetMutableTableVersionByID env (anc_TableID ancestor)) of
           Inl err \<Rightarrow> (Some err, desc)
         | Inr ancestorTable \<Rightarrow>
             (case FindIndexByID env ancestorTable (anc_IndexID ancestor) of
                Inl err \<Rightarrow> (Some err, desc)
              | Inr ancestorRef \<Rightarrow>
                  (case indexAt ancestorTable ancestorRef of
                     None \<Rightarrow> (Some (Panic ''invalid memory address''), desc)
                   | Some ancestorIndex \<Rightarrow>
                       let ancestorTable' = storeIndexAt ancestorTable ancestorRef
                             (ancestorIndex
                                \<lparr>idx_InterleavedBy := idx_InterleavedBy ancestorIndex @
                                   [\<lparr> ref_Table = tbl_ID desc, ref_Index = idx_ID index \<rparr>]\<rparr>);
                           desc1 = (if self then ancestorTable' else desc) in
                       (case writeSchemaChange env ancestorTable' of
                          Some err \<Rightarrow> (Some err, desc1)
                        | None \<Rightarrow>
                            if tbl_State desc1 = ADD then
                              let desc2 = desc1\<lparr>tbl_State := PUBLIC\<rparr> in
                              (case writeSchemaChange env desc2 of
                                 Some err \<Rightarrow> (Some err, desc2)
                               | None \<Rightarrow> (None, desc2))
                            else (None, desc1))))))"

text \<open>
  The loop of \<^verbatim>\<open>startExec\<close> over the references: \<^verbatim>\<open>foundExternalReference\<close> becomes true
  at the first ID that is not an uncommitted table or is not new.
\<close>

fun foundExternalReference :: "exec_env \<Rightarrow> ID list \<Rightarrow> bool" where
  "foundExternalReference env [] = False"
| "foundExternalReference env (refID # ids) =
     (case GetUncommittedTableByID env refID of
        None \<Rightarrow> True
      | Some t \<Rightarrow> if \<not> IsNew env t then True else foundExternalReference env ids)"

text \<open>The block \<^verbatim>\<open>if desc.Adding() { ... }\<close>; \<^verbatim>\<open>Adding\<close> tests the state for ADD.\<close>

definition decideInitialState :: "exec_env \<Rightarrow> TableDescriptor \<Rightarrow> error + TableDescriptor" where
  "decideInitialState env desc =
     (if tbl_State desc = ADD then
        (case FindAllReferences env desc of
           Inl err \<Rightarrow> Inl err
         | Inr refs \<Rightarrow>
             if \<not> foundExternalReference env refs then Inr (desc\<lparr>tbl_State := PUBLIC\<rparr>)
             else Inr desc)
      else Inr desc)"

text \<open>The loops over \<^verbatim>\<open>affected\<close> and over \<^verbatim>\<open>desc.AllNonDropIndexes()\<close>.\<close>

fun writeAffected :: "exec_env \<Rightarrow> TableDescriptor list \<Rightarrow> error option" where
  "writeAffected env [] = None"
| "writeAffected env (updated # rest) =
     (case writeSchemaChange env updated of
        Some err \<Rightarrow> Some err
      | None \<Rightarrow> writeAffected env rest)"

fun finalizeInterleaves ::
  "exec_env \<Rightarrow> TableDescriptor \<Rightarrow> IndexDescriptor list \<Rightarrow> error option \<times> TableDescriptor" where
  "finalizeInterleaves env desc [] = (None, desc)"
| "finalizeInterleaves env desc (index # rest) =
     (if length (idx_Interleave_Ancestors index) > 0 then
        (case finalizeInterleave env desc index of
           (Some err, desc') \<Rightarrow> (Some err, desc')
         | (None, desc') \<Rightarrow> finalizeInterleaves env desc' rest)
      else finalizeInterleaves env desc rest)"

text \<open>
  \<^verbatim>\<open>startExec\<close> from the point where the descriptor is built and its state decided: the
  descriptor is stored, then the affected descriptors, the interleaves are finalized, and
  the descriptor is validated and logged. The result is the error and the descriptor as the
  function leaves it.
\<close>

definition storeNewTable ::
  "exec_env \<Rightarrow> CreateTable \<Rightarrow> DescriptorKey option \<Rightarrow> ID \<Rightarrow> TableDescriptor
     \<Rightarrow> TableDescriptor list \<Rightarrow> error option \<times> TableDescriptor" where
  "storeNewTable env n tKey descID desc affected =
     (case tKey of
        None \<Rightarrow> (Some (Panic ''nil pointer dereference''), desc)
      | Some key \<Rightarrow>
     (case createDescriptorWithID env key descID desc of
        Some err \<Rightarrow> (Some err, desc)
      | None \<Rightarrow>
     (case writeAffected env affected of
        Some err \<Rightarrow> (Some err, desc)
      | None \<Rightarrow>
     (case finalizeInterleaves env desc (AllNonDropIndexes env desc) of
        (Some err, desc') \<Rightarrow> (Some err, desc')
      | (None, desc') \<Rightarrow>
     (case addBackRefsFromAllTypesInTable env desc' of
        Some err \<Rightarrow> (Some err, desc')
      | None \<Rightarrow>
     (case Validate env desc' of
        Some err \<Rightarrow> (Some err, desc')
      | None \<Rightarrow>
     (case InsertEventRecord env desc' of
        Some err \<Rightarrow> (Some err, desc')
      | None \<Rightarrow>
          if n_As n \<and> \<not> TxnImplicit env then (ctasFill env desc', desc')
          else (None, desc'))))))))"

text \<open>
  The build: a CREATE TABLE AS descriptor is put into the state ADD under an implicit
  transaction; otherwise \<^verbatim>\<open>newTableDesc\<close> builds the descriptor and the block above decides
  its state.
\<close>

definition buildNewTable ::
  "exec_env \<Rightarrow> CreateTable \<Rightarrow> ID \<Rightarrow> ID \<Rightarrow> ID
     \<Rightarrow> error + (TableDescriptor \<times> TableDescriptor list)" where
  "buildNewTable env n dbID schemaID descID =
     (if n_As n then
        (case newTableDescIfAs env n dbID schemaID descID of
           Inl err \<Rightarrow> Inl err
         | Inr desc \<Rightarrow>
             Inr (if TxnImplicit env then desc\<lparr>tbl_State := ADD\<rparr> else desc, []))
      else
        (case newTableDesc env n dbID schemaID descID of
           Inl err \<Rightarrow> Inl err
         | Inr (desc, affected) \<Rightarrow>
             (case decideInitialState env desc of
                Inl err \<Rightarrow> Inl err
              | Inr desc' \<Rightarrow> Inr (desc', affected))))"

text \<open>
  \<^verbatim>\<open>startExec\<close>. The second component is the descriptor as the function leaves it, when it
  got to build one.
\<close>

definition startExec ::
  "create_env \<Rightarrow> exec_env \<Rightarrow> ID \<Rightarrow> CreateTable \<Rightarrow> error option \<times> TableDescriptor option" where
  "startExec cenv env dbID n =
     (case getTableCreateParams cenv dbID (n_Persistence n) (n_Table n) of
        (tKey, schemaID, Some err) \<Rightarrow>
          if IsRelationAlreadyExistsError cenv err \<and> n_IfNotExists n then (None, None)
          else (Some err, None)
      | (tKey, schemaID, None) \<Rightarrow>
          if IsTemporary (n_Persistence n)
             \<and> n_OnCommit n \<noteq> CreateTableOnCommitUnset
             \<and> n_OnCommit n \<noteq> CreateTableOnCommitPreserveRows then
            (Some (AssertionFailed ''ON COMMIT value %d is unrecognized''), None)
          else if \<not> IsTemporary (n_Persistence n) \<and> n_OnCommit n \<noteq> CreateTableOnCommitUnset then
            (Some (PgError InvalidTableDefinition
               ''ON COMMIT can only be used on temporary tables''), None)
          else
            (case GenerateUniqueDescID env of
               Inl err \<Rightarrow> (Some err, None)
             | Inr descID \<Rightarrow>
                 (case buildNewTable env n dbID schemaID descID of
                    Inl err \<Rightarrow> (Some err, None)
                  | Inr (desc, affected) \<Rightarrow>
                      (case storeNewTable env n tKey descID desc affected of
                         (err, desc') \<Rightarrow> (err, Some desc')))))"

text \<open>Concrete collaborators on which \<^verbatim>\<open>startExec\<close> is run.\<close>

definition exampleCreateEnv :: create_env where
  "exampleCreateEnv =
     \<lparr> PublicSchema = ''public'',
       PublicSchemaAliases = (\<lambda>name. name \<in> set [''box2d'', ''geometry'', ''geography'']),
       TableName_String = (\<lambda>t. tn_Schema t @ ''.'' @ tn_Object t),
       NewTypeAlreadyExistsError = (\<lambda>name. PgError DuplicateObject ''type %q already exists''),
       TempTablesEnabled = False,
       getOrCreateTemporarySchema = (\<lambda>dbID. Inl (Collaborator ''no temporary schema'')),
       ResolveUncachedSchemaDescriptor = (\<lambda>dbID scName.
         if scName = ''public'' then Inr \<lparr> rs_Kind = SchemaPublic, rs_ID = 29 \<rparr>
         else Inl (Collaborator ''unknown schema'')),
       NewTableKey = TableKey,
       MakeObjectNameKey = TableKey,
       canCreateOnSchema = (\<lambda>schemaID dbID. None),
       LookupObjectID = (\<lambda>dbID schemaID name.
         if name = ''parent'' then (True, 52, None) else (False, 0, None)),
       GetAnyDescriptorByID = (\<lambda>objID.
         if objID = 52 then Inr (Descriptor_Table interleaveParent)
         else Inl (Collaborator ''descriptor not found'')),
       WrapErrorWhileConstructingObjectAlreadyExistsErr = (\<lambda>err. err),
       MakeObjectAlreadyExistsError = (\<lambda>desc name.
         case desc of
           Descriptor_Table t \<Rightarrow> PgError DuplicateRelation ''relation %q already exists''
         | Descriptor_Type t \<Rightarrow> PgError DuplicateObject ''type %q already exists''
         | Descriptor_Database d \<Rightarrow> PgError DuplicateObject ''database %q already exists''
         | Descriptor_Schema s \<Rightarrow> AssertionFailed ''schema exists with name %v''),
       IsRelationAlreadyExistsError = (\<lambda>err.
         case err of PgError code msg \<Rightarrow> code = DuplicateRelation | _ \<Rightarrow> False) \<rparr>"

definition createTableStmt :: "string \<Rightarrow> bool \<Rightarrow> CreateTable" where
  "createTableStmt name ifNotExists =
     \<lparr> n_Table = \<lparr> tn_Schema = ''public'', tn_Object = name \<rparr>,
       n_Persistence = PersistencePermanent,
       n_IfNotExists = ifNotExists,
       n_OnCommit = CreateTableOnCommitUnset,
       n_As = False \<rparr>"

definition interleavedChild :: TableDescriptor where
  "interleavedChild = interleaveChild
     \<lparr> tbl_State := ADD,
       tbl_PrimaryIndex := tbl_PrimaryIndex interleaveChild
         \<lparr> idx_Interleave_Ancestors :=
             [grandparentAncestor,
              \<lparr> anc_TableID = 52, anc_IndexID = 1, anc_SharedPrefixLen = 1 \<rparr>] \<rparr> \<rparr>"

definition exampleExecEnv :: exec_env where
  "exampleExecEnv =
     \<lparr> GenerateUniqueDescID = Inr 53,
       newTableDescIfAs = (\<lambda>n dbID schemaID descID. Inl (Collaborator ''no source plan'')),
       TxnImplicit = True,
       newTableDesc = (\<lambda>n dbID schemaID descID. Inr (interleavedChild, [])),
       FindAllReferences = (\<lambda>desc.
         Inr (map anc_TableID (idx_Interleave_Ancestors (tbl_PrimaryIndex desc))
              @ map fk_ReferencedTableID (tbl_OutboundFKs desc))),
       GetUncommittedTableByID = (\<lambda>refID. None),
       IsNew = (\<lambda>t. False),
       createDescriptorWithID = (\<lambda>key descID desc. None),
       writeSchemaChange = (\<lambda>desc. None),
       AllNonDropIndexes = (\<lambda>desc. tbl_PrimaryIndex desc # tbl_Indexes desc),
       GetMutableTableVersionByID = (\<lambda>tableID.
         if tableID = 52 then Inr interleaveParent
         else Inl (Collaborator ''descriptor not found'')),
       FindIndexByID = (\<lambda>desc indexID.
         if idx_ID (tbl_PrimaryIndex desc) = indexID then Inr PrimaryIndexRef
         else Inl (Collaborator ''index-id does not exist'')),
       addBackRefsFromAllTypesInTable = (\<lambda>desc. None),
       Validate = (\<lambda>desc. None),
       InsertEventRecord = (\<lambda>desc. None),
       ctasFill = (\<lambda>desc. None) \<rparr>"



lemma storeIndexAt_State [simp]: "tbl_State (storeIndexAt t r index) = tbl_State t"
  by (cases r) simp_all





lemma tableKeyAndSchemaID_Inr_iff:
  "tableKeyAndSchemaID cenv dbID persistence tableName = Inr (tKey, schemaID) \<longleftrightarrow>
     (if IsTemporary persistence then
        TempTablesEnabled cenv
        \<and> getOrCreateTemporarySchema cenv dbID = Inr schemaID
        \<and> tKey = NewTableKey cenv dbID schemaID (tn_Object tableName)
      else
        (\<exists>res. ResolveUncachedSchemaDescriptor cenv dbID (tn_Schema tableName) = Inr res
               \<and> (rs_Kind res = SchemaPublic \<or> rs_Kind res = SchemaUserDefined)
               \<and> rs_ID res = schemaID)
        \<and> tKey = MakeObjectNameKey cenv dbID schemaID (tn_Object tableName))"
  by (auto simp add: tableKeyAndSchemaID_def getSchemaIDForCreate_def
      split: sum.splits ResolvedSchemaKind.splits)

text \<open>
  C10 (as the code has it). When \<^verbatim>\<open>getTableCreateParams\<close> gets as far as the lookup of the
  name and \<^verbatim>\<open>LookupObjectID\<close> finds an object, what it returns depends on whether the
  descriptor of that object can be read. If it can, the result is the table key and the
  schema ID computed before, together with the error made by
  \<^verbatim>\<open>MakeObjectAlreadyExistsError\<close>: for a temporary table the ID given by
  \<^verbatim>\<open>getOrCreateTemporarySchema\<close> and the key \<^verbatim>\<open>NewTableKey\<close> makes from it, otherwise
  the ID of the resolved public or user-defined schema and the key \<^verbatim>\<open>MakeObjectNameKey\<close>
  makes from it. If it cannot, the result is a nil key, the schema ID 0 and the wrapped
  error of the read. In the first case, with the error recognized by
  \<^verbatim>\<open>IsRelationAlreadyExistsError\<close> and IF NOT EXISTS given, \<^verbatim>\<open>startExec\<close> returns nil at
  once and builds nothing.
\<close>

theorem getTableCreateParams_existing_object:
  assumes "\<not> (tn_Schema tableName = PublicSchema cenv
               \<and> PublicSchemaAliases cenv (tn_Object tableName))"
    and "if IsTemporary persistence then
           TempTablesEnabled cenv
           \<and> getOrCreateTemporarySchema cenv dbID = Inr schemaID
           \<and> tKey = NewTableKey cenv dbID schemaID (tn_Object tableName)
         else
           (\<exists>res. ResolveUncachedSchemaDescriptor cenv dbID (tn_Schema tableName) = Inr res
                  \<and> (rs_Kind res = SchemaPublic \<or> rs_Kind res = SchemaUserDefined)
                  \<and> rs_ID res = schemaID)
           \<and> tKey = MakeObjectNameKey cenv dbID schemaID (tn_Object tableName)"
    and "canCreateOnSchema cenv schemaID dbID = None"
    and "LookupObjectID cenv dbID schemaID (tn_Object tableName) = (True, objID, None)"
  shows "getTableCreateParams cenv dbID persistence tableName =
           (case GetAnyDescriptorByID cenv objID of
              Inl err \<Rightarrow>
                (None, 0, Some (WrapErrorWhileConstructingObjectAlreadyExistsErr cenv err))
            | Inr desc \<Rightarrow>
                (Some tKey, schemaID,
                 Some (MakeObjectAlreadyExistsError cenv desc (tn_Object tableName))))
         \<and> (n_Table n = tableName \<and> n_Persistence n = persistence \<and> n_IfNotExists n
              \<and> GetAnyDescriptorByID cenv objID = Inr desc
              \<and> IsRelationAlreadyExistsError cenv
                   (MakeObjectAlreadyExistsError cenv desc (tn_Object tableName))
             \<longrightarrow> startExec cenv env dbID n = (None, None))"
proof -
  from assms(2) have t: "tableKeyAndSchemaID cenv dbID persistence tableName
                           = Inr (tKey, schemaID)"
    by (simp only: tableKeyAndSchemaID_Inr_iff)
  have g: "getTableCreateParams cenv dbID persistence tableName =
           (case GetAnyDescriptorByID cenv objID of
              Inl err \<Rightarrow>
                (None, 0, Some (WrapErrorWhileConstructingObjectAlreadyExistsErr cenv err))
            | Inr desc \<Rightarrow>
                (Some tKey, schemaID,
                 Some (MakeObjectAlreadyExistsError cenv desc (tn_Object tableName))))"
    using assms(1,3,4) t by (auto simp add: getTableCreateParams_def)
  have e: "n_Table n = tableName \<and> n_Persistence n = persistence \<and> n_IfNotExists n
              \<and> GetAnyDescriptorByID cenv objID = Inr desc
              \<and> IsRelationAlreadyExistsError cenv
                   (MakeObjectAlreadyExistsError cenv desc (tn_Object tableName))
             \<longrightarrow> startExec cenv env dbID n = (None, None)"
    using g by (auto simp add: startExec_def)
  from g e show ?thesis by (rule conjI)
qed

lemma exampleCreateEnv_simps:
  "PublicSchema exampleCreateEnv = ''public''"
  "PublicSchemaAliases exampleCreateEnv name = (name \<in> set [''box2d'', ''geometry'', ''geography''])"
  "TempTablesEnabled exampleCreateEnv = False"
  "ResolveUncachedSchemaDescriptor exampleCreateEnv dbID ''public''
     = Inr \<lparr> rs_Kind = SchemaPublic, rs_ID = 29 \<rparr>"
  "MakeObjectNameKey exampleCreateEnv = TableKey"
  "canCreateOnSchema exampleCreateEnv schemaID dbID = None"
  "LookupObjectID exampleCreateEnv dbID schemaID name
     = (if name = ''parent'' then (True, 52, None) else (False, 0, None))"
  "GetAnyDescriptorByID exampleCreateEnv 52 = Inr (Descriptor_Table interleaveParent)"
  "MakeObjectAlreadyExistsError exampleCreateEnv (Descriptor_Table t) name
     = PgError DuplicateRelation ''relation %q already exists''"
  "IsRelationAlreadyExistsError exampleCreateEnv (PgError code msg) = (code = DuplicateRelation)"
  by (simp_all add: exampleCreateEnv_def)

lemma createTableStmt_simps:
  "n_Table (createTableStmt name ifNotExists) = \<lparr> tn_Schema = ''public'', tn_Object = name \<rparr>"
  "n_Persistence (createTableStmt name ifNotExists) = PersistencePermanent"
  "n_IfNotExists (createTableStmt name ifNotExists) = ifNotExists"
  "n_OnCommit (createTableStmt name ifNotExists) = CreateTableOnCommitUnset"
  "n_As (createTableStmt name ifNotExists) = False"
  by (simp_all add: createTableStmt_def)


text \<open>
  Two further sets of collaborators: one where the name is found but the descriptor behind
  it cannot be read, and one where temporary tables are enabled and live in schema 61.
\<close>

definition staleNameEnv :: create_env where
  "staleNameEnv = exampleCreateEnv
     \<lparr> LookupObjectID := (\<lambda>dbID schemaID name. (True, 77, None)),
       WrapErrorWhileConstructingObjectAlreadyExistsErr := (\<lambda>err.
         case err of
           Collaborator msg \<Rightarrow>
             Collaborator (''object already exists with the same name: '' @ msg)
         | _ \<Rightarrow> err) \<rparr>"

definition tempTablesEnv :: create_env where
  "tempTablesEnv = exampleCreateEnv
     \<lparr> TempTablesEnabled := True,
       getOrCreateTemporarySchema := (\<lambda>dbID. Inr 61) \<rparr>"

lemma staleNameEnv_simps:
  "PublicSchema staleNameEnv = ''public''"
  "PublicSchemaAliases staleNameEnv name = (name \<in> set [''box2d'', ''geometry'', ''geography''])"
  "TempTablesEnabled staleNameEnv = False"
  "ResolveUncachedSchemaDescriptor staleNameEnv dbID ''public''
     = Inr \<lparr> rs_Kind = SchemaPublic, rs_ID = 29 \<rparr>"
  "MakeObjectNameKey staleNameEnv = TableKey"
  "canCreateOnSchema staleNameEnv schemaID dbID = None"
  "LookupObjectID staleNameEnv dbID schemaID name = (True, 77, None)"
  "GetAnyDescriptorByID staleNameEnv 77 = Inl (Collaborator ''descriptor not found'')"
  "WrapErrorWhileConstructingObjectAlreadyExistsErr staleNameEnv (Collaborator msg)
     = Collaborator (''object already exists with the same name: '' @ msg)"
  "IsRelationAlreadyExistsError staleNameEnv (Collaborator msg) = False"
  by (simp_all add: staleNameEnv_def exampleCreateEnv_def)

lemma tempTablesEnv_simps:
  "PublicSchema tempTablesEnv = ''public''"
  "PublicSchemaAliases tempTablesEnv name = (name \<in> set [''box2d'', ''geometry'', ''geography''])"
  "TempTablesEnabled tempTablesEnv = True"
  "getOrCreateTemporarySchema tempTablesEnv dbID = Inr 61"
  "NewTableKey tempTablesEnv = TableKey"
  "canCreateOnSchema tempTablesEnv schemaID dbID = None"
  "LookupObjectID tempTablesEnv dbID schemaID name
     = (if name = ''parent'' then (True, 52, None) else (False, 0, None))"
  "GetAnyDescriptorByID tempTablesEnv 52 = Inr (Descriptor_Table interleaveParent)"
  "MakeObjectAlreadyExistsError tempTablesEnv (Descriptor_Table t) name
     = PgError DuplicateRelation ''relation %q already exists''"
  "IsRelationAlreadyExistsError tempTablesEnv (PgError code msg) = (code = DuplicateRelation)"
  by (simp_all add: tempTablesEnv_def exampleCreateEnv_def)

text \<open>
  The claim as stated fails when the name is found and the descriptor behind it cannot be
  read: for \<^verbatim>\<open>CREATE TABLE IF NOT EXISTS public.ghost\<close> the key is nil and the schema ID
  is 0, and \<^verbatim>\<open>startExec\<close> returns the error.
\<close>

theorem getTableCreateParams_existing_object_counterexample:
  "LookupObjectID staleNameEnv 50 29 ''ghost'' = (True, 77, None)
   \<and> getTableCreateParams staleNameEnv 50 PersistencePermanent
       \<lparr> tn_Schema = ''public'', tn_Object = ''ghost'' \<rparr>
     = (None, 0,
        Some (Collaborator ''object already exists with the same name: descriptor not found''))
   \<and> startExec staleNameEnv exampleExecEnv 50 (createTableStmt ''ghost'' True)
     = (Some (Collaborator ''object already exists with the same name: descriptor not found''),
        None)"
  by (simp add: getTableCreateParams_def startExec_def tableKeyAndSchemaID_def
      getSchemaIDForCreate_def IsTemporary_def staleNameEnv_simps createTableStmt_simps)

text \<open>
  The theorem at \<^verbatim>\<open>CREATE TABLE IF NOT EXISTS public.parent\<close> where \<open>parent\<close> exists, at
  the same name for a temporary table, and at the name whose descriptor cannot be read.
\<close>

theorem getTableCreateParams_existing_object_witness:
  "getTableCreateParams exampleCreateEnv 50 PersistencePermanent
       \<lparr> tn_Schema = ''public'', tn_Object = ''parent'' \<rparr>
     = (Some (TableKey 50 29 ''parent''), 29,
        Some (PgError DuplicateRelation ''relation %q already exists''))
   \<and> startExec exampleCreateEnv exampleExecEnv 50 (createTableStmt ''parent'' True)
     = (None, None)
   \<and> getTableCreateParams tempTablesEnv 50 PersistenceTemporary
       \<lparr> tn_Schema = ''public'', tn_Object = ''parent'' \<rparr>
     = (Some (TableKey 50 61 ''parent''), 61,
        Some (PgError DuplicateRelation ''relation %q already exists''))
   \<and> getTableCreateParams staleNameEnv 50 PersistencePermanent
       \<lparr> tn_Schema = ''public'', tn_Object = ''ghost'' \<rparr>
     = (None, 0,
        Some (Collaborator ''object already exists with the same name: descriptor not found''))"
proof -
  let ?parent = "\<lparr> tn_Schema = ''public'', tn_Object = ''parent'' \<rparr>"
  let ?ghost = "\<lparr> tn_Schema = ''public'', tn_Object = ''ghost'' \<rparr>"
  have p: "getTableCreateParams exampleCreateEnv 50 PersistencePermanent ?parent
             = (Some (TableKey 50 29 ''parent''), 29,
                Some (PgError DuplicateRelation ''relation %q already exists''))
           \<and> startExec exampleCreateEnv exampleExecEnv 50 (createTableStmt ''parent'' True)
             = (None, None)"
    using getTableCreateParams_existing_object
      [of ?parent exampleCreateEnv PersistencePermanent 50 29 "TableKey 50 29 ''parent''" 52
          "createTableStmt ''parent'' True" "Descriptor_Table interleaveParent" exampleExecEnv]
    by (simp add: exampleCreateEnv_simps createTableStmt_simps IsTemporary_def)
  have t: "getTableCreateParams tempTablesEnv 50 PersistenceTemporary ?parent
             = (Some (TableKey 50 61 ''parent''), 61,
                Some (PgError DuplicateRelation ''relation %q already exists''))"
    using getTableCreateParams_existing_object
      [of ?parent tempTablesEnv PersistenceTemporary 50 61 "TableKey 50 61 ''parent''" 52]
    by (simp add: tempTablesEnv_simps IsTemporary_def)
  have s: "getTableCreateParams staleNameEnv 50 PersistencePermanent ?ghost
             = (None, 0,
                Some (Collaborator
                  ''object already exists with the same name: descriptor not found''))"
    using getTableCreateParams_existing_object
      [of ?ghost staleNameEnv PersistencePermanent 50 29 "TableKey 50 29 ''ghost''" 77]
    by (simp add: staleNameEnv_simps IsTemporary_def)
  from p t s show ?thesis by simp
qed








subsection \<open>ResolveFK and addIndexForFK\<close>

datatype FKTableState = NewTable | EmptyTable | NonEmptyTable

datatype ValidationBehavior = ValidationDefault | ValidationSkip

datatype ReferenceAction = NoAction | Restrict | SetNull | SetDefault | Cascade

datatype CompositeKeyMatchMethod = MatchSimple | MatchFull | MatchPartial

text \<open>\<^verbatim>\<open>tree.ForeignKeyConstraintTableDef\<close>.\<close>

record ForeignKeyConstraintTableDef =
  fkd_Name :: string
  fkd_Table :: TableName
  fkd_FromCols :: "string list"
  fkd_ToCols :: "string list"
  fkd_Actions_Delete :: ReferenceAction
  fkd_Actions_Update :: ReferenceAction
  fkd_Match :: CompositeKeyMatchMethod

text \<open>
  What \<^verbatim>\<open>ResolveFK\<close> reads of \<^verbatim>\<open>evalCtx.Settings\<close>: the cluster setting that allows foreign
  keys between databases, and whether the version \<^verbatim>\<open>NoOriginFKIndexes\<close> is active.
\<close>

record ClusterSettings =
  allowCrossDatabaseFKs :: bool
  NoOriginFKIndexesActive :: bool

text \<open>
  Table descriptors are mutable objects that \<^verbatim>\<open>ResolveFK\<close> reaches through pointers: the
  table \<^verbatim>\<open>tbl\<close>, the table given by the resolver, and the tables of the map \<^verbatim>\<open>backrefs\<close>.
  Two pointers may lead to one object, or two objects may describe one table. The model
  keeps the objects in a store from addresses to descriptors, and the map \<^verbatim>\<open>backrefs\<close> as a
  map from table IDs to addresses.
\<close>

type_synonym addr = nat
type_synonym store = "addr \<Rightarrow> TableDescriptor"
type_synonym backrefs = "ID \<rightharpoonup> addr"

text \<open>
  The collaborators of \<^verbatim>\<open>ResolveFK\<close> and \<^verbatim>\<open>addIndexForFK\<close>, on top of those of
  \<^verbatim>\<open>addInterleave\<close>: the methods of a table descriptor that read it, those that change it
  (they return the changed descriptor, and an error or nil), the resolver (which returns a
  pointer), the two tables of \<^verbatim>\<open>descpb\<close> that translate actions and match methods, and
  \<^verbatim>\<open>evalCtx.Settings\<close>, which may be nil (\<^verbatim>\<open>evalCtx\<close> itself is not). The map returned by
  \<^verbatim>\<open>GetConstraintInfo\<close> is only asked whether it has a name.
\<close>

record resolve_env = interleave_env +
  FindActiveOrNewColumnByName :: "TableDescriptor \<Rightarrow> string \<Rightarrow> error + ColumnDescriptor"
  CheckCanBeFKRef :: "ColumnDescriptor \<Rightarrow> error option"
  ResolveMutableExistingTableObject :: "TableName \<Rightarrow> error + addr"
  Settings :: "ClusterSettings option"
  FindActiveColumnsByNames :: "TableDescriptor \<Rightarrow> string list \<Rightarrow> error + ColumnDescriptor list"
  Equivalent :: "T \<Rightarrow> T \<Rightarrow> bool"
  GetConstraintInfo :: "TableDescriptor \<Rightarrow> error + (string \<Rightarrow> bool)"
  GenerateUniqueConstraintName :: "string \<Rightarrow> (string \<Rightarrow> bool) \<Rightarrow> string"
  FindFKOriginIndexInTxn :: "TableDescriptor \<Rightarrow> ColumnID list \<Rightarrow> error + IndexDescriptor"
  ValidateIndexNameIsUnique :: "TableDescriptor \<Rightarrow> string \<Rightarrow> error option"
  AddIndex :: "TableDescriptor \<Rightarrow> IndexDescriptor \<Rightarrow> bool \<Rightarrow> error option \<times> TableDescriptor"
  AllocateIDs :: "TableDescriptor \<Rightarrow> error option \<times> TableDescriptor"
  AddIndexMutation ::
    "TableDescriptor \<Rightarrow> IndexDescriptor \<Rightarrow> DescriptorMutation_Direction
       \<Rightarrow> error option \<times> TableDescriptor"
  FindFKReferencedIndex :: "TableDescriptor \<Rightarrow> ColumnID list \<Rightarrow> error + IndexDescriptor"
  ForeignKeyReferenceActionValue :: "ReferenceAction \<Rightarrow> ForeignKeyReference_Action"
  CompositeKeyMatchMethodValue :: "CompositeKeyMatchMethod \<Rightarrow> ForeignKeyReference_Match"
  AddForeignKeyMutation ::
    "TableDescriptor \<Rightarrow> ForeignKeyConstraint \<Rightarrow> DescriptorMutation_Direction
       \<Rightarrow> TableDescriptor"

text \<open>
  The loop over \<^verbatim>\<open>d.FromCols\<close>, with the set of the column IDs met so far and the origin
  columns collected so far.
\<close>

fun originColsLoop ::
  "'a resolve_env_scheme \<Rightarrow> TableDescriptor \<Rightarrow> string list \<Rightarrow> ColumnID list
     \<Rightarrow> ColumnDescriptor list \<Rightarrow> error + ColumnDescriptor list" where
  "originColsLoop env tbl [] originColSet originCols = Inr originCols"
| "originColsLoop env tbl (colName # rest) originColSet originCols =
     (case FindActiveOrNewColumnByName env tbl colName of
        Inl err \<Rightarrow> Inl err
      | Inr col \<Rightarrow>
          (case CheckCanBeFKRef env col of
             Some err \<Rightarrow> Inl err
           | None \<Rightarrow>
               if col_ID col \<in> set originColSet then
                 Inl (PgError InvalidForeignKey ''foreign key contains duplicate column %q'')
               else originColsLoop env tbl rest (originColSet @ [col_ID col])
                      (originCols @ [col])))"

text \<open>
  From the resolution of the target to the end of the branch on \<^verbatim>\<open>target.ID == tbl.ID\<close>:
  the result is the pointer \<^verbatim>\<open>target\<close>, with the store and \<^verbatim>\<open>backrefs\<close> as the code has
  left them. Reading \<^verbatim>\<open>evalCtx.Settings.SV\<close> with nil settings panics.
\<close>

definition resolveFKTarget ::
  "'a resolve_env_scheme \<Rightarrow> FKTableState \<Rightarrow> addr \<Rightarrow> ForeignKeyConstraintTableDef
     \<Rightarrow> store \<Rightarrow> backrefs \<Rightarrow> (error + addr) \<times> store \<times> backrefs" where
  "resolveFKTarget env ts tbl d heap backrefs =
     (case ResolveMutableExistingTableObject env (fkd_Table d) of
        Inl err \<Rightarrow> (Inl err, heap, backrefs)
      | Inr target \<Rightarrow>
          if tbl_ParentID (heap target) \<noteq> tbl_ParentID (heap tbl)
             \<and> (case Settings env of
                  None \<Rightarrow> True
                | Some settings \<Rightarrow> \<not> allowCrossDatabaseFKs settings) then
            (case Settings env of
               None \<Rightarrow> (Inl (Panic ''nil pointer dereference''), heap, backrefs)
             | Some settings \<Rightarrow>
                 (Inl (PgError InvalidForeignKey
                    ''foreign references between databases are not allowed (see the '%s' cluster setting)''),
                  heap, backrefs))
          else if tbl_Temporary (heap tbl) \<noteq> tbl_Temporary (heap target) then
            (Inl (PgError InvalidTableDefinition
               ''constraints on %s tables may reference only %s tables''), heap, backrefs)
          else if tbl_ID (heap target) = tbl_ID (heap tbl) then
            (Inr tbl, heap, backrefs)
          else
            let heap1 = (if ts = NewTable then heap(tbl := (heap tbl)\<lparr>tbl_State := ADD\<rparr>)
                         else heap) in
            (case backrefs (tbl_ID (heap1 target)) of
               Some prev \<Rightarrow> (Inr prev, heap1, backrefs)
             | None \<Rightarrow>
                 (Inr target, heap1, backrefs(tbl_ID (heap1 target) \<mapsto> target))))"

text \<open>The loop that compares the types of the origin and the referenced columns.\<close>

fun columnTypesLoop ::
  "'a resolve_env_scheme \<Rightarrow> ColumnDescriptor list \<Rightarrow> ColumnDescriptor list \<Rightarrow> error option" where
  "columnTypesLoop env (s # originCols) (t # referencedCols) =
     (if \<not> Equivalent env (col_Type s) (col_Type t) then
        Some (PgError DatatypeMismatch ''type of %q (%s) does not match foreign key %q.%q (%s)'')
      else columnTypesLoop env originCols referencedCols)"
| "columnTypesLoop env originCols referencedCols = None"

definition resolveReferencedCols ::
  "'a resolve_env_scheme \<Rightarrow> TableDescriptor \<Rightarrow> ForeignKeyConstraintTableDef
     \<Rightarrow> ColumnDescriptor list \<Rightarrow> error + ColumnDescriptor list" where
  "resolveReferencedCols env target d originCols =
     (let referencedColNames =
            (if length (fkd_ToCols d) = 0 then idx_ColumnNames (tbl_PrimaryIndex target)
             else fkd_ToCols d) in
      case FindActiveColumnsByNames env target referencedColNames of
        Inl err \<Rightarrow> Inl err
      | Inr referencedCols \<Rightarrow>
          if length referencedCols \<noteq> length originCols then
            Inl (PgError Syntax
              ''%d columns must reference exactly %d columns in referenced table (found %d)'')
          else
            (case columnTypesLoop env originCols referencedCols of
               Some err \<Rightarrow> Inl err
             | None \<Rightarrow> Inr referencedCols))"

text \<open>
  The name of the constraint. \<^verbatim>\<open>d.FromCols[0]\<close> panics on an empty list; the two
  \<^verbatim>\<open>fmt.Sprintf\<close> of the source only join strings.
\<close>

definition resolveConstraintName ::
  "'a resolve_env_scheme \<Rightarrow> TableDescriptor \<Rightarrow> TableDescriptor
     \<Rightarrow> ForeignKeyConstraintTableDef \<Rightarrow> error + string" where
  "resolveConstraintName env tbl target d =
     (case GetConstraintInfo env tbl of
        Inl err \<Rightarrow> Inl err
      | Inr constraintInfo \<Rightarrow>
          if fkd_Name d = '''' then
            (case fkd_FromCols d of
               [] \<Rightarrow> Inl (Panic ''index out of range'')
             | firstCol # rest \<Rightarrow>
                 Inr (GenerateUniqueConstraintName env
                        (''fk_'' @ firstCol @ ''_ref_'' @ tbl_Name target) constraintInfo))
          else if constraintInfo (fkd_Name d) then
            Inl (PgError DuplicateObject ''duplicate constraint name: %q'')
          else Inr (fkd_Name d))"

text \<open>The two checks of the SET NULL and SET DEFAULT actions against the origin columns.\<close>

definition checkSetNullAndSetDefault ::
  "ForeignKeyConstraintTableDef \<Rightarrow> ColumnDescriptor list \<Rightarrow> error option" where
  "checkSetNullAndSetDefault d originCols =
     (if (fkd_Actions_Delete d = SetNull \<or> fkd_Actions_Update d = SetNull)
         \<and> list_ex (\<lambda>originColumn. \<not> col_Nullable originColumn) originCols then
        Some (PgError InvalidForeignKey
          ''cannot add a SET NULL cascading action on column %q which has a NOT NULL constraint'')
      else if (fkd_Actions_Delete d = SetDefault \<or> fkd_Actions_Update d = SetDefault)
         \<and> list_ex (\<lambda>originColumn.
               col_DefaultExpr originColumn = None \<and> \<not> col_Nullable originColumn) originCols then
        Some (PgError InvalidForeignKey
          ''cannot add a SET DEFAULT cascading action on column %q which has a NOT NULL constraint and a NULL default expression'')
      else None)"

text \<open>
  \<^verbatim>\<open>addIndexForFK\<close> changes the table it is given; the model returns the ID or the error,
  and the table as the function has left it.
\<close>

definition addIndexForFK ::
  "'a resolve_env_scheme \<Rightarrow> TableDescriptor \<Rightarrow> ColumnDescriptor list \<Rightarrow> string
     \<Rightarrow> FKTableState \<Rightarrow> (error + IndexID) \<times> TableDescriptor" where
  "addIndexForFK env tbl srcCols constraintName ts =
     (let autoIndexName = GenerateUniqueConstraintName env
            (tbl_Name tbl @ ''_auto_index_'' @ constraintName)
            (\<lambda>name. ValidateIndexNameIsUnique env tbl name \<noteq> None);
          idx = emptyIndex
            \<lparr> idx_Name := autoIndexName,
              idx_ColumnNames := map col_Name srcCols,
              idx_ColumnDirections := map (\<lambda>c. ASC) srcCols \<rparr> in
      if ts = NewTable then
        (case AddIndex env tbl idx False of
           (Some err, tbl1) \<Rightarrow> (Inl err, tbl1)
         | (None, tbl1) \<Rightarrow>
             (case AllocateIDs env tbl1 of
                (Some err, tbl2) \<Rightarrow> (Inl err, tbl2)
              | (None, tbl2) \<Rightarrow>
                  if tbl_Indexes tbl2 = [] then (Inl (Panic ''index out of range''), tbl2)
                  else (Inr (idx_ID (last (tbl_Indexes tbl2))), tbl2)))
      else
        (case AddIndexMutation env tbl idx Mutation_ADD of
           (Some err, tbl1) \<Rightarrow> (Inl err, tbl1)
         | (None, tbl1) \<Rightarrow>
             (case AllocateIDs env tbl1 of
                (Some err, tbl2) \<Rightarrow> (Inl err, tbl2)
              | (None, tbl2) \<Rightarrow>
                  if tbl_Mutations tbl2 = [] then (Inl (Panic ''index out of range''), tbl2)
                  else
                    (case mut_Descriptor (last (tbl_Mutations tbl2)) of
                       Mutation_Index index \<Rightarrow> (Inr (idx_ID index), tbl2)
                     | _ \<Rightarrow> (Inl (Panic ''nil pointer dereference''), tbl2)))))"

text \<open>
  The loop that collects the column names for the error of a non-empty table: it returns
  the error of the first column ID that is not found.
\<close>

fun originColumnNamesLoop ::
  "'a resolve_env_scheme \<Rightarrow> TableDescriptor \<Rightarrow> ColumnID list \<Rightarrow> error option" where
  "originColumnNamesLoop env tbl [] = None"
| "originColumnNamesLoop env tbl (c # rest) =
     (case FindColumnByID env tbl c of
        Inl err \<Rightarrow> Some err
      | Inr col \<Rightarrow> originColumnNamesLoop env tbl rest)"

text \<open>The block guarded by the version check, on the table \<^verbatim>\<open>tbl\<close>.\<close>

definition ensureOriginIndex ::
  "'a resolve_env_scheme \<Rightarrow> FKTableState \<Rightarrow> TableDescriptor \<Rightarrow> ColumnDescriptor list
     \<Rightarrow> ColumnID list \<Rightarrow> string \<Rightarrow> error option \<times> TableDescriptor" where
  "ensureOriginIndex env ts tbl originCols originColumnIDs constraintName =
     (case Settings env of
        None \<Rightarrow> (None, tbl)
      | Some settings \<Rightarrow>
          if NoOriginFKIndexesActive settings then (None, tbl)
          else
            (case FindFKOriginIndexInTxn env tbl originColumnIDs of
               Inr found \<Rightarrow> (None, tbl)
             | Inl notFound \<Rightarrow>
                 if ts = NonEmptyTable then
                   (case originColumnNamesLoop env tbl originColumnIDs of
                      Some err \<Rightarrow> (Some err, tbl)
                    | None \<Rightarrow>
                        (Some (PgError ForeignKeyViolation
                           ''foreign key requires an existing index on columns %s''), tbl))
                 else
                   (case addIndexForFK env tbl originCols constraintName ts of
                      (Inl err, tbl') \<Rightarrow> (Some err, tbl')
                    | (Inr indexID, tbl') \<Rightarrow> (None, tbl'))))"

text \<open>The validity of the constraint and the constraint itself.\<close>

definition constraintValidity :: "FKTableState \<Rightarrow> ValidationBehavior \<Rightarrow> ConstraintValidity" where
  "constraintValidity ts validationBehavior =
     (if ts \<noteq> NewTable then
        (if validationBehavior = ValidationSkip then Unvalidated else Validating)
      else Validated)"

definition foreignKeyConstraint ::
  "'a resolve_env_scheme \<Rightarrow> TableDescriptor \<Rightarrow> TableDescriptor \<Rightarrow> ForeignKeyConstraintTableDef
     \<Rightarrow> ColumnID list \<Rightarrow> ColumnID list \<Rightarrow> string \<Rightarrow> ConstraintValidity
     \<Rightarrow> ForeignKeyConstraint" where
  "foreignKeyConstraint env tbl target d originColumnIDs targetColIDs constraintName validity =
     \<lparr> fk_OriginTableID = tbl_ID tbl,
       fk_OriginColumnIDs = originColumnIDs,
       fk_ReferencedColumnIDs = targetColIDs,
       fk_ReferencedTableID = tbl_ID target,
       fk_Name = constraintName,
       fk_Validity = validity,
       fk_OnDelete = ForeignKeyReferenceActionValue env (fkd_Actions_Delete d),
       fk_OnUpdate = ForeignKeyReferenceActionValue env (fkd_Actions_Update d),
       fk_Match = CompositeKeyMatchMethodValue env (fkd_Match d) \<rparr>"

text \<open>
  The end of \<^verbatim>\<open>ResolveFK\<close>: the two appends through the pointers \<^verbatim>\<open>tbl\<close> and \<^verbatim>\<open>target\<close>
  (the second one sees the first when both point to one object), or the mutation.
\<close>

definition addForeignKey ::
  "'a resolve_env_scheme \<Rightarrow> FKTableState \<Rightarrow> addr \<Rightarrow> addr \<Rightarrow> ForeignKeyConstraint
     \<Rightarrow> store \<Rightarrow> store" where
  "addForeignKey env ts tbl target ref heap =
     (if ts = NewTable then
        let heap1 = heap(tbl := (heap tbl)
                      \<lparr>tbl_OutboundFKs := tbl_OutboundFKs (heap tbl) @ [ref]\<rparr>)
        in heap1(target := (heap1 target)
                   \<lparr>tbl_InboundFKs := tbl_InboundFKs (heap1 target) @ [ref]\<rparr>)
      else heap(tbl := AddForeignKeyMutation env (heap tbl) ref Mutation_ADD))"

text \<open>
  \<^verbatim>\<open>ResolveFK\<close>: the error (\<open>None\<close> for nil), the store and the map \<^verbatim>\<open>backrefs\<close> as the
  function leaves them.
\<close>

definition ResolveFK ::
  "'a resolve_env_scheme \<Rightarrow> store \<Rightarrow> backrefs \<Rightarrow> addr \<Rightarrow> ForeignKeyConstraintTableDef
     \<Rightarrow> FKTableState \<Rightarrow> ValidationBehavior \<Rightarrow> error option \<times> store \<times> backrefs" where
  "ResolveFK env heap backrefs tbl d ts validationBehavior =
     (case originColsLoop env (heap tbl) (fkd_FromCols d) [] [] of
        Inl err \<Rightarrow> (Some err, heap, backrefs)
      | Inr originCols \<Rightarrow>
     (case resolveFKTarget env ts tbl d heap backrefs of
        (Inl err, heap1, backrefs1) \<Rightarrow> (Some err, heap1, backrefs1)
      | (Inr target, heap1, backrefs1) \<Rightarrow>
     (case resolveReferencedCols env (heap1 target) d originCols of
        Inl err \<Rightarrow> (Some err, heap1, backrefs1)
      | Inr referencedCols \<Rightarrow>
     (case resolveConstraintName env (heap1 tbl) (heap1 target) d of
        Inl err \<Rightarrow> (Some err, heap1, backrefs1)
      | Inr constraintName \<Rightarrow>
     (let originColumnIDs = map col_ID originCols;
          targetColIDs = map col_ID referencedCols in
      case checkSetNullAndSetDefault d originCols of
        Some err \<Rightarrow> (Some err, heap1, backrefs1)
      | None \<Rightarrow>
     (case ensureOriginIndex env ts (heap1 tbl) originCols originColumnIDs constraintName of
        (Some err, tbl') \<Rightarrow> (Some err, heap1(tbl := tbl'), backrefs1)
      | (None, tbl') \<Rightarrow>
     (let heap2 = heap1(tbl := tbl') in
      case FindFKReferencedIndex env (heap2 target) targetColIDs of
        Inl err \<Rightarrow> (Some err, heap2, backrefs1)
      | Inr referencedIndex \<Rightarrow>
          (None,
           addForeignKey env ts tbl target
             (foreignKeyConstraint env (heap2 tbl) (heap2 target) d originColumnIDs
                targetColIDs constraintName (constraintValidity ts validationBehavior))
             heap2,
           backrefs1))))))))"

text \<open>
  Concrete collaborators on which \<^verbatim>\<open>ResolveFK\<close> is run: columns and indexes are looked up
  in the lists of the descriptor, an index is added at the end of \<^verbatim>\<open>Indexes\<close>, a mutation
  at the end of \<^verbatim>\<open>Mutations\<close>, and \<^verbatim>\<open>AllocateIDs\<close> gives every index without column IDs
  an ID and the IDs of its columns. The resolver knows the tables by their names.
\<close>

definition lookupColumnByName :: "TableDescriptor \<Rightarrow> string \<Rightarrow> error + ColumnDescriptor" where
  "lookupColumnByName desc name =
     (case find (\<lambda>col. col_Name col = name) (tbl_Columns desc) of
        None \<Rightarrow> Inl (Collaborator ''column does not exist'')
      | Some col \<Rightarrow> Inr col)"

fun lookupColumnsByNames :: "TableDescriptor \<Rightarrow> string list \<Rightarrow> error + ColumnDescriptor list" where
  "lookupColumnsByNames desc [] = Inr []"
| "lookupColumnsByNames desc (name # names) =
     (case lookupColumnByName desc name of
        Inl err \<Rightarrow> Inl err
      | Inr col \<Rightarrow>
          (case lookupColumnsByNames desc names of
             Inl err \<Rightarrow> Inl err
           | Inr cols \<Rightarrow> Inr (col # cols)))"

definition columnIDsOfNames :: "TableDescriptor \<Rightarrow> string list \<Rightarrow> ColumnID list" where
  "columnIDsOfNames desc names =
     (case lookupColumnsByNames desc names of Inl err \<Rightarrow> [] | Inr cols \<Rightarrow> map col_ID cols)"

definition exampleResolveEnv ::
  "(string \<Rightarrow> addr option) \<Rightarrow> ClusterSettings option \<Rightarrow> resolve_env" where
  "exampleResolveEnv tables settings =
     \<lparr> ResolveExistingTableObject = (\<lambda>name. Inl (Collaborator ''relation does not exist'')),
       FindColumnByID = lookupColumnByID,
       Identical = (=),
       FindActiveOrNewColumnByName = lookupColumnByName,
       CheckCanBeFKRef = (\<lambda>col. None),
       ResolveMutableExistingTableObject = (\<lambda>name.
         case tables (tn_Object name) of
           None \<Rightarrow> Inl (Collaborator ''relation does not exist'')
         | Some a \<Rightarrow> Inr a),
       Settings = settings,
       FindActiveColumnsByNames = lookupColumnsByNames,
       Equivalent = (=),
       GetConstraintInfo = (\<lambda>desc. Inr (\<lambda>name. name \<in> set (map fk_Name (tbl_OutboundFKs desc)))),
       GenerateUniqueConstraintName = (\<lambda>prefix nameExists.
         if nameExists prefix then prefix @ ''_1'' else prefix),
       FindFKOriginIndexInTxn = (\<lambda>desc ids.
         case find (\<lambda>index. take (length ids) (idx_ColumnIDs index) = ids)
                (tbl_PrimaryIndex desc # tbl_Indexes desc) of
           None \<Rightarrow> Inl (Collaborator ''could not find suitable index'')
         | Some index \<Rightarrow> Inr index),
       ValidateIndexNameIsUnique = (\<lambda>desc name.
         if name \<in> set (map idx_Name (tbl_PrimaryIndex desc # tbl_Indexes desc))
         then Some (Collaborator ''duplicate index name'') else None),
       AddIndex = (\<lambda>desc index primary. (None, desc\<lparr>tbl_Indexes := tbl_Indexes desc @ [index]\<rparr>)),
       AllocateIDs = (\<lambda>desc.
         (None, desc\<lparr>tbl_Indexes := map (\<lambda>index.
            if idx_ColumnIDs index = [] then
              index\<lparr>idx_ID := 1 + of_nat (length (tbl_Indexes desc)),
                    idx_ColumnIDs := columnIDsOfNames desc (idx_ColumnNames index)\<rparr>
            else index) (tbl_Indexes desc)\<rparr>)),
       AddIndexMutation = (\<lambda>desc index direction.
         (None, desc\<lparr>tbl_Mutations := tbl_Mutations desc @
            [\<lparr> mut_Descriptor = Mutation_Index index, mut_Direction = direction \<rparr>]\<rparr>)),
       FindFKReferencedIndex = (\<lambda>desc ids.
         case find (\<lambda>index. idx_Unique index \<and> idx_ColumnIDs index = ids)
                (tbl_PrimaryIndex desc # tbl_Indexes desc) of
           None \<Rightarrow> Inl (PgError ForeignKeyViolation
             ''there is no unique constraint matching given keys for referenced table %s'')
         | Some index \<Rightarrow> Inr index),
       ForeignKeyReferenceActionValue = (\<lambda>action.
         case action of NoAction \<Rightarrow> NO_ACTION | Restrict \<Rightarrow> RESTRICT | SetNull \<Rightarrow> SET_NULL
         | SetDefault \<Rightarrow> SET_DEFAULT | Cascade \<Rightarrow> CASCADE),
       CompositeKeyMatchMethodValue = (\<lambda>method.
         case method of MatchSimple \<Rightarrow> SIMPLE | MatchFull \<Rightarrow> FULL | MatchPartial \<Rightarrow> PARTIAL),
       AddForeignKeyMutation = (\<lambda>desc fk direction.
         desc\<lparr>tbl_Mutations := tbl_Mutations desc @
           [\<lparr> mut_Descriptor = Mutation_Constraint fk, mut_Direction = direction \<rparr>]\<rparr>) \<rparr>"

text \<open>
  \<^verbatim>\<open>CREATE TABLE child (a INT REFERENCES parent (a), s STRING NOT NULL)\<close> with its hidden
  \<open>rowid\<close> primary key, and the existing table \<^verbatim>\<open>parent (a INT PRIMARY KEY)\<close>. The store
  holds \<open>child\<close> at address 0 and \<open>parent\<close> at address 1; address 2 holds a second object
  that describes \<open>child\<close>.
\<close>

definition fkChild :: TableDescriptor where
  "fkChild = emptyTable
     \<lparr> tbl_ID := 53, tbl_ParentID := 50, tbl_Name := ''child'',
       tbl_Columns := [intColumn ''a'' 1 True,
                       (intColumn ''s'' 2 False)\<lparr>col_Type := types_String\<rparr>,
                       (intColumn ''rowid'' 3 False)\<lparr>col_Hidden := True\<rparr>],
       tbl_PrimaryIndex := emptyIndex
         \<lparr> idx_Name := ''primary'', idx_ID := 1, idx_Unique := True,
           idx_ColumnNames := [''rowid''], idx_ColumnDirections := [ASC],
           idx_ColumnIDs := [3] \<rparr> \<rparr>"

definition fkParent :: TableDescriptor where
  "fkParent = emptyTable
     \<lparr> tbl_ID := 52, tbl_ParentID := 50, tbl_Name := ''parent'',
       tbl_Columns := [intColumn ''a'' 1 False],
       tbl_PrimaryIndex := emptyIndex
         \<lparr> idx_Name := ''primary'', idx_ID := 1, idx_Unique := True,
           idx_ColumnNames := [''a''], idx_ColumnDirections := [ASC],
           idx_ColumnIDs := [1] \<rparr> \<rparr>"

definition fkStore :: store where
  "fkStore = (\<lambda>a. emptyTable)(0 := fkChild, 1 := fkParent, 2 := fkChild)"

definition fkTables :: "string \<Rightarrow> addr option" where
  "fkTables = [''parent'' \<mapsto> 1, ''child'' \<mapsto> 2]"

definition references ::
  "string list \<Rightarrow> string \<Rightarrow> string list \<Rightarrow> ReferenceAction \<Rightarrow> ForeignKeyConstraintTableDef" where
  "references fromCols table toCols onDelete =
     \<lparr> fkd_Name = '''',
       fkd_Table = \<lparr> tn_Schema = ''public'', tn_Object = table \<rparr>,
       fkd_FromCols = fromCols,
       fkd_ToCols = toCols,
       fkd_Actions_Delete = onDelete,
       fkd_Actions_Update = NoAction,
       fkd_Match = MatchSimple \<rparr>"

definition newVersion :: "ClusterSettings option" where
  "newVersion = Some \<lparr> allowCrossDatabaseFKs = False, NoOriginFKIndexesActive = True \<rparr>"

definition oldVersion :: "ClusterSettings option" where
  "oldVersion = Some \<lparr> allowCrossDatabaseFKs = False, NoOriginFKIndexesActive = False \<rparr>"

text \<open>What \<^verbatim>\<open>ResolveFK\<close> has gone through when it returns nil.\<close>

lemma ResolveFK_success:
  assumes "ResolveFK env heap backrefs tbl d ts validationBehavior = (None, heap', backrefs')"
  obtains originCols target heap1 referencedCols constraintName tbl' where
    "originColsLoop env (heap tbl) (fkd_FromCols d) [] [] = Inr originCols"
    and "resolveFKTarget env ts tbl d heap backrefs = (Inr target, heap1, backrefs')"
    and "resolveReferencedCols env (heap1 target) d originCols = Inr referencedCols"
    and "resolveConstraintName env (heap1 tbl) (heap1 target) d = Inr constraintName"
    and "checkSetNullAndSetDefault d originCols = None"
    and "ensureOriginIndex env ts (heap1 tbl) originCols (map col_ID originCols) constraintName
           = (None, tbl')"
    and "heap' = addForeignKey env ts tbl target
           (foreignKeyConstraint env ((heap1(tbl := tbl')) tbl) ((heap1(tbl := tbl')) target) d
              (map col_ID originCols) (map col_ID referencedCols) constraintName
              (constraintValidity ts validationBehavior))
           (heap1(tbl := tbl'))"
  using assms
  by (auto simp add: ResolveFK_def Let_def
      split: sum.splits prod.splits option.splits)

text \<open>The target: the table itself for a self-reference, else the table of \<^verbatim>\<open>backrefs\<close>.\<close>

lemma resolveFKTarget_cases:
  assumes "resolveFKTarget env ts tbl d heap backrefs = (Inr target, heap1, backrefs1)"
  obtains (self) resolved where
      "ResolveMutableExistingTableObject env (fkd_Table d) = Inr resolved"
      "tbl_ID (heap resolved) = tbl_ID (heap tbl)"
      "target = tbl" "heap1 = heap" "backrefs1 = backrefs"
    | (known) resolved where
      "ResolveMutableExistingTableObject env (fkd_Table d) = Inr resolved"
      "tbl_ID (heap resolved) \<noteq> tbl_ID (heap tbl)"
      "backrefs (tbl_ID (heap resolved)) = Some target"
      "heap1 = (if ts = NewTable then heap(tbl := (heap tbl)\<lparr>tbl_State := ADD\<rparr>) else heap)"
      "backrefs1 = backrefs"
    | (fresh) 
      "ResolveMutableExistingTableObject env (fkd_Table d) = Inr target"
      "tbl_ID (heap target) \<noteq> tbl_ID (heap tbl)"
      "backrefs (tbl_ID (heap target)) = None"
      "heap1 = (if ts = NewTable then heap(tbl := (heap tbl)\<lparr>tbl_State := ADD\<rparr>) else heap)"
      "backrefs1 = backrefs(tbl_ID (heap target) \<mapsto> target)"
proof -
  from assms obtain resolved where
    r: "ResolveMutableExistingTableObject env (fkd_Table d) = Inr resolved"
    by (auto simp add: resolveFKTarget_def split: sum.splits)
  show ?thesis
  proof (cases "tbl_ID (heap resolved) = tbl_ID (heap tbl)")
    case True
    with assms r have "target = tbl" "heap1 = heap" "backrefs1 = backrefs"
      by (auto simp add: resolveFKTarget_def split: if_splits option.splits)
    with r True show ?thesis by (rule self)
  next
    case False
    then have ne: "resolved \<noteq> tbl" by auto
    let ?h = "if ts = NewTable then heap(tbl := (heap tbl)\<lparr>tbl_State := ADD\<rparr>) else heap"
    from ne have same: "tbl_ID (?h resolved) = tbl_ID (heap resolved)" by simp
    show ?thesis
    proof (cases "backrefs (tbl_ID (heap resolved))")
      case None
      with assms r False ne have "target = resolved" "heap1 = ?h"
          "backrefs1 = backrefs(tbl_ID (heap resolved) \<mapsto> resolved)"
        by (auto simp add: resolveFKTarget_def Let_def split: if_splits option.splits)
      with r False None show ?thesis by (intro fresh) simp_all
    next
      case (Some prev)
      with assms r False ne have "target = prev" "heap1 = ?h" "backrefs1 = backrefs"
        by (auto simp add: resolveFKTarget_def Let_def split: if_splits option.splits)
      with r False Some show ?thesis by (intro known [of resolved]) simp_all
    qed
  qed
qed

text \<open>Whatever it returns, \<^verbatim>\<open>resolveFKTarget\<close> changes nothing but the state of \<^verbatim>\<open>tbl\<close>.\<close>

lemma resolveFKTarget_store:
  assumes "resolveFKTarget env ts tbl d heap backrefs = (r, heap1, backrefs1)"
  shows "heap1 = heap \<or> (ts = NewTable \<and> heap1 = heap(tbl := (heap tbl)\<lparr>tbl_State := ADD\<rparr>))"
  using assms
  by (auto simp add: resolveFKTarget_def Let_def split: sum.splits if_splits option.splits)


text \<open>
  The whole of a run of \<^verbatim>\<open>ResolveFK\<close> that returns nil: the table the resolver gives, the
  pointer \<^verbatim>\<open>target\<close> chosen from it, the table \<^verbatim>\<open>tbl\<close> as it is when the columns are
  resolved (\<open>tbl0\<close>) and after the block of the origin index (\<open>tbl1\<close>), the constraint,
  and the store and \<^verbatim>\<open>backrefs\<close> at the end.
\<close>

lemma ResolveFK_nil_result:
  assumes "ResolveFK env heap backrefs tbl d ts validationBehavior = (None, heap', backrefs')"
  shows "\<exists>resolved target tbl0 targetDesc originCols referencedCols constraintName tbl1 ref.
           ResolveMutableExistingTableObject env (fkd_Table d) = Inr resolved
           \<and> target = (if tbl_ID (heap resolved) = tbl_ID (heap tbl) then tbl
                       else case backrefs (tbl_ID (heap resolved)) of
                              Some prev \<Rightarrow> prev | None \<Rightarrow> resolved)
           \<and> backrefs' = (if tbl_ID (heap resolved) = tbl_ID (heap tbl) then backrefs
                       else case backrefs (tbl_ID (heap resolved)) of
                              Some prev \<Rightarrow> backrefs
                            | None \<Rightarrow> backrefs(tbl_ID (heap resolved) \<mapsto> resolved))
           \<and> tbl0 = (if tbl_ID (heap resolved) \<noteq> tbl_ID (heap tbl) \<and> ts = NewTable
                     then (heap tbl)\<lparr>tbl_State := ADD\<rparr> else heap tbl)
           \<and> targetDesc = (if target = tbl then tbl0 else heap target)
           \<and> originColsLoop env (heap tbl) (fkd_FromCols d) [] [] = Inr originCols
           \<and> resolveReferencedCols env targetDesc d originCols = Inr referencedCols
           \<and> resolveConstraintName env tbl0 targetDesc d = Inr constraintName
           \<and> checkSetNullAndSetDefault d originCols = None
           \<and> ensureOriginIndex env ts tbl0 originCols (map col_ID originCols) constraintName
               = (None, tbl1)
           \<and> ref = \<lparr> fk_OriginTableID = tbl_ID tbl1,
                     fk_OriginColumnIDs = map col_ID originCols,
                     fk_ReferencedColumnIDs = map col_ID referencedCols,
                     fk_ReferencedTableID = tbl_ID (if target = tbl then tbl1 else heap target),
                     fk_Name = constraintName,
                     fk_Validity = constraintValidity ts validationBehavior,
                     fk_OnDelete = ForeignKeyReferenceActionValue env (fkd_Actions_Delete d),
                     fk_OnUpdate = ForeignKeyReferenceActionValue env (fkd_Actions_Update d),
                     fk_Match = CompositeKeyMatchMethodValue env (fkd_Match d) \<rparr>
           \<and> heap' =
               (if ts = NewTable then
                  (if target = tbl then
                     heap(tbl := tbl1\<lparr>tbl_OutboundFKs := tbl_OutboundFKs tbl1 @ [ref],
                                      tbl_InboundFKs := tbl_InboundFKs tbl1 @ [ref]\<rparr>)
                   else
                     heap(tbl := tbl1\<lparr>tbl_OutboundFKs := tbl_OutboundFKs tbl1 @ [ref]\<rparr>,
                          target := (heap target)
                            \<lparr>tbl_InboundFKs := tbl_InboundFKs (heap target) @ [ref]\<rparr>))
                else heap(tbl := AddForeignKeyMutation env tbl1 ref Mutation_ADD))"
proof -
  from assms obtain originCols target heap1 referencedCols constraintName tbl1 where
    oc: "originColsLoop env (heap tbl) (fkd_FromCols d) [] [] = Inr originCols"
    and tg: "resolveFKTarget env ts tbl d heap backrefs = (Inr target, heap1, backrefs')"
    and rc: "resolveReferencedCols env (heap1 target) d originCols = Inr referencedCols"
    and cn: "resolveConstraintName env (heap1 tbl) (heap1 target) d = Inr constraintName"
    and ck: "checkSetNullAndSetDefault d originCols = None"
    and oi: "ensureOriginIndex env ts (heap1 tbl) originCols (map col_ID originCols)
               constraintName = (None, tbl1)"
    and h: "heap' = addForeignKey env ts tbl target
           (foreignKeyConstraint env ((heap1(tbl := tbl1)) tbl) ((heap1(tbl := tbl1)) target) d
              (map col_ID originCols) (map col_ID referencedCols) constraintName
              (constraintValidity ts validationBehavior))
           (heap1(tbl := tbl1))"
    by (rule ResolveFK_success)
  have "\<exists>resolved.
          ResolveMutableExistingTableObject env (fkd_Table d) = Inr resolved
          \<and> target = (if tbl_ID (heap resolved) = tbl_ID (heap tbl) then tbl
                       else case backrefs (tbl_ID (heap resolved)) of
                              Some prev \<Rightarrow> prev | None \<Rightarrow> resolved)
          \<and> backrefs' = (if tbl_ID (heap resolved) = tbl_ID (heap tbl) then backrefs
                       else case backrefs (tbl_ID (heap resolved)) of
                              Some prev \<Rightarrow> backrefs
                            | None \<Rightarrow> backrefs(tbl_ID (heap resolved) \<mapsto> resolved))
          \<and> heap1 = (if tbl_ID (heap resolved) \<noteq> tbl_ID (heap tbl) \<and> ts = NewTable
                      then heap(tbl := (heap tbl)\<lparr>tbl_State := ADD\<rparr>) else heap)"
    using tg
  proof (cases rule: resolveFKTarget_cases)
    case (self resolved)
    then show ?thesis by (intro exI [of _ resolved]) simp
  next
    case (known resolved)
    then show ?thesis by (intro exI [of _ resolved]) simp
  next
    case fresh
    then show ?thesis by (intro exI [of _ target]) simp
  qed
  then obtain resolved where
    r: "ResolveMutableExistingTableObject env (fkd_Table d) = Inr resolved"
    and t: "target = (if tbl_ID (heap resolved) = tbl_ID (heap tbl) then tbl
                       else case backrefs (tbl_ID (heap resolved)) of
                              Some prev \<Rightarrow> prev | None \<Rightarrow> resolved)"
    and b: "backrefs' = (if tbl_ID (heap resolved) = tbl_ID (heap tbl) then backrefs
                       else case backrefs (tbl_ID (heap resolved)) of
                              Some prev \<Rightarrow> backrefs
                            | None \<Rightarrow> backrefs(tbl_ID (heap resolved) \<mapsto> resolved))"
    and h1: "heap1 = (if tbl_ID (heap resolved) \<noteq> tbl_ID (heap tbl) \<and> ts = NewTable
                      then heap(tbl := (heap tbl)\<lparr>tbl_State := ADD\<rparr>) else heap)"
    by blast
  define tbl0 where "tbl0 = (if tbl_ID (heap resolved) \<noteq> tbl_ID (heap tbl) \<and> ts = NewTable
                     then (heap tbl)\<lparr>tbl_State := ADD\<rparr> else heap tbl)"
  define targetDesc where "targetDesc = (if target = tbl then tbl0 else heap target)"
  define ref where "ref =
     \<lparr> fk_OriginTableID = tbl_ID tbl1,
       fk_OriginColumnIDs = map col_ID originCols,
       fk_ReferencedColumnIDs = map col_ID referencedCols,
       fk_ReferencedTableID = tbl_ID (if target = tbl then tbl1 else heap target),
       fk_Name = constraintName,
       fk_Validity = constraintValidity ts validationBehavior,
       fk_OnDelete = ForeignKeyReferenceActionValue env (fkd_Actions_Delete d),
       fk_OnUpdate = ForeignKeyReferenceActionValue env (fkd_Actions_Update d),
       fk_Match = CompositeKeyMatchMethodValue env (fkd_Match d) \<rparr>"
  have a0: "heap1 tbl = tbl0"
    by (simp add: h1 tbl0_def)
  have a1: "heap1 target = targetDesc"
    by (simp add: h1 tbl0_def targetDesc_def)
  have a2: "(heap1(tbl := tbl1)) target = (if target = tbl then tbl1 else heap target)"
    by (simp add: h1)
  have fk: "foreignKeyConstraint env ((heap1(tbl := tbl1)) tbl) ((heap1(tbl := tbl1)) target) d
              (map col_ID originCols) (map col_ID referencedCols) constraintName
              (constraintValidity ts validationBehavior) = ref"
    unfolding a2 by (simp add: foreignKeyConstraint_def ref_def)
  have h': "heap' =
               (if ts = NewTable then
                  (if target = tbl then
                     heap(tbl := tbl1\<lparr>tbl_OutboundFKs := tbl_OutboundFKs tbl1 @ [ref],
                                      tbl_InboundFKs := tbl_InboundFKs tbl1 @ [ref]\<rparr>)
                   else
                     heap(tbl := tbl1\<lparr>tbl_OutboundFKs := tbl_OutboundFKs tbl1 @ [ref]\<rparr>,
                          target := (heap target)
                            \<lparr>tbl_InboundFKs := tbl_InboundFKs (heap target) @ [ref]\<rparr>))
                else heap(tbl := AddForeignKeyMutation env tbl1 ref Mutation_ADD))"
    unfolding h fk by (auto simp add: addForeignKey_def Let_def h1 fun_upd_twist)
  from r t b tbl0_def targetDesc_def oc rc [unfolded a1] cn [unfolded a0 a1] ck
    oi [unfolded a0] ref_def h'
  show ?thesis by blast
qed

text \<open>
  The functions that add an index or allocate IDs are parameters; where a statement compares
  the foreign keys of a table before and after \<^verbatim>\<open>ResolveFK\<close>, it takes them to leave the
  two lists of foreign keys alone.
\<close>

definition keepsForeignKeys :: "'a resolve_env_scheme \<Rightarrow> bool" where
  "keepsForeignKeys env \<longleftrightarrow>
     (\<forall>desc index primary.
        tbl_OutboundFKs (snd (AddIndex env desc index primary)) = tbl_OutboundFKs desc
        \<and> tbl_InboundFKs (snd (AddIndex env desc index primary)) = tbl_InboundFKs desc)
     \<and> (\<forall>desc.
        tbl_OutboundFKs (snd (AllocateIDs env desc)) = tbl_OutboundFKs desc
        \<and> tbl_InboundFKs (snd (AllocateIDs env desc)) = tbl_InboundFKs desc)
     \<and> (\<forall>desc index direction.
        tbl_OutboundFKs (snd (AddIndexMutation env desc index direction)) = tbl_OutboundFKs desc
        \<and> tbl_InboundFKs (snd (AddIndexMutation env desc index direction)) = tbl_InboundFKs desc)"

lemma keepsForeignKeys_AddIndex:
  "keepsForeignKeys env \<Longrightarrow> AddIndex env desc index primary = (e, desc') \<Longrightarrow>
     tbl_OutboundFKs desc' = tbl_OutboundFKs desc \<and> tbl_InboundFKs desc' = tbl_InboundFKs desc"
  unfolding keepsForeignKeys_def by (metis snd_conv)

lemma keepsForeignKeys_AllocateIDs:
  "keepsForeignKeys env \<Longrightarrow> AllocateIDs env desc = (e, desc') \<Longrightarrow>
     tbl_OutboundFKs desc' = tbl_OutboundFKs desc \<and> tbl_InboundFKs desc' = tbl_InboundFKs desc"
  unfolding keepsForeignKeys_def by (metis snd_conv)

lemma keepsForeignKeys_AddIndexMutation:
  "keepsForeignKeys env \<Longrightarrow> AddIndexMutation env desc index direction = (e, desc') \<Longrightarrow>
     tbl_OutboundFKs desc' = tbl_OutboundFKs desc \<and> tbl_InboundFKs desc' = tbl_InboundFKs desc"
  unfolding keepsForeignKeys_def by (metis snd_conv)

lemma addIndexForFK_FKs:
  assumes "keepsForeignKeys env"
    and "addIndexForFK env tbl srcCols constraintName ts = (r, tbl')"
  shows "tbl_OutboundFKs tbl' = tbl_OutboundFKs tbl \<and> tbl_InboundFKs tbl' = tbl_InboundFKs tbl"
proof (cases "ts = NewTable")
  case True
  with assms(2) show ?thesis
    by (auto simp add: addIndexForFK_def Let_def
        split: prod.splits option.splits if_splits
        dest!: keepsForeignKeys_AddIndex [OF assms(1)]
               keepsForeignKeys_AllocateIDs [OF assms(1)])
next
  case False
  with assms(2) show ?thesis
    by (auto simp add: addIndexForFK_def Let_def
        split: prod.splits option.splits if_splits Mutation_Descriptor.splits
        dest!: keepsForeignKeys_AddIndexMutation [OF assms(1)]
               keepsForeignKeys_AllocateIDs [OF assms(1)])
qed

lemma ensureOriginIndex_FKs:
  assumes "keepsForeignKeys env"
    and "ensureOriginIndex env ts tbl originCols originColumnIDs constraintName = (e, tbl')"
  shows "tbl_OutboundFKs tbl' = tbl_OutboundFKs tbl \<and> tbl_InboundFKs tbl' = tbl_InboundFKs tbl"
  using assms(2)
  by (auto simp add: ensureOriginIndex_def
      split: option.splits if_splits sum.splits prod.splits
      dest!: addIndexForFK_FKs [OF assms(1)])


lemma resolveFKTarget_FKs:
  assumes "resolveFKTarget env ts tbl d heap backrefs = (r, heap1, backrefs1)"
  shows "tbl_OutboundFKs (heap1 a) = tbl_OutboundFKs (heap a)"
    and "tbl_InboundFKs (heap1 a) = tbl_InboundFKs (heap a)"
    and "a \<noteq> tbl \<Longrightarrow> heap1 a = heap a"
    and "ts \<noteq> NewTable \<Longrightarrow> heap1 = heap"
  using resolveFKTarget_store [OF assms] by auto

text \<open>
  C5. When \<^verbatim>\<open>ResolveFK\<close> returns nil, it has built one constraint record \<open>ref\<close>: its
  origin column IDs are those of the origin columns, its referenced column IDs those of the
  referenced columns, its referenced table the table behind the pointer \<^verbatim>\<open>target\<close>, its
  name the resolved constraint name, its actions and match method those of the definition.
  The pointer \<^verbatim>\<open>target\<close> is the table itself when the resolver gives a table with the ID of
  the table, else the table that \<^verbatim>\<open>backrefs\<close> has for the ID of the resolved table, else
  the resolved table. For a new table that one record is appended to the outbound foreign
  keys of the table and to the inbound foreign keys of the target, so the two appended
  entries agree in every field, and no other table's outbound list and no other table's
  inbound list changes. For a table that is not new the store changes at the table only,
  where the record is registered by one call of \<^verbatim>\<open>AddForeignKeyMutation\<close>. The functions
  that add the index are taken to leave the lists of foreign keys alone.
\<close>

theorem ResolveFK_appends_constraint:
  assumes "ResolveFK env heap backrefs tbl d ts validationBehavior = (None, heap', backrefs')"
    and "keepsForeignKeys env"
  shows "\<exists>resolved target tbl0 targetDesc originCols referencedCols constraintName tbl1 ref.
           ResolveMutableExistingTableObject env (fkd_Table d) = Inr resolved
           \<and> target = (if tbl_ID (heap resolved) = tbl_ID (heap tbl) then tbl
                       else case backrefs (tbl_ID (heap resolved)) of
                              Some prev \<Rightarrow> prev | None \<Rightarrow> resolved)
           \<and> tbl0 = (if tbl_ID (heap resolved) \<noteq> tbl_ID (heap tbl) \<and> ts = NewTable
                     then (heap tbl)\<lparr>tbl_State := ADD\<rparr> else heap tbl)
           \<and> targetDesc = (if target = tbl then tbl0 else heap target)
           \<and> originColsLoop env (heap tbl) (fkd_FromCols d) [] [] = Inr originCols
           \<and> resolveReferencedCols env targetDesc d originCols = Inr referencedCols
           \<and> resolveConstraintName env tbl0 targetDesc d = Inr constraintName
           \<and> ensureOriginIndex env ts tbl0 originCols (map col_ID originCols) constraintName
               = (None, tbl1)
           \<and> tbl_OutboundFKs tbl1 = tbl_OutboundFKs (heap tbl)
           \<and> tbl_InboundFKs tbl1 = tbl_InboundFKs (heap tbl)
           \<and> ref = \<lparr> fk_OriginTableID = tbl_ID tbl1,
                     fk_OriginColumnIDs = map col_ID originCols,
                     fk_ReferencedColumnIDs = map col_ID referencedCols,
                     fk_ReferencedTableID = tbl_ID (if target = tbl then tbl1 else heap target),
                     fk_Name = constraintName,
                     fk_Validity =
                       (if ts = NewTable then Validated
                        else if validationBehavior = ValidationSkip then Unvalidated
                        else Validating),
                     fk_OnDelete = ForeignKeyReferenceActionValue env (fkd_Actions_Delete d),
                     fk_OnUpdate = ForeignKeyReferenceActionValue env (fkd_Actions_Update d),
                     fk_Match = CompositeKeyMatchMethodValue env (fkd_Match d) \<rparr>
           \<and> heap' =
               (if ts = NewTable then
                  (if target = tbl then
                     heap(tbl := tbl1\<lparr>tbl_OutboundFKs := tbl_OutboundFKs (heap tbl) @ [ref],
                                      tbl_InboundFKs := tbl_InboundFKs (heap tbl) @ [ref]\<rparr>)
                   else
                     heap(tbl := tbl1\<lparr>tbl_OutboundFKs := tbl_OutboundFKs (heap tbl) @ [ref]\<rparr>,
                          target := (heap target)
                            \<lparr>tbl_InboundFKs := tbl_InboundFKs (heap target) @ [ref]\<rparr>))
                else heap(tbl := AddForeignKeyMutation env tbl1 ref Mutation_ADD))
           \<and> (ts = NewTable \<longrightarrow>
                 tbl_OutboundFKs (heap' tbl) = tbl_OutboundFKs (heap tbl) @ [ref]
                 \<and> tbl_InboundFKs (heap' target) = tbl_InboundFKs (heap target) @ [ref]
                 \<and> (\<forall>a. a \<noteq> tbl \<longrightarrow> tbl_OutboundFKs (heap' a) = tbl_OutboundFKs (heap a))
                 \<and> (\<forall>a. a \<noteq> target \<longrightarrow> tbl_InboundFKs (heap' a) = tbl_InboundFKs (heap a)))"
proof -
  from ResolveFK_nil_result [OF assms(1)]
  obtain resolved target tbl0 targetDesc originCols referencedCols constraintName tbl1 ref where
    r: "ResolveMutableExistingTableObject env (fkd_Table d) = Inr resolved"
    and t: "target = (if tbl_ID (heap resolved) = tbl_ID (heap tbl) then tbl
                       else case backrefs (tbl_ID (heap resolved)) of
                              Some prev \<Rightarrow> prev | None \<Rightarrow> resolved)"
    and t0: "tbl0 = (if tbl_ID (heap resolved) \<noteq> tbl_ID (heap tbl) \<and> ts = NewTable
                     then (heap tbl)\<lparr>tbl_State := ADD\<rparr> else heap tbl)"
    and td: "targetDesc = (if target = tbl then tbl0 else heap target)"
    and oc: "originColsLoop env (heap tbl) (fkd_FromCols d) [] [] = Inr originCols"
    and rc: "resolveReferencedCols env targetDesc d originCols = Inr referencedCols"
    and cn: "resolveConstraintName env tbl0 targetDesc d = Inr constraintName"
    and oi: "ensureOriginIndex env ts tbl0 originCols (map col_ID originCols)
               constraintName = (None, tbl1)"
    and rf: "ref = \<lparr> fk_OriginTableID = tbl_ID tbl1,
                     fk_OriginColumnIDs = map col_ID originCols,
                     fk_ReferencedColumnIDs = map col_ID referencedCols,
                     fk_ReferencedTableID = tbl_ID (if target = tbl then tbl1 else heap target),
                     fk_Name = constraintName,
                     fk_Validity = constraintValidity ts validationBehavior,
                     fk_OnDelete = ForeignKeyReferenceActionValue env (fkd_Actions_Delete d),
                     fk_OnUpdate = ForeignKeyReferenceActionValue env (fkd_Actions_Update d),
                     fk_Match = CompositeKeyMatchMethodValue env (fkd_Match d) \<rparr>"
    and h: "heap' =
               (if ts = NewTable then
                  (if target = tbl then
                     heap(tbl := tbl1\<lparr>tbl_OutboundFKs := tbl_OutboundFKs tbl1 @ [ref],
                                      tbl_InboundFKs := tbl_InboundFKs tbl1 @ [ref]\<rparr>)
                   else
                     heap(tbl := tbl1\<lparr>tbl_OutboundFKs := tbl_OutboundFKs tbl1 @ [ref]\<rparr>,
                          target := (heap target)
                            \<lparr>tbl_InboundFKs := tbl_InboundFKs (heap target) @ [ref]\<rparr>))
                else heap(tbl := AddForeignKeyMutation env tbl1 ref Mutation_ADD))"
    by blast
  from ensureOriginIndex_FKs [OF assms(2) oi] t0
  have o1: "tbl_OutboundFKs tbl1 = tbl_OutboundFKs (heap tbl)"
    and i1: "tbl_InboundFKs tbl1 = tbl_InboundFKs (heap tbl)"
    by (simp_all split: if_splits)
  have rf': "ref = \<lparr> fk_OriginTableID = tbl_ID tbl1,
                     fk_OriginColumnIDs = map col_ID originCols,
                     fk_ReferencedColumnIDs = map col_ID referencedCols,
                     fk_ReferencedTableID = tbl_ID (if target = tbl then tbl1 else heap target),
                     fk_Name = constraintName,
                     fk_Validity =
                       (if ts = NewTable then Validated
                        else if validationBehavior = ValidationSkip then Unvalidated
                        else Validating),
                     fk_OnDelete = ForeignKeyReferenceActionValue env (fkd_Actions_Delete d),
                     fk_OnUpdate = ForeignKeyReferenceActionValue env (fkd_Actions_Update d),
                     fk_Match = CompositeKeyMatchMethodValue env (fkd_Match d) \<rparr>"
    using rf by (simp add: constraintValidity_def)
  have h': "heap' =
               (if ts = NewTable then
                  (if target = tbl then
                     heap(tbl := tbl1\<lparr>tbl_OutboundFKs := tbl_OutboundFKs (heap tbl) @ [ref],
                                      tbl_InboundFKs := tbl_InboundFKs (heap tbl) @ [ref]\<rparr>)
                   else
                     heap(tbl := tbl1\<lparr>tbl_OutboundFKs := tbl_OutboundFKs (heap tbl) @ [ref]\<rparr>,
                          target := (heap target)
                            \<lparr>tbl_InboundFKs := tbl_InboundFKs (heap target) @ [ref]\<rparr>))
                else heap(tbl := AddForeignKeyMutation env tbl1 ref Mutation_ADD))"
    using h by (simp only: o1 i1)
  have new: "ts = NewTable \<longrightarrow>
                 tbl_OutboundFKs (heap' tbl) = tbl_OutboundFKs (heap tbl) @ [ref]
                 \<and> tbl_InboundFKs (heap' target) = tbl_InboundFKs (heap target) @ [ref]
                 \<and> (\<forall>a. a \<noteq> tbl \<longrightarrow> tbl_OutboundFKs (heap' a) = tbl_OutboundFKs (heap a))
                 \<and> (\<forall>a. a \<noteq> target \<longrightarrow> tbl_InboundFKs (heap' a) = tbl_InboundFKs (heap a))"
    unfolding h' by (simp add: i1)
  from r t t0 td oc rc cn oi o1 i1 rf' h' new show ?thesis by blast
qed

lemma exampleResolveEnv_simps:
  "FindColumnByID (exampleResolveEnv tables settings) = lookupColumnByID"
  "FindActiveOrNewColumnByName (exampleResolveEnv tables settings) = lookupColumnByName"
  "CheckCanBeFKRef (exampleResolveEnv tables settings) col = None"
  "ResolveMutableExistingTableObject (exampleResolveEnv tables settings) tableName =
     (case tables (tn_Object tableName) of
           None \<Rightarrow> Inl (Collaborator ''relation does not exist'')
         | Some a \<Rightarrow> Inr a)"
  "Settings (exampleResolveEnv tables settings) = settings"
  "FindActiveColumnsByNames (exampleResolveEnv tables settings) = lookupColumnsByNames"
  "Equivalent (exampleResolveEnv tables settings) = (=)"
  "GetConstraintInfo (exampleResolveEnv tables settings) desc =
     Inr (\<lambda>name. name \<in> set (map fk_Name (tbl_OutboundFKs desc)))"
  "GenerateUniqueConstraintName (exampleResolveEnv tables settings) prefix nameExists =
     (if nameExists prefix then prefix @ ''_1'' else prefix)"
  "FindFKOriginIndexInTxn (exampleResolveEnv tables settings) desc ids =
     (case find (\<lambda>index. take (length ids) (idx_ColumnIDs index) = ids)
                (tbl_PrimaryIndex desc # tbl_Indexes desc) of
           None \<Rightarrow> Inl (Collaborator ''could not find suitable index'')
         | Some index \<Rightarrow> Inr index)"
  "ValidateIndexNameIsUnique (exampleResolveEnv tables settings) desc name =
     (if name \<in> set (map idx_Name (tbl_PrimaryIndex desc # tbl_Indexes desc))
         then Some (Collaborator ''duplicate index name'') else None)"
  "AddIndex (exampleResolveEnv tables settings) desc index primary =
     (None, desc\<lparr>tbl_Indexes := tbl_Indexes desc @ [index]\<rparr>)"
  "AllocateIDs (exampleResolveEnv tables settings) desc =
     (None, desc\<lparr>tbl_Indexes := map (\<lambda>index.
            if idx_ColumnIDs index = [] then
              index\<lparr>idx_ID := 1 + of_nat (length (tbl_Indexes desc)),
                    idx_ColumnIDs := columnIDsOfNames desc (idx_ColumnNames index)\<rparr>
            else index) (tbl_Indexes desc)\<rparr>)"
  "AddIndexMutation (exampleResolveEnv tables settings) desc index direction =
     (None, desc\<lparr>tbl_Mutations := tbl_Mutations desc @
            [\<lparr> mut_Descriptor = Mutation_Index index, mut_Direction = direction \<rparr>]\<rparr>)"
  "FindFKReferencedIndex (exampleResolveEnv tables settings) desc ids =
     (case find (\<lambda>index. idx_Unique index \<and> idx_ColumnIDs index = ids)
                (tbl_PrimaryIndex desc # tbl_Indexes desc) of
           None \<Rightarrow> Inl (PgError ForeignKeyViolation
             ''there is no unique constraint matching given keys for referenced table %s'')
         | Some index \<Rightarrow> Inr index)"
  "ForeignKeyReferenceActionValue (exampleResolveEnv tables settings) action =
     (case action of NoAction \<Rightarrow> NO_ACTION | Restrict \<Rightarrow> RESTRICT | SetNull \<Rightarrow> SET_NULL
         | SetDefault \<Rightarrow> SET_DEFAULT | Cascade \<Rightarrow> CASCADE)"
  "CompositeKeyMatchMethodValue (exampleResolveEnv tables settings) method =
     (case method of MatchSimple \<Rightarrow> SIMPLE | MatchFull \<Rightarrow> FULL | MatchPartial \<Rightarrow> PARTIAL)"
  "AddForeignKeyMutation (exampleResolveEnv tables settings) desc fk direction =
     desc\<lparr>tbl_Mutations := tbl_Mutations desc @
           [\<lparr> mut_Descriptor = Mutation_Constraint fk, mut_Direction = direction \<rparr>]\<rparr>"
  by (simp_all add: exampleResolveEnv_def)

lemma exampleResolveEnv_keepsForeignKeys: "keepsForeignKeys (exampleResolveEnv tables settings)"
  by (simp add: keepsForeignKeys_def exampleResolveEnv_simps)

lemma fkStore_simps:
  "fkStore 0 = fkChild" "fkStore (Suc 0) = fkParent" "fkStore 2 = fkChild"
  by (simp_all add: fkStore_def)

lemma fkTables_simps:
  "fkTables ''parent'' = Some 1" "fkTables ''child'' = Some 2"
  by (simp_all add: fkTables_def)

lemma fkChild_simps:
  "tbl_ID fkChild = 53" "tbl_ParentID fkChild = 50" "tbl_Name fkChild = ''child''"
  "tbl_Temporary fkChild = False" "tbl_State fkChild = PUBLIC"
  "tbl_Columns fkChild = [intColumn ''a'' 1 True,
                       (intColumn ''s'' 2 False)\<lparr>col_Type := types_String\<rparr>,
                       (intColumn ''rowid'' 3 False)\<lparr>col_Hidden := True\<rparr>]"
  "tbl_PrimaryIndex fkChild = emptyIndex
         \<lparr> idx_Name := ''primary'', idx_ID := 1, idx_Unique := True,
           idx_ColumnNames := [''rowid''], idx_ColumnDirections := [ASC],
           idx_ColumnIDs := [3] \<rparr>"
  "tbl_Indexes fkChild = []" "tbl_OutboundFKs fkChild = []" "tbl_InboundFKs fkChild = []"
  "tbl_Mutations fkChild = []"
  by (simp_all add: fkChild_def emptyTable_def)

lemma fkParent_simps:
  "tbl_ID fkParent = 52" "tbl_ParentID fkParent = 50" "tbl_Name fkParent = ''parent''"
  "tbl_Temporary fkParent = False" "tbl_State fkParent = PUBLIC"
  "tbl_Columns fkParent = [intColumn ''a'' 1 False]"
  "tbl_PrimaryIndex fkParent = emptyIndex
         \<lparr> idx_Name := ''primary'', idx_ID := 1, idx_Unique := True,
           idx_ColumnNames := [''a''], idx_ColumnDirections := [ASC],
           idx_ColumnIDs := [1] \<rparr>"
  "tbl_Indexes fkParent = []" "tbl_OutboundFKs fkParent = []" "tbl_InboundFKs fkParent = []"
  "tbl_Mutations fkParent = []"
  by (simp_all add: fkParent_def emptyTable_def)

lemma references_simps:
  "fkd_Name (references fromCols table toCols onDelete) = []"
  "fkd_Table (references fromCols table toCols onDelete)
     = \<lparr> tn_Schema = ''public'', tn_Object = table \<rparr>"
  "fkd_FromCols (references fromCols table toCols onDelete) = fromCols"
  "fkd_ToCols (references fromCols table toCols onDelete) = toCols"
  "fkd_Actions_Delete (references fromCols table toCols onDelete) = onDelete"
  "fkd_Actions_Update (references fromCols table toCols onDelete) = NoAction"
  "fkd_Match (references fromCols table toCols onDelete) = MatchSimple"
  by (simp_all add: references_def)

lemma example_originCols:
  "originColsLoop (exampleResolveEnv fkTables settings) fkChild [''a''] [] []
     = Inr [intColumn ''a'' 1 True]"
  by (simp add: exampleResolveEnv_simps lookupColumnByName_def fkChild_simps intColumn_def)

lemma example_target:
  "resolveFKTarget (exampleResolveEnv fkTables settings) ts 0
       (references fromCols ''parent'' toCols onDelete) fkStore Map.empty
     = (Inr 1, if ts = NewTable then fkStore(0 := fkChild\<lparr>tbl_State := ADD\<rparr>) else fkStore,
        [52 \<mapsto> 1])"
  by (simp add: resolveFKTarget_def exampleResolveEnv_simps references_simps fkTables_simps
      fkStore_simps fkChild_simps fkParent_simps Let_def)

lemma example_referencedCols:
  "resolveReferencedCols (exampleResolveEnv fkTables settings) fkParent
       (references fromCols ''parent'' [''a''] onDelete) [intColumn ''a'' 1 True]
     = Inr [intColumn ''a'' 1 False]"
  by (simp add: resolveReferencedCols_def exampleResolveEnv_simps references_simps
      lookupColumnByName_def fkParent_simps intColumn_def)

lemma example_constraintName:
  "tbl_OutboundFKs tbl = [] \<Longrightarrow>
   resolveConstraintName (exampleResolveEnv fkTables settings) tbl fkParent
       (references [''a''] ''parent'' toCols onDelete)
     = Inr ''fk_a_ref_parent''"
  by (simp add: resolveConstraintName_def exampleResolveEnv_simps references_simps
      fkParent_simps)

text \<open>The foreign key that \<open>child (a)\<close> gets on \<open>parent (a)\<close>, and the index made for it.\<close>

definition childParentFK :: "ConstraintValidity \<Rightarrow> ForeignKeyConstraint" where
  "childParentFK validity =
     \<lparr> fk_OriginTableID = 53, fk_OriginColumnIDs = [1], fk_ReferencedColumnIDs = [1],
       fk_ReferencedTableID = 52, fk_Name = ''fk_a_ref_parent'', fk_Validity = validity,
       fk_OnDelete = NO_ACTION, fk_OnUpdate = NO_ACTION, fk_Match = SIMPLE \<rparr>"

definition childAutoIndex :: IndexDescriptor where
  "childAutoIndex = emptyIndex
     \<lparr> idx_Name := ''child_auto_index_fk_a_ref_parent'',
       idx_ColumnNames := [''a''],
       idx_ColumnDirections := [ASC] \<rparr>"

lemma example_checkSetNull:
  "checkSetNullAndSetDefault (references fromCols table toCols NoAction) originCols = None"
  by (simp add: checkSetNullAndSetDefault_def references_simps)

lemma example_no_index_needed:
  "ensureOriginIndex (exampleResolveEnv fkTables newVersion) ts tbl originCols ids name
     = (None, tbl)"
  by (simp add: ensureOriginIndex_def exampleResolveEnv_simps newVersion_def)

lemma example_referencedIndex:
  "FindFKReferencedIndex (exampleResolveEnv fkTables settings) fkParent [1]
     = Inr (tbl_PrimaryIndex fkParent)"
  by (simp add: exampleResolveEnv_simps fkParent_simps emptyIndex_def)

lemma ResolveFK_run:
  assumes "originColsLoop env (heap tbl) (fkd_FromCols d) [] [] = Inr originCols"
    and "resolveFKTarget env ts tbl d heap backrefs = (Inr target, heap1, backrefs1)"
    and "resolveReferencedCols env (heap1 target) d originCols = Inr referencedCols"
    and "resolveConstraintName env (heap1 tbl) (heap1 target) d = Inr constraintName"
    and "checkSetNullAndSetDefault d originCols = None"
    and "ensureOriginIndex env ts (heap1 tbl) originCols (map col_ID originCols) constraintName
           = (None, tbl')"
    and "FindFKReferencedIndex env ((heap1(tbl := tbl')) target) (map col_ID referencedCols)
           = Inr referencedIndex"
  shows "ResolveFK env heap backrefs tbl d ts validationBehavior =
           (None,
            addForeignKey env ts tbl target
              (foreignKeyConstraint env ((heap1(tbl := tbl')) tbl) ((heap1(tbl := tbl')) target) d
                 (map col_ID originCols) (map col_ID referencedCols) constraintName
                 (constraintValidity ts validationBehavior))
              (heap1(tbl := tbl')),
            backrefs1)"
  using assms by (simp add: ResolveFK_def Let_def)

lemma example_ResolveFK_new_version:
  "ResolveFK (exampleResolveEnv fkTables newVersion) fkStore Map.empty 0
       (references [''a''] ''parent'' [''a''] NoAction) NewTable validationBehavior
     = (None,
        fkStore(0 := fkChild\<lparr>tbl_State := ADD, tbl_OutboundFKs := [childParentFK Validated]\<rparr>,
                1 := fkParent\<lparr>tbl_InboundFKs := [childParentFK Validated]\<rparr>),
        [52 \<mapsto> 1])"
proof -
  let ?E = "exampleResolveEnv fkTables newVersion"
  let ?D = "references [''a''] ''parent'' [''a''] NoAction"
  let ?h1 = "fkStore(0 := fkChild\<lparr>tbl_State := ADD\<rparr>)"
  have "ResolveFK ?E fkStore Map.empty 0 ?D NewTable validationBehavior =
          (None,
            addForeignKey ?E NewTable 0 1
              (foreignKeyConstraint ?E ((?h1(0 := fkChild\<lparr>tbl_State := ADD\<rparr>)) 0)
                 ((?h1(0 := fkChild\<lparr>tbl_State := ADD\<rparr>)) 1) ?D
                 (map col_ID [intColumn ''a'' 1 True]) (map col_ID [intColumn ''a'' 1 False])
                 ''fk_a_ref_parent'' (constraintValidity NewTable validationBehavior))
              (?h1(0 := fkChild\<lparr>tbl_State := ADD\<rparr>)),
            [52 \<mapsto> 1])"
  proof (rule ResolveFK_run [where referencedIndex = "tbl_PrimaryIndex fkParent"])
    show "originColsLoop ?E (fkStore 0) (fkd_FromCols ?D) [] [] = Inr [intColumn ''a'' 1 True]"
      by (simp only: fkStore_simps references_simps example_originCols)
    show "resolveFKTarget ?E NewTable 0 ?D fkStore Map.empty = (Inr 1, ?h1, [52 \<mapsto> 1])"
      by (simp add: example_target)
    show "resolveReferencedCols ?E (?h1 1) ?D [intColumn ''a'' 1 True]
            = Inr [intColumn ''a'' 1 False]"
      by (simp add: fkStore_simps example_referencedCols)
    show "resolveConstraintName ?E (?h1 0) (?h1 1) ?D = Inr ''fk_a_ref_parent''"
      by (simp add: fkStore_simps example_constraintName fkChild_simps)
    show "checkSetNullAndSetDefault ?D [intColumn ''a'' 1 True] = None"
      by (rule example_checkSetNull)
    show "ensureOriginIndex ?E NewTable (?h1 0) [intColumn ''a'' 1 True]
            (map col_ID [intColumn ''a'' 1 True]) ''fk_a_ref_parent''
          = (None, fkChild\<lparr>tbl_State := ADD\<rparr>)"
      by (simp add: example_no_index_needed)
    show "FindFKReferencedIndex ?E ((?h1(0 := fkChild\<lparr>tbl_State := ADD\<rparr>)) 1)
            (map col_ID [intColumn ''a'' 1 False]) = Inr (tbl_PrimaryIndex fkParent)"
      using example_referencedIndex [of newVersion]
      by (simp add: fkStore_simps intColumn_def)
  qed
  then show ?thesis
    by (simp add: fkStore_simps fkChild_simps addForeignKey_def constraintValidity_def Let_def
        fkParent_simps foreignKeyConstraint_def childParentFK_def exampleResolveEnv_simps
        references_simps intColumn_def)
qed

lemma example_add_index:
  "ensureOriginIndex (exampleResolveEnv fkTables oldVersion) NewTable
       (fkChild\<lparr>tbl_State := ADD\<rparr>) [intColumn ''a'' 1 True] [1] ''fk_a_ref_parent''
     = (None, fkChild\<lparr>tbl_State := ADD,
          tbl_Indexes := [childAutoIndex\<lparr>idx_ID := 2, idx_ColumnIDs := [1]\<rparr>]\<rparr>)"
  by (simp add: ensureOriginIndex_def exampleResolveEnv_simps oldVersion_def fkChild_simps
      emptyIndex_def addIndexForFK_def Let_def intColumn_def childAutoIndex_def
      columnIDsOfNames_def lookupColumnByName_def)

lemma example_ResolveFK_old_version:
  "ResolveFK (exampleResolveEnv fkTables oldVersion) fkStore Map.empty 0
       (references [''a''] ''parent'' [''a''] NoAction) NewTable validationBehavior
     = (None,
        fkStore(0 := fkChild\<lparr>tbl_State := ADD,
                      tbl_Indexes := [childAutoIndex\<lparr>idx_ID := 2, idx_ColumnIDs := [1]\<rparr>],
                      tbl_OutboundFKs := [childParentFK Validated]\<rparr>,
                1 := fkParent\<lparr>tbl_InboundFKs := [childParentFK Validated]\<rparr>),
        [52 \<mapsto> 1])"
proof -
  let ?E = "exampleResolveEnv fkTables oldVersion"
  let ?D = "references [''a''] ''parent'' [''a''] NoAction"
  let ?h1 = "fkStore(0 := fkChild\<lparr>tbl_State := ADD\<rparr>)"
  let ?t = "fkChild\<lparr>tbl_State := ADD,
          tbl_Indexes := [childAutoIndex\<lparr>idx_ID := 2, idx_ColumnIDs := [1]\<rparr>]\<rparr>"
  have "ResolveFK ?E fkStore Map.empty 0 ?D NewTable validationBehavior =
          (None,
            addForeignKey ?E NewTable 0 1
              (foreignKeyConstraint ?E ((?h1(0 := ?t)) 0) ((?h1(0 := ?t)) 1) ?D
                 (map col_ID [intColumn ''a'' 1 True]) (map col_ID [intColumn ''a'' 1 False])
                 ''fk_a_ref_parent'' (constraintValidity NewTable validationBehavior))
              (?h1(0 := ?t)),
            [52 \<mapsto> 1])"
  proof (rule ResolveFK_run [where referencedIndex = "tbl_PrimaryIndex fkParent"])
    show "originColsLoop ?E (fkStore 0) (fkd_FromCols ?D) [] [] = Inr [intColumn ''a'' 1 True]"
      by (simp only: fkStore_simps references_simps example_originCols)
    show "resolveFKTarget ?E NewTable 0 ?D fkStore Map.empty = (Inr 1, ?h1, [52 \<mapsto> 1])"
      by (simp add: example_target)
    show "resolveReferencedCols ?E (?h1 1) ?D [intColumn ''a'' 1 True]
            = Inr [intColumn ''a'' 1 False]"
      by (simp add: fkStore_simps example_referencedCols)
    show "resolveConstraintName ?E (?h1 0) (?h1 1) ?D = Inr ''fk_a_ref_parent''"
      by (simp add: fkStore_simps example_constraintName fkChild_simps)
    show "checkSetNullAndSetDefault ?D [intColumn ''a'' 1 True] = None"
      by (rule example_checkSetNull)
    have m: "map col_ID [intColumn ''a'' 1 True] = [1]" by (simp add: intColumn_def)
    show "ensureOriginIndex ?E NewTable (?h1 0) [intColumn ''a'' 1 True]
            (map col_ID [intColumn ''a'' 1 True]) ''fk_a_ref_parent'' = (None, ?t)"
      unfolding m using example_add_index by simp
    show "FindFKReferencedIndex ?E ((?h1(0 := ?t)) 1)
            (map col_ID [intColumn ''a'' 1 False]) = Inr (tbl_PrimaryIndex fkParent)"
      using example_referencedIndex [of oldVersion]
      by (simp add: fkStore_simps intColumn_def)
  qed
  then show ?thesis
    by (simp add: fkStore_simps fkChild_simps addForeignKey_def constraintValidity_def Let_def
        fkParent_simps foreignKeyConstraint_def childParentFK_def exampleResolveEnv_simps
        references_simps intColumn_def)
qed

lemma example_ResolveFK_empty_table:
  "ResolveFK (exampleResolveEnv fkTables newVersion) fkStore Map.empty 0
       (references [''a''] ''parent'' [''a''] NoAction) EmptyTable ValidationSkip
     = (None,
        fkStore(0 := fkChild\<lparr>tbl_Mutations :=
                  [\<lparr> mut_Descriptor = Mutation_Constraint (childParentFK Unvalidated),
                      mut_Direction = Mutation_ADD \<rparr>]\<rparr>),
        [52 \<mapsto> 1])"
proof -
  let ?E = "exampleResolveEnv fkTables newVersion"
  let ?D = "references [''a''] ''parent'' [''a''] NoAction"
  have "ResolveFK ?E fkStore Map.empty 0 ?D EmptyTable ValidationSkip =
          (None,
            addForeignKey ?E EmptyTable 0 1
              (foreignKeyConstraint ?E ((fkStore(0 := fkChild)) 0) ((fkStore(0 := fkChild)) 1) ?D
                 (map col_ID [intColumn ''a'' 1 True]) (map col_ID [intColumn ''a'' 1 False])
                 ''fk_a_ref_parent'' (constraintValidity EmptyTable ValidationSkip))
              (fkStore(0 := fkChild)),
            [52 \<mapsto> 1])"
  proof (rule ResolveFK_run [where referencedIndex = "tbl_PrimaryIndex fkParent"])
    show "originColsLoop ?E (fkStore 0) (fkd_FromCols ?D) [] [] = Inr [intColumn ''a'' 1 True]"
      by (simp only: fkStore_simps references_simps example_originCols)
    show "resolveFKTarget ?E EmptyTable 0 ?D fkStore Map.empty = (Inr 1, fkStore, [52 \<mapsto> 1])"
      by (simp add: example_target)
    show "resolveReferencedCols ?E (fkStore 1) ?D [intColumn ''a'' 1 True]
            = Inr [intColumn ''a'' 1 False]"
      by (simp add: fkStore_simps example_referencedCols)
    show "resolveConstraintName ?E (fkStore 0) (fkStore 1) ?D = Inr ''fk_a_ref_parent''"
      by (simp add: fkStore_simps example_constraintName fkChild_simps)
    show "checkSetNullAndSetDefault ?D [intColumn ''a'' 1 True] = None"
      by (rule example_checkSetNull)
    show "ensureOriginIndex ?E EmptyTable (fkStore 0) [intColumn ''a'' 1 True]
            (map col_ID [intColumn ''a'' 1 True]) ''fk_a_ref_parent'' = (None, fkChild)"
      by (simp add: example_no_index_needed fkStore_simps)
    show "FindFKReferencedIndex ?E ((fkStore(0 := fkChild)) 1)
            (map col_ID [intColumn ''a'' 1 False]) = Inr (tbl_PrimaryIndex fkParent)"
      using example_referencedIndex [of newVersion]
      by (simp add: fkStore_simps intColumn_def)
  qed
  then show ?thesis
    by (simp add: fkStore_simps fkChild_simps addForeignKey_def constraintValidity_def Let_def
        fkParent_simps foreignKeyConstraint_def childParentFK_def exampleResolveEnv_simps
        references_simps intColumn_def)
qed

lemma ensureOriginIndex_NewTable:
  assumes "ensureOriginIndex env NewTable tbl originCols originColumnIDs constraintName
             = (None, tbl1)"
  shows "if (\<exists>settings. Settings env = Some settings \<and> \<not> NoOriginFKIndexesActive settings)
            \<and> (\<exists>err. FindFKOriginIndexInTxn env tbl originColumnIDs = Inl err)
         then \<exists>tbl2.
                AddIndex env tbl
                  (emptyIndex\<lparr> idx_Name := GenerateUniqueConstraintName env
                                   (tbl_Name tbl @ ''_auto_index_'' @ constraintName)
                                   (\<lambda>name. ValidateIndexNameIsUnique env tbl name \<noteq> None),
                               idx_ColumnNames := map col_Name originCols,
                               idx_ColumnDirections := map (\<lambda>c. ASC) originCols \<rparr>) False
                  = (None, tbl2)
                \<and> AllocateIDs env tbl2 = (None, tbl1)
                \<and> tbl_Indexes tbl1 \<noteq> []
         else tbl1 = tbl"
  using assms
  by (auto simp add: ensureOriginIndex_def addIndexForFK_def Let_def
      split: option.splits sum.splits prod.splits if_splits)

text \<open>
  C1 (as the code has it). When \<^verbatim>\<open>ResolveFK\<close> with the table state \<^verbatim>\<open>NewTable\<close> returns
  nil, it has appended one constraint to the outbound foreign keys of the table and the
  same constraint to the inbound foreign keys of the target, and has changed no other
  table. The target is the table itself when the resolver gives a table with the ID of the
  table, else the table that \<^verbatim>\<open>backrefs\<close> has for the ID of the resolved table, else the
  resolved table, which is then entered in \<^verbatim>\<open>backrefs\<close>. The constraint names the table and
  the target by their IDs, has the IDs of the origin and of the referenced columns and the
  resolved name, and has the validity \<^verbatim>\<open>Validated\<close>, whatever validation behavior was asked
  for. An index on the origin columns, named by \<^verbatim>\<open>GenerateUniqueConstraintName\<close> from
  \<open>table_auto_index_constraint\<close>, has been added by \<^verbatim>\<open>AddIndex\<close> and \<^verbatim>\<open>AllocateIDs\<close>
  exactly when the cluster settings are present, the version \<^verbatim>\<open>NoOriginFKIndexes\<close> is not
  active and no index of the table serves the origin columns; otherwise the table has been
  left without a new index.
\<close>

theorem ResolveFK_new_table_validated:
  assumes "ResolveFK env heap backrefs tbl d NewTable validationBehavior
             = (None, heap', backrefs')"
  shows "\<exists>resolved target tbl0 targetDesc originCols referencedCols constraintName tbl1 ref.
           ResolveMutableExistingTableObject env (fkd_Table d) = Inr resolved
           \<and> target = (if tbl_ID (heap resolved) = tbl_ID (heap tbl) then tbl
                       else case backrefs (tbl_ID (heap resolved)) of
                              Some prev \<Rightarrow> prev | None \<Rightarrow> resolved)
           \<and> backrefs' = (if tbl_ID (heap resolved) = tbl_ID (heap tbl) then backrefs
                       else case backrefs (tbl_ID (heap resolved)) of
                              Some prev \<Rightarrow> backrefs
                            | None \<Rightarrow> backrefs(tbl_ID (heap resolved) \<mapsto> resolved))
           \<and> tbl0 = (if tbl_ID (heap resolved) \<noteq> tbl_ID (heap tbl)
                     then (heap tbl)\<lparr>tbl_State := ADD\<rparr> else heap tbl)
           \<and> targetDesc = (if target = tbl then tbl0 else heap target)
           \<and> originColsLoop env (heap tbl) (fkd_FromCols d) [] [] = Inr originCols
           \<and> resolveReferencedCols env targetDesc d originCols = Inr referencedCols
           \<and> resolveConstraintName env tbl0 targetDesc d = Inr constraintName
           \<and> (if (\<exists>settings. Settings env = Some settings
                               \<and> \<not> NoOriginFKIndexesActive settings)
                  \<and> (\<exists>err. FindFKOriginIndexInTxn env tbl0 (map col_ID originCols) = Inl err)
               then \<exists>tbl2.
                      AddIndex env tbl0
                        (emptyIndex\<lparr> idx_Name := GenerateUniqueConstraintName env
                                         (tbl_Name tbl0 @ ''_auto_index_'' @ constraintName)
                                         (\<lambda>name. ValidateIndexNameIsUnique env tbl0 name \<noteq> None),
                                     idx_ColumnNames := map col_Name originCols,
                                     idx_ColumnDirections := map (\<lambda>c. ASC) originCols \<rparr>) False
                        = (None, tbl2)
                      \<and> AllocateIDs env tbl2 = (None, tbl1)
                      \<and> tbl_Indexes tbl1 \<noteq> []
               else tbl1 = tbl0)
           \<and> ref = \<lparr> fk_OriginTableID = tbl_ID tbl1,
                     fk_OriginColumnIDs = map col_ID originCols,
                     fk_ReferencedColumnIDs = map col_ID referencedCols,
                     fk_ReferencedTableID = tbl_ID (if target = tbl then tbl1 else heap target),
                     fk_Name = constraintName,
                     fk_Validity = Validated,
                     fk_OnDelete = ForeignKeyReferenceActionValue env (fkd_Actions_Delete d),
                     fk_OnUpdate = ForeignKeyReferenceActionValue env (fkd_Actions_Update d),
                     fk_Match = CompositeKeyMatchMethodValue env (fkd_Match d) \<rparr>
           \<and> heap' =
               (if target = tbl then
                  heap(tbl := tbl1\<lparr>tbl_OutboundFKs := tbl_OutboundFKs tbl1 @ [ref],
                                   tbl_InboundFKs := tbl_InboundFKs tbl1 @ [ref]\<rparr>)
                else
                  heap(tbl := tbl1\<lparr>tbl_OutboundFKs := tbl_OutboundFKs tbl1 @ [ref]\<rparr>,
                       target := (heap target)
                         \<lparr>tbl_InboundFKs := tbl_InboundFKs (heap target) @ [ref]\<rparr>))"
proof -
  from ResolveFK_nil_result [OF assms]
  obtain resolved target tbl0 targetDesc originCols referencedCols constraintName tbl1 ref where
    r: "ResolveMutableExistingTableObject env (fkd_Table d) = Inr resolved"
    and t: "target = (if tbl_ID (heap resolved) = tbl_ID (heap tbl) then tbl
                       else case backrefs (tbl_ID (heap resolved)) of
                              Some prev \<Rightarrow> prev | None \<Rightarrow> resolved)"
    and b: "backrefs' = (if tbl_ID (heap resolved) = tbl_ID (heap tbl) then backrefs
                       else case backrefs (tbl_ID (heap resolved)) of
                              Some prev \<Rightarrow> backrefs
                            | None \<Rightarrow> backrefs(tbl_ID (heap resolved) \<mapsto> resolved))"
    and t0: "tbl0 = (if tbl_ID (heap resolved) \<noteq> tbl_ID (heap tbl) \<and> NewTable = NewTable
                     then (heap tbl)\<lparr>tbl_State := ADD\<rparr> else heap tbl)"
    and td: "targetDesc = (if target = tbl then tbl0 else heap target)"
    and oc: "originColsLoop env (heap tbl) (fkd_FromCols d) [] [] = Inr originCols"
    and rc: "resolveReferencedCols env targetDesc d originCols = Inr referencedCols"
    and cn: "resolveConstraintName env tbl0 targetDesc d = Inr constraintName"
    and oi: "ensureOriginIndex env NewTable tbl0 originCols (map col_ID originCols)
               constraintName = (None, tbl1)"
    and rf: "ref = \<lparr> fk_OriginTableID = tbl_ID tbl1,
                     fk_OriginColumnIDs = map col_ID originCols,
                     fk_ReferencedColumnIDs = map col_ID referencedCols,
                     fk_ReferencedTableID = tbl_ID (if target = tbl then tbl1 else heap target),
                     fk_Name = constraintName,
                     fk_Validity = constraintValidity NewTable validationBehavior,
                     fk_OnDelete = ForeignKeyReferenceActionValue env (fkd_Actions_Delete d),
                     fk_OnUpdate = ForeignKeyReferenceActionValue env (fkd_Actions_Update d),
                     fk_Match = CompositeKeyMatchMethodValue env (fkd_Match d) \<rparr>"
    and h: "heap' =
               (if NewTable = NewTable then
                  (if target = tbl then
                     heap(tbl := tbl1\<lparr>tbl_OutboundFKs := tbl_OutboundFKs tbl1 @ [ref],
                                      tbl_InboundFKs := tbl_InboundFKs tbl1 @ [ref]\<rparr>)
                   else
                     heap(tbl := tbl1\<lparr>tbl_OutboundFKs := tbl_OutboundFKs tbl1 @ [ref]\<rparr>,
                          target := (heap target)
                            \<lparr>tbl_InboundFKs := tbl_InboundFKs (heap target) @ [ref]\<rparr>))
                else heap(tbl := AddForeignKeyMutation env tbl1 ref Mutation_ADD))"
    by blast
  note ix = ensureOriginIndex_NewTable [OF oi]
  have t0': "tbl0 = (if tbl_ID (heap resolved) \<noteq> tbl_ID (heap tbl)
                     then (heap tbl)\<lparr>tbl_State := ADD\<rparr> else heap tbl)"
    using t0 by simp
  have rf': "ref = \<lparr> fk_OriginTableID = tbl_ID tbl1,
                     fk_OriginColumnIDs = map col_ID originCols,
                     fk_ReferencedColumnIDs = map col_ID referencedCols,
                     fk_ReferencedTableID = tbl_ID (if target = tbl then tbl1 else heap target),
                     fk_Name = constraintName,
                     fk_Validity = Validated,
                     fk_OnDelete = ForeignKeyReferenceActionValue env (fkd_Actions_Delete d),
                     fk_OnUpdate = ForeignKeyReferenceActionValue env (fkd_Actions_Update d),
                     fk_Match = CompositeKeyMatchMethodValue env (fkd_Match d) \<rparr>"
    using rf by (simp add: constraintValidity_def)
  have h': "heap' =
               (if target = tbl then
                  heap(tbl := tbl1\<lparr>tbl_OutboundFKs := tbl_OutboundFKs tbl1 @ [ref],
                                   tbl_InboundFKs := tbl_InboundFKs tbl1 @ [ref]\<rparr>)
                else
                  heap(tbl := tbl1\<lparr>tbl_OutboundFKs := tbl_OutboundFKs tbl1 @ [ref]\<rparr>,
                       target := (heap target)
                         \<lparr>tbl_InboundFKs := tbl_InboundFKs (heap target) @ [ref]\<rparr>))"
    using h by simp
  from r t b t0' td oc rc cn ix rf' h' show ?thesis by blast
qed

lemma resolveFKTarget_self:
  assumes "ResolveMutableExistingTableObject env (fkd_Table d) = Inr resolved"
    and "tbl_ID (heap resolved) = tbl_ID (heap tbl)"
    and "resolveFKTarget env ts tbl d heap backrefs = (x, heap1, backrefs1)"
  shows "heap1 = heap \<and> backrefs1 = backrefs \<and> (\<forall>target. x = Inr target \<longrightarrow> target = tbl)"
  using assms
  by (auto simp add: resolveFKTarget_def split: if_splits option.splits)

text \<open>
  However \<^verbatim>\<open>ResolveFK\<close> returns, it has written to the store at \<^verbatim>\<open>tbl\<close> and at the target
  only, and \<^verbatim>\<open>backrefs\<close> is as the resolution of the target has left it.
\<close>

lemma ResolveFK_frame:
  assumes "ResolveFK env heap backrefs tbl d ts validationBehavior = (err, heap', backrefs')"
    and "resolveFKTarget env ts tbl d heap backrefs = (x, heap1, backrefs1)"
  shows "(heap' = heap \<and> backrefs' = backrefs)
         \<or> (backrefs' = backrefs1
             \<and> (\<forall>a. a \<noteq> tbl \<and> (\<forall>target. x = Inr target \<longrightarrow> a \<noteq> target)
                    \<longrightarrow> heap' a = heap1 a))"
  using assms
  by (auto simp add: ResolveFK_def Let_def addForeignKey_def
      split: sum.splits prod.splits option.splits if_splits)

text \<open>
  C6. When the table that the foreign key names resolves to a descriptor with the ID of the
  origin table, \<^verbatim>\<open>ResolveFK\<close> takes the origin object itself as the target: however it
  returns, \<^verbatim>\<open>backrefs\<close> is unchanged and no object other than the origin is written, the
  resolved copy included. When it returns nil for a new table, the one object of the origin
  carries the new constraint both as its last outbound and as its last inbound foreign key,
  and the constraint has the ID of that table as its origin and as its referenced table.
\<close>

theorem ResolveFK_self_reference:
  assumes "ResolveMutableExistingTableObject env (fkd_Table d) = Inr resolved"
    and "tbl_ID (heap resolved) = tbl_ID (heap tbl)"
    and "ResolveFK env heap backrefs tbl d ts validationBehavior = (err, heap', backrefs')"
  shows "backrefs' = backrefs
         \<and> (\<forall>a. a \<noteq> tbl \<longrightarrow> heap' a = heap a)
         \<and> (err = None \<and> ts = NewTable \<longrightarrow>
               (\<exists>ref tbl1.
                  heap' tbl = tbl1\<lparr>tbl_OutboundFKs := tbl_OutboundFKs tbl1 @ [ref],
                                  tbl_InboundFKs := tbl_InboundFKs tbl1 @ [ref]\<rparr>
                  \<and> fk_OriginTableID ref = tbl_ID tbl1
                  \<and> fk_ReferencedTableID ref = tbl_ID tbl1
                  \<and> (keepsForeignKeys env \<longrightarrow>
                        tbl_OutboundFKs tbl1 = tbl_OutboundFKs (heap tbl)
                        \<and> tbl_InboundFKs tbl1 = tbl_InboundFKs (heap tbl))))"
proof -
  obtain x heap1 backrefs1 where
    tg: "resolveFKTarget env ts tbl d heap backrefs = (x, heap1, backrefs1)"
    by (cases "resolveFKTarget env ts tbl d heap backrefs") auto
  from resolveFKTarget_self [OF assms(1,2) tg]
  have s: "heap1 = heap" "backrefs1 = backrefs" "\<And>target. x = Inr target \<Longrightarrow> target = tbl"
    by auto
  from ResolveFK_frame [OF assms(3) tg] s
  have fr: "backrefs' = backrefs" "\<forall>a. a \<noteq> tbl \<longrightarrow> heap' a = heap a"
    by auto
  have app: "err = None \<and> ts = NewTable \<longrightarrow>
               (\<exists>ref tbl1.
                  heap' tbl = tbl1\<lparr>tbl_OutboundFKs := tbl_OutboundFKs tbl1 @ [ref],
                                  tbl_InboundFKs := tbl_InboundFKs tbl1 @ [ref]\<rparr>
                  \<and> fk_OriginTableID ref = tbl_ID tbl1
                  \<and> fk_ReferencedTableID ref = tbl_ID tbl1
                  \<and> (keepsForeignKeys env \<longrightarrow>
                        tbl_OutboundFKs tbl1 = tbl_OutboundFKs (heap tbl)
                        \<and> tbl_InboundFKs tbl1 = tbl_InboundFKs (heap tbl)))"
  proof (intro impI, elim conjE)
    assume e: "err = None" and n: "ts = NewTable"
    from assms(3) e obtain originCols target h1 referencedCols constraintName tbl1 where
      oc: "originColsLoop env (heap tbl) (fkd_FromCols d) [] [] = Inr originCols"
      and tg': "resolveFKTarget env ts tbl d heap backrefs = (Inr target, h1, backrefs')"
      and rc: "resolveReferencedCols env (h1 target) d originCols = Inr referencedCols"
      and cn: "resolveConstraintName env (h1 tbl) (h1 target) d = Inr constraintName"
      and ck: "checkSetNullAndSetDefault d originCols = None"
      and oi: "ensureOriginIndex env ts (h1 tbl) originCols (map col_ID originCols)
                 constraintName = (None, tbl1)"
      and h: "heap' = addForeignKey env ts tbl target
           (foreignKeyConstraint env ((h1(tbl := tbl1)) tbl) ((h1(tbl := tbl1)) target) d
              (map col_ID originCols) (map col_ID referencedCols) constraintName
              (constraintValidity ts validationBehavior))
           (h1(tbl := tbl1))"
      by (auto elim: ResolveFK_success)
    from tg tg' s have t: "target = tbl" and h1: "h1 = heap" by auto
    let ?ref = "foreignKeyConstraint env tbl1 tbl1 d
              (map col_ID originCols) (map col_ID referencedCols) constraintName
              (constraintValidity ts validationBehavior)"
    have "heap' tbl = tbl1\<lparr>tbl_OutboundFKs := tbl_OutboundFKs tbl1 @ [?ref],
                                  tbl_InboundFKs := tbl_InboundFKs tbl1 @ [?ref]\<rparr>"
      unfolding h t using n by (simp add: addForeignKey_def Let_def)
    moreover have "fk_OriginTableID ?ref = tbl_ID tbl1" "fk_ReferencedTableID ?ref = tbl_ID tbl1"
      by (simp_all add: foreignKeyConstraint_def)
    moreover have "keepsForeignKeys env \<longrightarrow>
                        tbl_OutboundFKs tbl1 = tbl_OutboundFKs (heap tbl)
                        \<and> tbl_InboundFKs tbl1 = tbl_InboundFKs (heap tbl)"
      using ensureOriginIndex_FKs [OF _ oi] h1 by auto
    ultimately show "\<exists>ref tbl1.
                  heap' tbl = tbl1\<lparr>tbl_OutboundFKs := tbl_OutboundFKs tbl1 @ [ref],
                                  tbl_InboundFKs := tbl_InboundFKs tbl1 @ [ref]\<rparr>
                  \<and> fk_OriginTableID ref = tbl_ID tbl1
                  \<and> fk_ReferencedTableID ref = tbl_ID tbl1
                  \<and> (keepsForeignKeys env \<longrightarrow>
                        tbl_OutboundFKs tbl1 = tbl_OutboundFKs (heap tbl)
                        \<and> tbl_InboundFKs tbl1 = tbl_InboundFKs (heap tbl))"
      by blast
  qed
  from fr app show ?thesis by blast
qed

lemma checkSetNullAndSetDefault_rejects:
  assumes "((fkd_Actions_Delete d = SetNull \<or> fkd_Actions_Update d = SetNull)
              \<and> (\<exists>c \<in> set originCols. \<not> col_Nullable c))
           \<or> ((fkd_Actions_Delete d = SetDefault \<or> fkd_Actions_Update d = SetDefault)
              \<and> (\<exists>c \<in> set originCols. col_DefaultExpr c = None \<and> \<not> col_Nullable c))"
  shows "\<exists>msg. checkSetNullAndSetDefault d originCols = Some (PgError InvalidForeignKey msg)"
  using assms by (auto simp add: checkSetNullAndSetDefault_def list_ex_iff)

lemma ResolveFK_rejected_by_check:
  assumes "originColsLoop env (heap tbl) (fkd_FromCols d) [] [] = Inr originCols"
    and "checkSetNullAndSetDefault d originCols = Some e"
    and "ResolveFK env heap backrefs tbl d ts validationBehavior = (err, heap', backrefs')"
  shows "err \<noteq> None"
    and "\<exists>x. resolveFKTarget env ts tbl d heap backrefs = (x, heap', backrefs')"
    and "resolveFKTarget env ts tbl d heap backrefs = (Inr target, heap1, backrefs1)
         \<Longrightarrow> resolveReferencedCols env (heap1 target) d originCols = Inr referencedCols
         \<Longrightarrow> resolveConstraintName env (heap1 tbl) (heap1 target) d = Inr constraintName
         \<Longrightarrow> err = Some e"
  using assms(1,3)
  by (auto simp add: ResolveFK_def Let_def assms(2) split: sum.splits prod.splits)

text \<open>
  C7 (as the code has it). Let the origin columns of the definition resolve, and let the
  delete or the update action be SET NULL with some origin column NOT NULL, or SET DEFAULT
  with some origin column NOT NULL and without a default expression. Then \<^verbatim>\<open>ResolveFK\<close>
  returns an error, no object other than the origin table is written, and of the origin
  table nothing but the state may have changed (a new table with a reference to another
  table has been put in the state ADD by then), so no constraint has been appended. The
  error has the code \<^verbatim>\<open>InvalidForeignKey\<close> when the checks that come before the one on the
  actions pass: the resolution of the target, of the referenced columns with their types,
  and of the constraint name.
\<close>

theorem ResolveFK_rejects_set_null_on_not_null:
  assumes "originColsLoop env (heap tbl) (fkd_FromCols d) [] [] = Inr originCols"
    and "((fkd_Actions_Delete d = SetNull \<or> fkd_Actions_Update d = SetNull)
              \<and> (\<exists>c \<in> set originCols. \<not> col_Nullable c))
           \<or> ((fkd_Actions_Delete d = SetDefault \<or> fkd_Actions_Update d = SetDefault)
              \<and> (\<exists>c \<in> set originCols. col_DefaultExpr c = None \<and> \<not> col_Nullable c))"
    and "ResolveFK env heap backrefs tbl d ts validationBehavior = (err, heap', backrefs')"
  shows "err \<noteq> None
         \<and> (\<forall>a. a \<noteq> tbl \<longrightarrow> heap' a = heap a)
         \<and> heap' tbl = (heap tbl)\<lparr>tbl_State := tbl_State (heap' tbl)\<rparr>
         \<and> (resolveFKTarget env ts tbl d heap backrefs = (Inr target, heap1, backrefs1)
              \<and> resolveReferencedCols env (heap1 target) d originCols = Inr referencedCols
              \<and> resolveConstraintName env (heap1 tbl) (heap1 target) d = Inr constraintName
            \<longrightarrow> (\<exists>msg. err = Some (PgError InvalidForeignKey msg)))"
proof -
  from checkSetNullAndSetDefault_rejects [OF assms(2)] obtain msg where
    ck: "checkSetNullAndSetDefault d originCols = Some (PgError InvalidForeignKey msg)"
    by blast
  note r = ResolveFK_rejected_by_check [OF assms(1) ck assms(3)]
  from r(2) obtain x where tg: "resolveFKTarget env ts tbl d heap backrefs = (x, heap', backrefs')"
    by blast
  from resolveFKTarget_store [OF tg]
  have st: "(\<forall>a. a \<noteq> tbl \<longrightarrow> heap' a = heap a)
            \<and> heap' tbl = (heap tbl)\<lparr>tbl_State := tbl_State (heap' tbl)\<rparr>"
    by auto
  have c: "resolveFKTarget env ts tbl d heap backrefs = (Inr target, heap1, backrefs1)
              \<and> resolveReferencedCols env (heap1 target) d originCols = Inr referencedCols
              \<and> resolveConstraintName env (heap1 tbl) (heap1 target) d = Inr constraintName
            \<longrightarrow> (\<exists>msg. err = Some (PgError InvalidForeignKey msg))"
    using r(3) [of target heap1 backrefs1 referencedCols constraintName] by blast
  from r(1) st c show ?thesis by blast
qed

text \<open>
  The run of \<^verbatim>\<open>ResolveFK\<close> for \<^verbatim>\<open>FOREIGN KEY (s) REFERENCES parent (a) ON DELETE SET NULL\<close>,
  where \<open>s\<close> is a STRING column declared NOT NULL and \<open>parent.a\<close> is an INT column.
\<close>

lemma example_ResolveFK_type_mismatch:
  "ResolveFK (exampleResolveEnv fkTables newVersion) fkStore Map.empty 0
       (references [''s''] ''parent'' [''a''] SetNull) NewTable ValidationDefault
     = (Some (PgError DatatypeMismatch
               ''type of %q (%s) does not match foreign key %q.%q (%s)''),
        fkStore(0 := fkChild\<lparr>tbl_State := ADD\<rparr>),
        [52 \<mapsto> 1])"
proof -
  let ?E = "exampleResolveEnv fkTables newVersion"
  let ?D = "references [''s''] ''parent'' [''a''] SetNull"
  let ?s = "(intColumn ''s'' 2 False)\<lparr>col_Type := types_String\<rparr>"
  have oc: "originColsLoop ?E (fkStore 0) (fkd_FromCols ?D) [] [] = Inr [?s]"
    by (simp add: fkStore_simps references_simps exampleResolveEnv_simps lookupColumnByName_def
        fkChild_simps intColumn_def)
  have tg: "resolveFKTarget ?E NewTable 0 ?D fkStore Map.empty
              = (Inr 1, fkStore(0 := fkChild\<lparr>tbl_State := ADD\<rparr>), [52 \<mapsto> 1])"
    by (simp add: example_target)
  have rc: "resolveReferencedCols ?E ((fkStore(0 := fkChild\<lparr>tbl_State := ADD\<rparr>)) 1) ?D [?s]
              = Inl (PgError DatatypeMismatch
                      ''type of %q (%s) does not match foreign key %q.%q (%s)'')"
    by (simp add: resolveReferencedCols_def exampleResolveEnv_simps references_simps
        lookupColumnByName_def fkParent_simps fkStore_simps intColumn_def)
  show ?thesis
    unfolding ResolveFK_def by (simp only: oc tg rc sum.case prod.case)
qed

text \<open>
  The claim as stated fails at \<^verbatim>\<open>CREATE TABLE child (a INT REFERENCES parent (a))\<close> with the
  version \<^verbatim>\<open>NoOriginFKIndexes\<close> active: with and without skipped validation the one
  outbound and the one inbound foreign key have the validity \<^verbatim>\<open>Validated\<close>, neither
  \<^verbatim>\<open>Validating\<close> nor \<^verbatim>\<open>Unvalidated\<close>, and although no index of \<open>child\<close> serves the column
  \<open>a\<close>, none is made.
\<close>

theorem ResolveFK_new_table_validated_counterexample:
  "ResolveFK (exampleResolveEnv fkTables newVersion) fkStore Map.empty 0
       (references [''a''] ''parent'' [''a''] NoAction) NewTable ValidationDefault
     = (None,
        fkStore(0 := fkChild\<lparr>tbl_State := ADD, tbl_OutboundFKs := [childParentFK Validated]\<rparr>,
                1 := fkParent\<lparr>tbl_InboundFKs := [childParentFK Validated]\<rparr>),
        [52 \<mapsto> 1])
   \<and> ResolveFK (exampleResolveEnv fkTables newVersion) fkStore Map.empty 0
       (references [''a''] ''parent'' [''a''] NoAction) NewTable ValidationSkip
     = (None,
        fkStore(0 := fkChild\<lparr>tbl_State := ADD, tbl_OutboundFKs := [childParentFK Validated]\<rparr>,
                1 := fkParent\<lparr>tbl_InboundFKs := [childParentFK Validated]\<rparr>),
        [52 \<mapsto> 1])
   \<and> fk_Validity (childParentFK Validated) \<noteq> Validating
   \<and> fk_Validity (childParentFK Validated) \<noteq> Unvalidated
   \<and> FindFKOriginIndexInTxn (exampleResolveEnv fkTables newVersion) fkChild [1]
       = Inl (Collaborator ''could not find suitable index'')
   \<and> tbl_Indexes (fkChild\<lparr>tbl_State := ADD, tbl_OutboundFKs := [childParentFK Validated]\<rparr>)
       = []"
  by (simp add: example_ResolveFK_new_version childParentFK_def exampleResolveEnv_simps
      fkChild_simps emptyIndex_def)

text \<open>
  The theorem at the same statement with the version \<^verbatim>\<open>NoOriginFKIndexes\<close> not yet
  active: the constraint is \<^verbatim>\<open>Validated\<close>, it is the one inbound foreign key of \<open>parent\<close>,
  and \<open>child\<close> has got the index \<open>child_auto_index_fk_a_ref_parent\<close> on \<open>a\<close>.
\<close>

theorem ResolveFK_new_table_validated_witness:
  "ResolveFK (exampleResolveEnv fkTables oldVersion) fkStore Map.empty 0
       (references [''a''] ''parent'' [''a''] NoAction) NewTable ValidationSkip
     = (None,
        fkStore(0 := fkChild\<lparr>tbl_State := ADD,
                      tbl_Indexes := [childAutoIndex\<lparr>idx_ID := 2, idx_ColumnIDs := [1]\<rparr>],
                      tbl_OutboundFKs := [childParentFK Validated]\<rparr>,
                1 := fkParent\<lparr>tbl_InboundFKs := [childParentFK Validated]\<rparr>),
        [52 \<mapsto> 1])
   \<and> (\<exists>tbl1 tbl2 ref.
         AddIndex (exampleResolveEnv fkTables oldVersion) (fkChild\<lparr>tbl_State := ADD\<rparr>)
           childAutoIndex False = (None, tbl2)
         \<and> AllocateIDs (exampleResolveEnv fkTables oldVersion) tbl2 = (None, tbl1)
         \<and> tbl_Indexes tbl1 \<noteq> []
         \<and> fk_Validity ref = Validated
         \<and> fk_OriginTableID ref = tbl_ID tbl1
         \<and> fk_ReferencedTableID ref = 52
         \<and> fk_Name ref = ''fk_a_ref_parent''
         \<and> fkStore(0 := fkChild\<lparr>tbl_State := ADD,
                      tbl_Indexes := [childAutoIndex\<lparr>idx_ID := 2, idx_ColumnIDs := [1]\<rparr>],
                      tbl_OutboundFKs := [childParentFK Validated]\<rparr>,
                1 := fkParent\<lparr>tbl_InboundFKs := [childParentFK Validated]\<rparr>)
             = fkStore(0 := tbl1\<lparr>tbl_OutboundFKs := tbl_OutboundFKs tbl1 @ [ref]\<rparr>,
                       1 := fkParent\<lparr>tbl_InboundFKs := [ref]\<rparr>))"
proof -
  let ?E = "exampleResolveEnv fkTables oldVersion"
  let ?D = "references [''a''] ''parent'' [''a''] NoAction"
  let ?H = "fkStore(0 := fkChild\<lparr>tbl_State := ADD,
                      tbl_Indexes := [childAutoIndex\<lparr>idx_ID := 2, idx_ColumnIDs := [1]\<rparr>],
                      tbl_OutboundFKs := [childParentFK Validated]\<rparr>,
                1 := fkParent\<lparr>tbl_InboundFKs := [childParentFK Validated]\<rparr>)"
  note run = example_ResolveFK_old_version [of ValidationSkip]
  from ResolveFK_new_table_validated [OF run]
  obtain resolved target tbl0 targetDesc originCols referencedCols constraintName tbl1 ref where
    r: "ResolveMutableExistingTableObject ?E (fkd_Table ?D) = Inr resolved"
    and t: "target = (if tbl_ID (fkStore resolved) = tbl_ID (fkStore 0) then 0
                       else case Map.empty (tbl_ID (fkStore resolved)) of
                              Some prev \<Rightarrow> prev | None \<Rightarrow> resolved)"
    and b: "[52 \<mapsto> 1] = (if tbl_ID (fkStore resolved) = tbl_ID (fkStore 0) then Map.empty
                       else case (Map.empty :: backrefs) (tbl_ID (fkStore resolved)) of
                              Some prev \<Rightarrow> Map.empty
                            | None \<Rightarrow> Map.empty(tbl_ID (fkStore resolved) \<mapsto> resolved))"
    and t0: "tbl0 = (if tbl_ID (fkStore resolved) \<noteq> tbl_ID (fkStore 0)
                     then (fkStore 0)\<lparr>tbl_State := ADD\<rparr> else fkStore 0)"
    and td: "targetDesc = (if target = 0 then tbl0 else fkStore target)"
    and oc: "originColsLoop ?E (fkStore 0) (fkd_FromCols ?D) [] [] = Inr originCols"
    and rc: "resolveReferencedCols ?E targetDesc ?D originCols = Inr referencedCols"
    and cn: "resolveConstraintName ?E tbl0 targetDesc ?D = Inr constraintName"
    and ix: "if (\<exists>settings. Settings ?E = Some settings
                               \<and> \<not> NoOriginFKIndexesActive settings)
                  \<and> (\<exists>err. FindFKOriginIndexInTxn ?E tbl0 (map col_ID originCols) = Inl err)
               then \<exists>tbl2.
                      AddIndex ?E tbl0
                        (emptyIndex\<lparr> idx_Name := GenerateUniqueConstraintName ?E
                                         (tbl_Name tbl0 @ ''_auto_index_'' @ constraintName)
                                         (\<lambda>name. ValidateIndexNameIsUnique ?E tbl0 name \<noteq> None),
                                     idx_ColumnNames := map col_Name originCols,
                                     idx_ColumnDirections := map (\<lambda>c. ASC) originCols \<rparr>) False
                        = (None, tbl2)
                      \<and> AllocateIDs ?E tbl2 = (None, tbl1)
                      \<and> tbl_Indexes tbl1 \<noteq> []
               else tbl1 = tbl0"
    and rf: "ref = \<lparr> fk_OriginTableID = tbl_ID tbl1,
                     fk_OriginColumnIDs = map col_ID originCols,
                     fk_ReferencedColumnIDs = map col_ID referencedCols,
                     fk_ReferencedTableID = tbl_ID (if target = 0 then tbl1 else fkStore target),
                     fk_Name = constraintName,
                     fk_Validity = Validated,
                     fk_OnDelete = ForeignKeyReferenceActionValue ?E (fkd_Actions_Delete ?D),
                     fk_OnUpdate = ForeignKeyReferenceActionValue ?E (fkd_Actions_Update ?D),
                     fk_Match = CompositeKeyMatchMethodValue ?E (fkd_Match ?D) \<rparr>"
    and h: "?H =
               (if target = 0 then
                  fkStore(0 := tbl1\<lparr>tbl_OutboundFKs := tbl_OutboundFKs tbl1 @ [ref],
                                   tbl_InboundFKs := tbl_InboundFKs tbl1 @ [ref]\<rparr>)
                else
                  fkStore(0 := tbl1\<lparr>tbl_OutboundFKs := tbl_OutboundFKs tbl1 @ [ref]\<rparr>,
                       target := (fkStore target)
                         \<lparr>tbl_InboundFKs := tbl_InboundFKs (fkStore target) @ [ref]\<rparr>))"
    by (elim exE conjE) (rule that)
  from r have res: "resolved = 1"
    by (simp add: exampleResolveEnv_simps references_simps fkTables_simps)
  from t res have tgt: "target = 1"
    by (simp add: fkStore_simps fkChild_simps fkParent_simps)
  from t0 res have tb0: "tbl0 = fkChild\<lparr>tbl_State := ADD\<rparr>"
    by (simp add: fkStore_simps fkChild_simps fkParent_simps)
  from td tgt have tds: "targetDesc = fkParent"
    by (simp add: fkStore_simps)
  from oc have ocs: "originCols = [intColumn ''a'' 1 True]"
    by (simp only: fkStore_simps references_simps example_originCols sum.inject)
  from cn have cns: "constraintName = ''fk_a_ref_parent''"
    unfolding tb0 tds by (simp add: example_constraintName fkChild_simps)
  have nm: "GenerateUniqueConstraintName ?E
              (tbl_Name (fkChild\<lparr>tbl_State := ADD\<rparr>) @ ''_auto_index_'' @ ''fk_a_ref_parent'')
              (\<lambda>name. ValidateIndexNameIsUnique ?E (fkChild\<lparr>tbl_State := ADD\<rparr>) name \<noteq> None)
            = ''child_auto_index_fk_a_ref_parent''"
    by (simp add: exampleResolveEnv_simps fkChild_simps emptyIndex_def)
  have cond: "(\<exists>settings. Settings ?E = Some settings \<and> \<not> NoOriginFKIndexesActive settings)
                  \<and> (\<exists>err. FindFKOriginIndexInTxn ?E tbl0 (map col_ID originCols) = Inl err)"
    unfolding tb0 ocs
    by (simp add: exampleResolveEnv_simps oldVersion_def fkChild_simps emptyIndex_def
        intColumn_def)
  from ix [unfolded if_P [OF cond]] obtain tbl2 where
    ai: "AddIndex ?E tbl0
           (emptyIndex\<lparr> idx_Name := GenerateUniqueConstraintName ?E
                            (tbl_Name tbl0 @ ''_auto_index_'' @ constraintName)
                            (\<lambda>name. ValidateIndexNameIsUnique ?E tbl0 name \<noteq> None),
                        idx_ColumnNames := map col_Name originCols,
                        idx_ColumnDirections := map (\<lambda>c. ASC) originCols \<rparr>) False
           = (None, tbl2)"
    and al: "AllocateIDs ?E tbl2 = (None, tbl1)"
    and ne: "tbl_Indexes tbl1 \<noteq> []"
    by (elim exE conjE) (rule that)
  have ci: "emptyIndex\<lparr> idx_Name := ''child_auto_index_fk_a_ref_parent'',
                        idx_ColumnNames := map col_Name [intColumn ''a'' 1 True],
                        idx_ColumnDirections := map (\<lambda>c. ASC) [intColumn ''a'' 1 True] \<rparr>
              = childAutoIndex"
    by (simp add: childAutoIndex_def intColumn_def)
  from ai have ai': "AddIndex ?E (fkChild\<lparr>tbl_State := ADD\<rparr>) childAutoIndex False = (None, tbl2)"
    unfolding tb0 cns ocs nm ci .
  from rf tgt cns have fields: "fk_Validity ref = Validated" "fk_OriginTableID ref = tbl_ID tbl1"
      "fk_ReferencedTableID ref = 52" "fk_Name ref = ''fk_a_ref_parent''"
    by (simp_all add: fkStore_simps fkParent_simps)
  from h tgt have st: "?H = fkStore(0 := tbl1\<lparr>tbl_OutboundFKs := tbl_OutboundFKs tbl1 @ [ref]\<rparr>,
                       1 := fkParent\<lparr>tbl_InboundFKs := [ref]\<rparr>)"
    by (simp add: fkStore_simps fkParent_simps)
  from ai' al ne fields st
  have "\<exists>tbl1 tbl2 ref.
         AddIndex ?E (fkChild\<lparr>tbl_State := ADD\<rparr>) childAutoIndex False = (None, tbl2)
         \<and> AllocateIDs ?E tbl2 = (None, tbl1)
         \<and> tbl_Indexes tbl1 \<noteq> []
         \<and> fk_Validity ref = Validated
         \<and> fk_OriginTableID ref = tbl_ID tbl1
         \<and> fk_ReferencedTableID ref = 52
         \<and> fk_Name ref = ''fk_a_ref_parent''
         \<and> ?H = fkStore(0 := tbl1\<lparr>tbl_OutboundFKs := tbl_OutboundFKs tbl1 @ [ref]\<rparr>,
                       1 := fkParent\<lparr>tbl_InboundFKs := [ref]\<rparr>)"
    by blast
  with run show ?thesis by (rule conjI)
qed

text \<open>
  The theorem at \<^verbatim>\<open>FOREIGN KEY (a) REFERENCES parent (a)\<close> on the table \<open>child\<close>, once as a
  new table and once as an empty existing table: the target is \<open>parent\<close>, at address 1.
\<close>

theorem ResolveFK_appends_constraint_witness:
  "keepsForeignKeys (exampleResolveEnv fkTables newVersion)
   \<and> ResolveFK (exampleResolveEnv fkTables newVersion) fkStore Map.empty 0
          (references [''a''] ''parent'' [''a''] NoAction) NewTable ValidationDefault
       = (None,
          fkStore(0 := fkChild\<lparr>tbl_State := ADD, tbl_OutboundFKs := [childParentFK Validated]\<rparr>,
                  1 := fkParent\<lparr>tbl_InboundFKs := [childParentFK Validated]\<rparr>),
          [52 \<mapsto> 1])
   \<and> (\<exists>tbl1 ref.
        fk_OriginColumnIDs ref = [1] \<and> fk_ReferencedColumnIDs ref = [1]
        \<and> fk_ReferencedTableID ref = 52 \<and> fk_Name ref = ''fk_a_ref_parent''
        \<and> fkStore(0 := fkChild\<lparr>tbl_State := ADD,
                                  tbl_OutboundFKs := [childParentFK Validated]\<rparr>,
                   1 := fkParent\<lparr>tbl_InboundFKs := [childParentFK Validated]\<rparr>)
            = fkStore(0 := tbl1\<lparr>tbl_OutboundFKs := [ref]\<rparr>,
                      1 := fkParent\<lparr>tbl_InboundFKs := [ref]\<rparr>))
   \<and> ResolveFK (exampleResolveEnv fkTables newVersion) fkStore Map.empty 0
          (references [''a''] ''parent'' [''a''] NoAction) EmptyTable ValidationSkip
       = (None,
          fkStore(0 := fkChild\<lparr>tbl_Mutations :=
                    [\<lparr> mut_Descriptor = Mutation_Constraint (childParentFK Unvalidated),
                        mut_Direction = Mutation_ADD \<rparr>]\<rparr>),
          [52 \<mapsto> 1])
   \<and> (\<exists>tbl1 ref.
        fk_Validity ref = Unvalidated \<and> fk_ReferencedTableID ref = 52
        \<and> fkStore(0 := fkChild\<lparr>tbl_Mutations :=
                    [\<lparr> mut_Descriptor = Mutation_Constraint (childParentFK Unvalidated),
                        mut_Direction = Mutation_ADD \<rparr>]\<rparr>)
            = fkStore(0 := AddForeignKeyMutation (exampleResolveEnv fkTables newVersion)
                             tbl1 ref Mutation_ADD))"
proof -
  let ?E = "exampleResolveEnv fkTables newVersion"
  let ?D = "references [''a''] ''parent'' [''a''] NoAction"
  let ?H = "fkStore(0 := fkChild\<lparr>tbl_State := ADD,
                                  tbl_OutboundFKs := [childParentFK Validated]\<rparr>,
                   1 := fkParent\<lparr>tbl_InboundFKs := [childParentFK Validated]\<rparr>)"
  let ?M = "fkStore(0 := fkChild\<lparr>tbl_Mutations :=
                    [\<lparr> mut_Descriptor = Mutation_Constraint (childParentFK Unvalidated),
                        mut_Direction = Mutation_ADD \<rparr>]\<rparr>)"
  note k = exampleResolveEnv_keepsForeignKeys [of fkTables newVersion]
  note run1 = example_ResolveFK_new_version [of ValidationDefault]
  note run2 = example_ResolveFK_empty_table
  have res: "\<And>resolved. ResolveMutableExistingTableObject ?E (fkd_Table ?D) = Inr resolved
               \<Longrightarrow> resolved = 1"
    by (simp add: exampleResolveEnv_simps references_simps fkTables_simps)
  have a: "\<exists>tbl1 ref.
        fk_OriginColumnIDs ref = [1] \<and> fk_ReferencedColumnIDs ref = [1]
        \<and> fk_ReferencedTableID ref = 52 \<and> fk_Name ref = ''fk_a_ref_parent''
        \<and> ?H = fkStore(0 := tbl1\<lparr>tbl_OutboundFKs := [ref]\<rparr>,
                      1 := fkParent\<lparr>tbl_InboundFKs := [ref]\<rparr>)"
  proof -
    from ResolveFK_appends_constraint [OF run1 k]
    obtain resolved target tbl0 targetDesc originCols referencedCols constraintName tbl1 ref
      where r: "ResolveMutableExistingTableObject ?E (fkd_Table ?D) = Inr resolved"
      and t: "target = (if tbl_ID (fkStore resolved) = tbl_ID (fkStore 0) then 0
                       else case Map.empty (tbl_ID (fkStore resolved)) of
                              Some prev \<Rightarrow> prev | None \<Rightarrow> resolved)"
      and t0: "tbl0 = (if tbl_ID (fkStore resolved) \<noteq> tbl_ID (fkStore 0) \<and> NewTable = NewTable
                     then (fkStore 0)\<lparr>tbl_State := ADD\<rparr> else fkStore 0)"
      and td: "targetDesc = (if target = 0 then tbl0 else fkStore target)"
      and oc: "originColsLoop ?E (fkStore 0) (fkd_FromCols ?D) [] [] = Inr originCols"
      and rc: "resolveReferencedCols ?E targetDesc ?D originCols = Inr referencedCols"
      and cn: "resolveConstraintName ?E tbl0 targetDesc ?D = Inr constraintName"
      and oi: "ensureOriginIndex ?E NewTable tbl0 originCols (map col_ID originCols)
                 constraintName = (None, tbl1)"
      and o1: "tbl_OutboundFKs tbl1 = tbl_OutboundFKs (fkStore 0)"
      and i1: "tbl_InboundFKs tbl1 = tbl_InboundFKs (fkStore 0)"
      and rf: "ref = \<lparr> fk_OriginTableID = tbl_ID tbl1,
                     fk_OriginColumnIDs = map col_ID originCols,
                     fk_ReferencedColumnIDs = map col_ID referencedCols,
                     fk_ReferencedTableID = tbl_ID (if target = 0 then tbl1 else fkStore target),
                     fk_Name = constraintName,
                     fk_Validity =
                       (if NewTable = NewTable then Validated
                        else if ValidationDefault = ValidationSkip then Unvalidated
                        else Validating),
                     fk_OnDelete = ForeignKeyReferenceActionValue ?E (fkd_Actions_Delete ?D),
                     fk_OnUpdate = ForeignKeyReferenceActionValue ?E (fkd_Actions_Update ?D),
                     fk_Match = CompositeKeyMatchMethodValue ?E (fkd_Match ?D) \<rparr>"
      and h: "?H =
               (if NewTable = NewTable then
                  (if target = 0 then
                     fkStore(0 := tbl1\<lparr>tbl_OutboundFKs := tbl_OutboundFKs (fkStore 0) @ [ref],
                                      tbl_InboundFKs := tbl_InboundFKs (fkStore 0) @ [ref]\<rparr>)
                   else
                     fkStore(0 := tbl1\<lparr>tbl_OutboundFKs := tbl_OutboundFKs (fkStore 0) @ [ref]\<rparr>,
                          target := (fkStore target)
                            \<lparr>tbl_InboundFKs := tbl_InboundFKs (fkStore target) @ [ref]\<rparr>))
                else fkStore(0 := AddForeignKeyMutation ?E tbl1 ref Mutation_ADD))"
      by (elim exE conjE) (rule that)
    from t res [OF r] have tgt: "target = 1"
      by (simp add: fkStore_simps fkChild_simps fkParent_simps)
    from t0 res [OF r] have tb0: "tbl0 = fkChild\<lparr>tbl_State := ADD\<rparr>"
      by (simp add: fkStore_simps fkChild_simps fkParent_simps)
    from td tgt have tds: "targetDesc = fkParent"
      by (simp add: fkStore_simps)
    from oc have ocs: "originCols = [intColumn ''a'' 1 True]"
      by (simp only: fkStore_simps references_simps example_originCols sum.inject)
    from rc have rcs: "referencedCols = [intColumn ''a'' 1 False]"
      unfolding tds ocs by (simp only: example_referencedCols sum.inject)
    from cn have cns: "constraintName = ''fk_a_ref_parent''"
      unfolding tb0 tds by (simp add: example_constraintName fkChild_simps)
    from rf tgt cns ocs rcs have fields:
      "fk_OriginColumnIDs ref = [1]" "fk_ReferencedColumnIDs ref = [1]"
      "fk_ReferencedTableID ref = 52" "fk_Name ref = ''fk_a_ref_parent''"
      by (simp_all add: fkStore_simps fkParent_simps intColumn_def)
    from h tgt have st: "?H = fkStore(0 := tbl1\<lparr>tbl_OutboundFKs := [ref]\<rparr>,
                      1 := fkParent\<lparr>tbl_InboundFKs := [ref]\<rparr>)"
      by (simp add: fkStore_simps fkParent_simps fkChild_simps)
    from fields st show ?thesis by blast
  qed
  have b: "\<exists>tbl1 ref.
        fk_Validity ref = Unvalidated \<and> fk_ReferencedTableID ref = 52
        \<and> ?M = fkStore(0 := AddForeignKeyMutation ?E tbl1 ref Mutation_ADD)"
  proof -
    from ResolveFK_appends_constraint [OF run2 k]
    obtain resolved target tbl0 targetDesc originCols referencedCols constraintName tbl1 ref
      where r: "ResolveMutableExistingTableObject ?E (fkd_Table ?D) = Inr resolved"
      and t: "target = (if tbl_ID (fkStore resolved) = tbl_ID (fkStore 0) then 0
                       else case Map.empty (tbl_ID (fkStore resolved)) of
                              Some prev \<Rightarrow> prev | None \<Rightarrow> resolved)"
      and t0: "tbl0 = (if tbl_ID (fkStore resolved) \<noteq> tbl_ID (fkStore 0) \<and> EmptyTable = NewTable
                     then (fkStore 0)\<lparr>tbl_State := ADD\<rparr> else fkStore 0)"
      and td: "targetDesc = (if target = 0 then tbl0 else fkStore target)"
      and oc: "originColsLoop ?E (fkStore 0) (fkd_FromCols ?D) [] [] = Inr originCols"
      and rc: "resolveReferencedCols ?E targetDesc ?D originCols = Inr referencedCols"
      and cn: "resolveConstraintName ?E tbl0 targetDesc ?D = Inr constraintName"
      and oi: "ensureOriginIndex ?E EmptyTable tbl0 originCols (map col_ID originCols)
                 constraintName = (None, tbl1)"
      and o1: "tbl_OutboundFKs tbl1 = tbl_OutboundFKs (fkStore 0)"
      and i1: "tbl_InboundFKs tbl1 = tbl_InboundFKs (fkStore 0)"
      and rf: "ref = \<lparr> fk_OriginTableID = tbl_ID tbl1,
                     fk_OriginColumnIDs = map col_ID originCols,
                     fk_ReferencedColumnIDs = map col_ID referencedCols,
                     fk_ReferencedTableID = tbl_ID (if target = 0 then tbl1 else fkStore target),
                     fk_Name = constraintName,
                     fk_Validity =
                       (if EmptyTable = NewTable then Validated
                        else if ValidationSkip = ValidationSkip then Unvalidated
                        else Validating),
                     fk_OnDelete = ForeignKeyReferenceActionValue ?E (fkd_Actions_Delete ?D),
                     fk_OnUpdate = ForeignKeyReferenceActionValue ?E (fkd_Actions_Update ?D),
                     fk_Match = CompositeKeyMatchMethodValue ?E (fkd_Match ?D) \<rparr>"
      and h: "?M =
               (if EmptyTable = NewTable then
                  (if target = 0 then
                     fkStore(0 := tbl1\<lparr>tbl_OutboundFKs := tbl_OutboundFKs (fkStore 0) @ [ref],
                                      tbl_InboundFKs := tbl_InboundFKs (fkStore 0) @ [ref]\<rparr>)
                   else
                     fkStore(0 := tbl1\<lparr>tbl_OutboundFKs := tbl_OutboundFKs (fkStore 0) @ [ref]\<rparr>,
                          target := (fkStore target)
                            \<lparr>tbl_InboundFKs := tbl_InboundFKs (fkStore target) @ [ref]\<rparr>))
                else fkStore(0 := AddForeignKeyMutation ?E tbl1 ref Mutation_ADD))"
      by (elim exE conjE) (rule that)
    from t res [OF r] have tgt: "target = 1"
      by (simp add: fkStore_simps fkChild_simps fkParent_simps)
    from rf have v': "fk_Validity ref = Unvalidated" by simp
    from rf tgt have rt': "fk_ReferencedTableID ref = 52"
      by (simp add: fkStore_simps fkParent_simps)
    from h have h': "?M = fkStore(0 := AddForeignKeyMutation ?E tbl1 ref Mutation_ADD)"
      by simp
    from v' rt' h' show ?thesis by blast
  qed
  from k run1 a run2 b show ?thesis by blast
qed

text \<open>
  The foreign key of \<^verbatim>\<open>FOREIGN KEY (a) REFERENCES child (rowid)\<close> on the table \<open>child\<close>
  itself, for which the resolver gives the object at address 2.
\<close>

definition childSelfFK :: ForeignKeyConstraint where
  "childSelfFK =
     \<lparr> fk_OriginTableID = 53, fk_OriginColumnIDs = [1], fk_ReferencedColumnIDs = [3],
       fk_ReferencedTableID = 53, fk_Name = ''fk_a_ref_child'', fk_Validity = Validated,
       fk_OnDelete = NO_ACTION, fk_OnUpdate = NO_ACTION, fk_Match = SIMPLE \<rparr>"

lemma example_ResolveFK_self:
  "ResolveFK (exampleResolveEnv fkTables newVersion) fkStore Map.empty 0
       (references [''a''] ''child'' [''rowid''] NoAction) NewTable ValidationDefault
     = (None,
        fkStore(0 := fkChild\<lparr>tbl_OutboundFKs := [childSelfFK],
                             tbl_InboundFKs := [childSelfFK]\<rparr>),
        Map.empty)"
proof -
  let ?E = "exampleResolveEnv fkTables newVersion"
  let ?D = "references [''a''] ''child'' [''rowid''] NoAction"
  let ?rowid = "(intColumn ''rowid'' 3 False)\<lparr>col_Hidden := True\<rparr>"
  have "ResolveFK ?E fkStore Map.empty 0 ?D NewTable ValidationDefault =
          (None,
            addForeignKey ?E NewTable 0 0
              (foreignKeyConstraint ?E ((fkStore(0 := fkChild)) 0) ((fkStore(0 := fkChild)) 0) ?D
                 (map col_ID [intColumn ''a'' 1 True]) (map col_ID [?rowid])
                 ''fk_a_ref_child'' (constraintValidity NewTable ValidationDefault))
              (fkStore(0 := fkChild)),
            Map.empty)"
  proof (rule ResolveFK_run [where referencedIndex = "tbl_PrimaryIndex fkChild"])
    show "originColsLoop ?E (fkStore 0) (fkd_FromCols ?D) [] [] = Inr [intColumn ''a'' 1 True]"
      by (simp only: fkStore_simps references_simps example_originCols)
    show "resolveFKTarget ?E NewTable 0 ?D fkStore Map.empty = (Inr 0, fkStore, Map.empty)"
      by (simp add: resolveFKTarget_def exampleResolveEnv_simps references_simps fkTables_simps
          fkStore_simps fkChild_simps)
    show "resolveReferencedCols ?E (fkStore 0) ?D [intColumn ''a'' 1 True] = Inr [?rowid]"
      by (simp add: resolveReferencedCols_def exampleResolveEnv_simps references_simps
          lookupColumnByName_def fkChild_simps fkStore_simps intColumn_def)
    show "resolveConstraintName ?E (fkStore 0) (fkStore 0) ?D = Inr ''fk_a_ref_child''"
      by (simp add: resolveConstraintName_def exampleResolveEnv_simps references_simps
          fkChild_simps fkStore_simps)
    show "checkSetNullAndSetDefault ?D [intColumn ''a'' 1 True] = None"
      by (rule example_checkSetNull)
    show "ensureOriginIndex ?E NewTable (fkStore 0) [intColumn ''a'' 1 True]
            (map col_ID [intColumn ''a'' 1 True]) ''fk_a_ref_child'' = (None, fkChild)"
      by (simp add: example_no_index_needed fkStore_simps)
    show "FindFKReferencedIndex ?E ((fkStore(0 := fkChild)) 0) (map col_ID [?rowid])
            = Inr (tbl_PrimaryIndex fkChild)"
      by (simp add: exampleResolveEnv_simps fkChild_simps emptyIndex_def intColumn_def)
  qed
  then show ?thesis
    by (simp add: fkStore_simps fkChild_simps addForeignKey_def constraintValidity_def Let_def
        foreignKeyConstraint_def childSelfFK_def exampleResolveEnv_simps
        references_simps intColumn_def)
qed

text \<open>
  The theorem at \<^verbatim>\<open>FOREIGN KEY (a) REFERENCES child (rowid)\<close> on \<open>child\<close>, where the resolver
  gives a second object, at address 2, for the table: that object stays as it was.
\<close>

theorem ResolveFK_self_reference_witness:
  "ResolveMutableExistingTableObject (exampleResolveEnv fkTables newVersion)
       (fkd_Table (references [''a''] ''child'' [''rowid''] NoAction)) = Inr 2
   \<and> tbl_ID (fkStore 2) = tbl_ID (fkStore 0)
   \<and> ResolveFK (exampleResolveEnv fkTables newVersion) fkStore Map.empty 0
       (references [''a''] ''child'' [''rowid''] NoAction) NewTable ValidationDefault
     = (None,
        fkStore(0 := fkChild\<lparr>tbl_OutboundFKs := [childSelfFK],
                             tbl_InboundFKs := [childSelfFK]\<rparr>),
        Map.empty)
   \<and> (fkStore(0 := fkChild\<lparr>tbl_OutboundFKs := [childSelfFK],
                            tbl_InboundFKs := [childSelfFK]\<rparr>)) 2 = fkChild
   \<and> (\<exists>ref tbl1.
        fkChild\<lparr>tbl_OutboundFKs := [childSelfFK], tbl_InboundFKs := [childSelfFK]\<rparr>
          = tbl1\<lparr>tbl_OutboundFKs := tbl_OutboundFKs tbl1 @ [ref],
                 tbl_InboundFKs := tbl_InboundFKs tbl1 @ [ref]\<rparr>
        \<and> fk_OriginTableID ref = fk_ReferencedTableID ref)"
proof -
  let ?E = "exampleResolveEnv fkTables newVersion"
  let ?D = "references [''a''] ''child'' [''rowid''] NoAction"
  let ?h = "fkStore(0 := fkChild\<lparr>tbl_OutboundFKs := [childSelfFK],
                                   tbl_InboundFKs := [childSelfFK]\<rparr>)"
  have r: "ResolveMutableExistingTableObject ?E (fkd_Table ?D) = Inr 2"
    by (simp add: exampleResolveEnv_simps references_simps fkTables_simps)
  have i: "tbl_ID (fkStore 2) = tbl_ID (fkStore 0)"
    by (simp add: fkStore_simps)
  note t = ResolveFK_self_reference [OF r i example_ResolveFK_self]
  from t have two: "?h 2 = fkStore 2" by simp
  from t obtain ref tbl1 where
    "?h 0 = tbl1\<lparr>tbl_OutboundFKs := tbl_OutboundFKs tbl1 @ [ref],
                   tbl_InboundFKs := tbl_InboundFKs tbl1 @ [ref]\<rparr>"
    "fk_OriginTableID ref = tbl_ID tbl1" "fk_ReferencedTableID ref = tbl_ID tbl1"
    by blast
  then have "\<exists>ref tbl1.
        fkChild\<lparr>tbl_OutboundFKs := [childSelfFK], tbl_InboundFKs := [childSelfFK]\<rparr>
          = tbl1\<lparr>tbl_OutboundFKs := tbl_OutboundFKs tbl1 @ [ref],
                 tbl_InboundFKs := tbl_InboundFKs tbl1 @ [ref]\<rparr>
        \<and> fk_OriginTableID ref = fk_ReferencedTableID ref"
    by (intro exI [of _ ref] exI [of _ tbl1]) simp
  with r i two show ?thesis
    by (simp add: example_ResolveFK_self fkStore_simps)
qed

text \<open>
  The claim as stated fails at \<^verbatim>\<open>FOREIGN KEY (s) REFERENCES parent (a) ON DELETE SET NULL\<close>,
  where \<open>s\<close> is NOT NULL: the error is the \<^verbatim>\<open>DatatypeMismatch\<close> of the earlier check of the
  column types, and the origin table has been put in the state ADD.
\<close>

theorem ResolveFK_rejects_set_null_on_not_null_counterexample:
  "ResolveFK (exampleResolveEnv fkTables newVersion) fkStore Map.empty 0
       (references [''s''] ''parent'' [''a''] SetNull) NewTable ValidationDefault
     = (Some (PgError DatatypeMismatch
               ''type of %q (%s) does not match foreign key %q.%q (%s)''),
        fkStore(0 := fkChild\<lparr>tbl_State := ADD\<rparr>),
        [52 \<mapsto> 1])
   \<and> fkd_Actions_Delete (references [''s''] ''parent'' [''a''] SetNull) = SetNull
   \<and> originColsLoop (exampleResolveEnv fkTables newVersion) (fkStore 0)
        (fkd_FromCols (references [''s''] ''parent'' [''a''] SetNull)) [] []
       = Inr [(intColumn ''s'' 2 False)\<lparr>col_Type := types_String\<rparr>]
   \<and> col_Nullable ((intColumn ''s'' 2 False)\<lparr>col_Type := types_String\<rparr>) = False
   \<and> DatatypeMismatch \<noteq> InvalidForeignKey"
  by (simp add: example_ResolveFK_type_mismatch)
     (simp add: fkStore_simps references_simps exampleResolveEnv_simps lookupColumnByName_def
        fkChild_simps intColumn_def)

text \<open>
  The theorem at \<^verbatim>\<open>FOREIGN KEY (rowid) REFERENCES parent (a) ON DELETE SET NULL\<close>, where
  \<open>rowid\<close> is NOT NULL and of the type of \<open>parent.a\<close>: the error is \<^verbatim>\<open>InvalidForeignKey\<close>,
  \<open>parent\<close> is untouched and \<open>child\<close> has no outbound foreign key.
\<close>

theorem ResolveFK_rejects_set_null_on_not_null_witness:
  "(\<exists>msg. fst (ResolveFK (exampleResolveEnv fkTables newVersion) fkStore Map.empty 0
               (references [''rowid''] ''parent'' [''a''] SetNull) NewTable ValidationDefault)
           = Some (PgError InvalidForeignKey msg))
   \<and> fst (snd (ResolveFK (exampleResolveEnv fkTables newVersion) fkStore Map.empty 0
               (references [''rowid''] ''parent'' [''a''] SetNull) NewTable ValidationDefault)) 1
       = fkParent
   \<and> tbl_OutboundFKs (fst (snd (ResolveFK (exampleResolveEnv fkTables newVersion) fkStore
               Map.empty 0 (references [''rowid''] ''parent'' [''a''] SetNull) NewTable
               ValidationDefault)) 0) = []"
proof -
  let ?E = "exampleResolveEnv fkTables newVersion"
  let ?D = "references [''rowid''] ''parent'' [''a''] SetNull"
  let ?rowid = "(intColumn ''rowid'' 3 False)\<lparr>col_Hidden := True\<rparr>"
  let ?h1 = "fkStore(0 := fkChild\<lparr>tbl_State := ADD\<rparr>)"
  obtain err heap' backrefs' where
    run: "ResolveFK ?E fkStore Map.empty 0 ?D NewTable ValidationDefault = (err, heap', backrefs')"
    by (cases "ResolveFK ?E fkStore Map.empty 0 ?D NewTable ValidationDefault") auto
  have oc: "originColsLoop ?E (fkStore 0) (fkd_FromCols ?D) [] [] = Inr [?rowid]"
    by (simp add: fkStore_simps references_simps exampleResolveEnv_simps lookupColumnByName_def
        fkChild_simps intColumn_def)
  have cond: "((fkd_Actions_Delete ?D = SetNull \<or> fkd_Actions_Update ?D = SetNull)
              \<and> (\<exists>c \<in> set [?rowid]. \<not> col_Nullable c))
           \<or> ((fkd_Actions_Delete ?D = SetDefault \<or> fkd_Actions_Update ?D = SetDefault)
              \<and> (\<exists>c \<in> set [?rowid]. col_DefaultExpr c = None \<and> \<not> col_Nullable c))"
    by (simp add: references_simps intColumn_def)
  have tg: "resolveFKTarget ?E NewTable 0 ?D fkStore Map.empty = (Inr 1, ?h1, [52 \<mapsto> 1])"
    by (simp add: example_target)
  have rc: "resolveReferencedCols ?E (?h1 1) ?D [?rowid] = Inr [intColumn ''a'' 1 False]"
    by (simp add: resolveReferencedCols_def exampleResolveEnv_simps references_simps
        lookupColumnByName_def fkParent_simps fkStore_simps intColumn_def)
  have cn: "resolveConstraintName ?E (?h1 0) (?h1 1) ?D = Inr ''fk_rowid_ref_parent''"
    by (simp add: resolveConstraintName_def exampleResolveEnv_simps references_simps
        fkParent_simps fkChild_simps fkStore_simps)
  from ResolveFK_rejects_set_null_on_not_null [OF oc cond run,
      of 1 ?h1 "[52 \<mapsto> 1]" "[intColumn ''a'' 1 False]" "''fk_rowid_ref_parent''"] tg rc cn
  have "(\<exists>msg. err = Some (PgError InvalidForeignKey msg))" "heap' 1 = fkStore 1"
    "heap' 0 = (fkStore 0)\<lparr>tbl_State := tbl_State (heap' 0)\<rparr>"
    by auto
  moreover from this(3) have "tbl_OutboundFKs (heap' 0) = tbl_OutboundFKs (fkStore 0)"
    by (metis TableDescriptor.select_convs(9) TableDescriptor.surjective
        TableDescriptor.update_convs(5))
  ultimately show ?thesis
    by (simp add: run fkStore_simps fkChild_simps)
qed

end
